theory Spec2Isabelle
  imports Complex_Main "HOL-Library.Sublist" "HOL-Library.Multiset" "HOL-Library.AList"
begin

section \<open>Python values and errors\<close>

text \<open>
  The scripts under \<^verbatim>\<open>scripts/python\<close> are modelled as pure functions. Every
  exception the modelled code can raise is a constructor of \<open>py_error\<close>, and a function
  that can raise returns \<open>py_error + 'a\<close> with \<open>Inl\<close> for the exception.
  \<^item> \<open>DomainConflict file\<close>: the \<^verbatim>\<open>ValueError\<close> of \<^verbatim>\<open>create_exclusive_domains\<close>
    ("File conflict detected: file appears in multiple domains").
  \<^item> \<open>AgentConflict file agent owner\<close>: the \<^verbatim>\<open>ValueError\<close> of
    \<^verbatim>\<open>validate_no_conflicts\<close> ("CONFLICT: File is assigned to both agent and owner").
  \<^item> \<open>RemoveError\<close>: the \<^verbatim>\<open>ValueError\<close> of \<^verbatim>\<open>list.remove(x)\<close> when x is not in the list.
  \<^item> \<open>KeyError k\<close>: subscripting a dict with a missing key.
  \<^item> \<open>IndexError\<close>: \<^verbatim>\<open>xs[0]\<close> on an empty list.
  \<^item> \<open>TypeError\<close>: an operation on a value whose type does not support it; it stands
    for \<^verbatim>\<open>TypeError\<close> and \<^verbatim>\<open>AttributeError\<close>.
  \<^item> \<open>ValueError\<close>: \<^verbatim>\<open>int(s)\<close> on a string that is not an integer literal.
  \<^item> \<open>JSONDecodeError\<close>, \<open>OSError\<close>: reading the issue cache or writing the plan failed.
  \<^item> \<open>CalledProcessError\<close>: a command run with \<^verbatim>\<open>check=True\<close> returned non-zero.
\<close>

datatype py_error =
    DomainConflict string
  | AgentConflict string string string
  | RemoveError
  | KeyError string
  | IndexError
  | TypeError
  | ValueError
  | JSONDecodeError
  | OSError
  | CalledProcessError

text \<open>
  Sequencing: \<open>and_then m f\<close> is the exception of \<open>m\<close> when it raises, and \<open>f\<close>
  applied to its value otherwise.
\<close>

definition and_then :: "py_error + 'a \<Rightarrow> ('a \<Rightarrow> py_error + 'b) \<Rightarrow> py_error + 'b" where
  "and_then m f = (case m of Inl e \<Rightarrow> Inl e | Inr x \<Rightarrow> f x)"

text \<open>\<^verbatim>\<open>xs.remove(x)\<close>: removes the first element equal to x, raises when there is none.\<close>

definition py_remove :: "'a \<Rightarrow> 'a list \<Rightarrow> py_error + 'a list" where
  "py_remove x xs = (if x \<in> set xs then Inr (remove1 x xs) else Inl RemoveError)"

subsection \<open>Strings\<close>

text \<open>
  Strings are lists of 8-bit characters; the text handled is taken to be ASCII. The
  functions below are the \<^verbatim>\<open>str\<close> methods the scripts call, on ASCII text.
\<close>

definition py_lower_char :: "char \<Rightarrow> char" where
  "py_lower_char c =
     (case map_of (zip ''ABCDEFGHIJKLMNOPQRSTUVWXYZ'' ''abcdefghijklmnopqrstuvwxyz'') c of
        Some l \<Rightarrow> l | None \<Rightarrow> c)"

definition py_upper_char :: "char \<Rightarrow> char" where
  "py_upper_char c =
     (case map_of (zip ''abcdefghijklmnopqrstuvwxyz'' ''ABCDEFGHIJKLMNOPQRSTUVWXYZ'') c of
        Some u \<Rightarrow> u | None \<Rightarrow> c)"

definition py_lower :: "string \<Rightarrow> string" where
  "py_lower s = map py_lower_char s"

text \<open>\<^verbatim>\<open>s.capitalize()\<close>: first character upper case, the rest lower case.\<close>

definition py_capitalize :: "string \<Rightarrow> string" where
  "py_capitalize s = (case s of [] \<Rightarrow> [] | c # cs \<Rightarrow> py_upper_char c # py_lower cs)"

text \<open>The ASCII characters for which \<^verbatim>\<open>str.isspace\<close> holds and that \<^verbatim>\<open>\s\<close> matches.\<close>

definition py_isspace :: "char \<Rightarrow> bool" where
  "py_isspace c = (c \<in> set [CHR '' '', CHR 0x09, CHR 0x0A, CHR 0x0B, CHR 0x0C, CHR 0x0D,
                             CHR 0x1C, CHR 0x1D, CHR 0x1E, CHR 0x1F])"

definition py_isdigit :: "char \<Rightarrow> bool" where
  "py_isdigit c = (c \<in> set ''0123456789'')"

definition py_strip :: "string \<Rightarrow> string" where
  "py_strip s = rev (dropWhile py_isspace (rev (dropWhile py_isspace s)))"

text \<open>\<^verbatim>\<open>w in s\<close> on strings: w occurs in s as a contiguous substring.\<close>

fun py_in :: "string \<Rightarrow> string \<Rightarrow> bool" where
  "py_in w [] = (w = [])"
| "py_in w (c # cs) = (prefix w (c # cs) \<or> py_in w cs)"

text \<open>\<^verbatim>\<open>s.split(sep)\<close> for a one-character separator.\<close>

fun py_split :: "char \<Rightarrow> string \<Rightarrow> string list" where
  "py_split sep [] = [[]]"
| "py_split sep (c # cs) =
     (if c = sep then [] # py_split sep cs
      else (case py_split sep cs of l # ls \<Rightarrow> (c # l) # ls | [] \<Rightarrow> [[c]]))"

text \<open>\<^verbatim>\<open>s.replace(old, new)\<close>: the non-overlapping occurrences, from the left.\<close>

fun py_replace :: "string \<Rightarrow> string \<Rightarrow> string \<Rightarrow> string" where
  "py_replace old new [] = (if old = [] then new else [])"
| "py_replace old new (c # cs) =
     (if old = [] then new @ c # py_replace old new cs
      else if prefix old (c # cs) then new @ py_replace old new (drop (length old) (c # cs))
      else c # py_replace old new cs)"

text \<open>
  \<^verbatim>\<open>Path(file).name\<close>, \<^verbatim>\<open>.suffix\<close> and \<^verbatim>\<open>.stem\<close> of a POSIX path (pathlib of
  Python 3.11 to 3.13): the name is the last component that is neither empty nor
  \<^verbatim>\<open>.\<close>; the suffix starts at the last dot of the name when that dot is neither its first
  nor its last character.
\<close>

definition py_name :: "string \<Rightarrow> string" where
  "py_name file =
     (case rev (filter (\<lambda>part. part \<noteq> [] \<and> part \<noteq> ''.'') (py_split CHR ''/'' file)) of
        [] \<Rightarrow> [] | part # _ \<Rightarrow> part)"

definition py_rfind :: "char \<Rightarrow> string \<Rightarrow> nat option" where
  "py_rfind c s =
     (case filter (\<lambda>i. s ! i = c) (rev [0..<length s]) of [] \<Rightarrow> None | i # _ \<Rightarrow> Some i)"

definition py_suffix :: "string \<Rightarrow> string" where
  "py_suffix file =
     (let name = py_name file in
      case py_rfind CHR ''.'' name of
        None \<Rightarrow> []
      | Some i \<Rightarrow> if 0 < i \<and> i + 1 < length name then drop i name else [])"

definition py_stem :: "string \<Rightarrow> string" where
  "py_stem file =
     (let name = py_name file in
      case py_rfind CHR ''.'' name of
        None \<Rightarrow> name
      | Some i \<Rightarrow> if 0 < i \<and> i + 1 < length name then take i name else name)"

subsection \<open>Sets of strings\<close>

text \<open>
  \<^verbatim>\<open>list(set(xs))\<close>: the distinct elements of xs in the iteration order of a Python set,
  which depends on the string hashes of the process (they differ from run to run). The
  hash is the parameter \<open>h\<close>; every order of the distinct elements is the result for some
  \<open>h\<close>.
\<close>

definition py_list_of_set :: "(string \<Rightarrow> nat) \<Rightarrow> string list \<Rightarrow> string list" where
  "py_list_of_set h xs = sort_key h (remdups xs)"

subsection \<open>Documents\<close>

text \<open>
  A JSON or YAML document after parsing. A dict is an association list in insertion
  order, read with \<open>map_of\<close> and written with \<open>AList.update\<close> (a new key goes to the
  end, an existing key keeps its place), which is the behaviour of a Python dict.
\<close>

datatype yaml =
    YNull
  | YBool bool
  | YInt int
  | YReal real
  | YStr string
  | YList "yaml list"
  | YMap "(string \<times> yaml) list"

text \<open>
  \<^verbatim>\<open>key in d\<close> (for a dict its keys, for a list its elements, for a string its
  substrings), \<^verbatim>\<open>d.get(key)\<close> and \<^verbatim>\<open>d[key]\<close> on a parsed document, the truth value
  of a document, and the elements a \<^verbatim>\<open>for\<close> loop over it visits.
\<close>

definition py_contains :: "yaml \<Rightarrow> string \<Rightarrow> py_error + bool" where
  "py_contains d key =
     (case d of
        YMap kvs \<Rightarrow> Inr (map_of kvs key \<noteq> None)
      | YList vs \<Rightarrow> Inr (YStr key \<in> set vs)
      | YStr s \<Rightarrow> Inr (py_in key s)
      | _ \<Rightarrow> Inl TypeError)"

definition py_truthy :: "yaml \<Rightarrow> bool" where
  "py_truthy v =
     (case v of
        YNull \<Rightarrow> False
      | YBool b \<Rightarrow> b
      | YInt i \<Rightarrow> i \<noteq> 0
      | YReal r \<Rightarrow> r \<noteq> 0
      | YStr s \<Rightarrow> s \<noteq> []
      | YList vs \<Rightarrow> vs \<noteq> []
      | YMap kvs \<Rightarrow> kvs \<noteq> [])"

definition py_iter :: "yaml \<Rightarrow> py_error + yaml list" where
  "py_iter v =
     (case v of
        YList vs \<Rightarrow> Inr vs
      | YStr s \<Rightarrow> Inr (map (\<lambda>c. YStr [c]) s)
      | YMap kvs \<Rightarrow> Inr (map (\<lambda>kv. YStr (fst kv)) kvs)
      | _ \<Rightarrow> Inl TypeError)"

definition py_get :: "yaml \<Rightarrow> string \<Rightarrow> py_error + yaml option" where
  "py_get d key = (case d of YMap kvs \<Rightarrow> Inr (map_of kvs key) | _ \<Rightarrow> Inl TypeError)"

text \<open>\<^verbatim>\<open>d.get(key, default)\<close>, the value as it is stored.\<close>

definition py_get_default :: "yaml \<Rightarrow> string \<Rightarrow> yaml \<Rightarrow> py_error + yaml" where
  "py_get_default d key dflt =
     (case py_get d key of Inl e \<Rightarrow> Inl e | Inr None \<Rightarrow> Inr dflt | Inr (Some v) \<Rightarrow> Inr v)"

definition py_item :: "yaml \<Rightarrow> string \<Rightarrow> py_error + yaml" where
  "py_item d key =
     (case d of
        YMap kvs \<Rightarrow> (case map_of kvs key of None \<Rightarrow> Inl (KeyError key) | Some v \<Rightarrow> Inr v)
      | _ \<Rightarrow> Inl TypeError)"

definition as_str :: "yaml \<Rightarrow> py_error + string" where
  "as_str v = (case v of YStr s \<Rightarrow> Inr s | _ \<Rightarrow> Inl TypeError)"

fun as_str_list_aux :: "yaml list \<Rightarrow> py_error + string list" where
  "as_str_list_aux [] = Inr []"
| "as_str_list_aux (v # vs) =
     (case v of
        YStr s \<Rightarrow> (case as_str_list_aux vs of Inl e \<Rightarrow> Inl e | Inr ss \<Rightarrow> Inr (s # ss))
      | _ \<Rightarrow> Inl TypeError)"

definition as_str_list :: "yaml \<Rightarrow> py_error + string list" where
  "as_str_list v = (case v of YList vs \<Rightarrow> as_str_list_aux vs | _ \<Rightarrow> Inl TypeError)"

text \<open>
  \<^verbatim>\<open>d.get(key, default)\<close> read as a string or as a list of strings, for the code that
  uses the value as such; any other value is a \<open>TypeError\<close>.
\<close>

definition get_str :: "yaml \<Rightarrow> string \<Rightarrow> string \<Rightarrow> py_error + string" where
  "get_str d key dflt =
     (case py_get d key of
        Inl e \<Rightarrow> Inl e
      | Inr None \<Rightarrow> Inr dflt
      | Inr (Some v) \<Rightarrow> as_str v)"

definition get_str_list :: "yaml \<Rightarrow> string \<Rightarrow> string list \<Rightarrow> py_error + string list" where
  "get_str_list d key dflt =
     (case py_get d key of
        Inl e \<Rightarrow> Inl e
      | Inr None \<Rightarrow> Inr dflt
      | Inr (Some v) \<Rightarrow> as_str_list v)"



subsection \<open>Values of any type\<close>

text \<open>
  The operations below are defined on every parsed value, as the Python operations are:
  the scripts apply them to values read from a document without checking their type.
  A float is a finite real number.

  \<open>py_number\<close>: the value as a number, for the three numeric types (\<^verbatim>\<open>bool\<close> is a
  subclass of \<^verbatim>\<open>int\<close>). \<open>py_eq\<close> is \<^verbatim>\<open>==\<close>: numbers are equal when they denote the
  same number, strings and \<^verbatim>\<open>None\<close> when they are the same, lists when they have the same
  length and equal elements, dicts when they have the same number of keys and every key
  of the first is a key of the second with an equal value.
\<close>

definition py_number :: "yaml \<Rightarrow> real option" where
  "py_number v =
     (case v of
        YBool b \<Rightarrow> Some (if b then 1 else 0)
      | YInt i \<Rightarrow> Some (real_of_int i)
      | YReal r \<Rightarrow> Some r
      | _ \<Rightarrow> None)"

fun py_eq :: "yaml \<Rightarrow> yaml \<Rightarrow> bool"
  and py_eq_list :: "yaml list \<Rightarrow> yaml list \<Rightarrow> bool"
  and py_eq_items :: "(string \<times> yaml) list \<Rightarrow> (string \<times> yaml) list \<Rightarrow> bool" where
  "py_eq YNull w = (w = YNull)"
| "py_eq (YBool b) w = (py_number w = Some (if b then 1 else 0))"
| "py_eq (YInt i) w = (py_number w = Some (real_of_int i))"
| "py_eq (YReal r) w = (py_number w = Some r)"
| "py_eq (YStr s) w = (w = YStr s)"
| "py_eq (YList vs) w = (case w of YList ws \<Rightarrow> py_eq_list vs ws | _ \<Rightarrow> False)"
| "py_eq (YMap kvs) w =
     (case w of YMap kws \<Rightarrow> length kvs = length kws \<and> py_eq_items kvs kws | _ \<Rightarrow> False)"
| "py_eq_list [] ws = (ws = [])"
| "py_eq_list (v # vs) ws = (case ws of [] \<Rightarrow> False | w # ws' \<Rightarrow> py_eq v w \<and> py_eq_list vs ws')"
| "py_eq_items [] kws = True"
| "py_eq_items (kv # kvs) kws =
     ((case map_of kws (fst kv) of None \<Rightarrow> False | Some w \<Rightarrow> py_eq (snd kv) w) \<and>
      py_eq_items kvs kws)"

text \<open>\<^verbatim>\<open>len(v)\<close>: defined for lists, strings and dicts.\<close>

definition py_len :: "yaml \<Rightarrow> py_error + nat" where
  "py_len v =
     (case v of
        YList vs \<Rightarrow> Inr (length vs)
      | YStr s \<Rightarrow> Inr (length s)
      | YMap kvs \<Rightarrow> Inr (length kvs)
      | _ \<Rightarrow> Inl TypeError)"

text \<open>
  \<^verbatim>\<open>int(s)\<close> for a string: white space around the literal is dropped; the literal is an
  optional sign followed by decimal digits, with single underscores allowed between
  digits; more than 4300 digits are refused (the default limit of the interpreter).
\<close>

definition digit_value :: "char \<Rightarrow> nat" where
  "digit_value c = of_char c - 48"

definition py_int_literal :: "string \<Rightarrow> int option" where
  "py_int_literal s =
     (let t = py_strip s;
          negative = (t \<noteq> [] \<and> hd t = CHR ''-'');
          body = (if t \<noteq> [] \<and> (hd t = CHR ''-'' \<or> hd t = CHR ''+'') then tl t else t);
          digits = filter (\<lambda>c. c \<noteq> CHR ''_'') body
      in if body \<noteq> [] \<and> list_all (\<lambda>c. py_isdigit c \<or> c = CHR ''_'') body \<and>
            py_isdigit (hd body) \<and> py_isdigit (last body) \<and> \<not> py_in ''__'' body \<and>
            length digits \<le> 4300
         then Some ((if negative then - 1 else 1) *
                    int (foldl (\<lambda>n c. 10 * n + digit_value c) 0 digits))
         else None)"

text \<open>
  \<^verbatim>\<open>int(v)\<close>: an integer is itself, a Boolean is 0 or 1, a float is truncated towards
  zero, a string is read as a literal (\<^verbatim>\<open>ValueError\<close> when it is none); \<^verbatim>\<open>None\<close>, lists
  and dicts raise \<^verbatim>\<open>TypeError\<close>.
\<close>

definition py_int :: "yaml \<Rightarrow> py_error + int" where
  "py_int v =
     (case v of
        YInt i \<Rightarrow> Inr i
      | YBool b \<Rightarrow> Inr (if b then 1 else 0)
      | YReal r \<Rightarrow> Inr (if r \<ge> 0 then \<lfloor>r\<rfloor> else \<lceil>r\<rceil>)
      | YStr s \<Rightarrow> (case py_int_literal s of Some i \<Rightarrow> Inr i | None \<Rightarrow> Inl ValueError)
      | _ \<Rightarrow> Inl TypeError)"

text \<open>
  The text of a value in an f-string: a string is inserted as it is; the text of any
  other value (the digits of a number, the \<^verbatim>\<open>repr\<close> of a container) is given by the
  parameter \<open>fmt\<close>.
\<close>

definition format_value :: "(yaml \<Rightarrow> string) \<Rightarrow> yaml \<Rightarrow> string" where
  "format_value fmt v = (case v of YStr s \<Rightarrow> s | _ \<Rightarrow> fmt v)"

text \<open>
  \<^verbatim>\<open>list(set(vs))\<close> for values of any type: a list or a dict is not hashable and makes
  \<^verbatim>\<open>set\<close> raise; of equal values (such as 1 and 1.0) the set keeps the first; the order of
  iteration is that of the hashes, with the hash of the process as the parameter.
\<close>

definition py_hashable :: "yaml \<Rightarrow> bool" where
  "py_hashable v = (case v of YList vs \<Rightarrow> False | YMap kvs \<Rightarrow> False | _ \<Rightarrow> True)"

definition py_distinct :: "yaml list \<Rightarrow> yaml list" where
  "py_distinct vs = fold (\<lambda>v seen. if list_ex (\<lambda>x. py_eq x v) seen then seen else seen @ [v]) vs []"

definition py_list_of_value_set :: "(yaml \<Rightarrow> nat) \<Rightarrow> yaml list \<Rightarrow> py_error + yaml list" where
  "py_list_of_value_set h vs =
     (if list_all py_hashable vs then Inr (sort_key h (py_distinct vs)) else Inl TypeError)"

text \<open>
  \<^verbatim>\<open>xs.remove(x)\<close> with the equality spelled out: \<open>same\<close> holds for the elements that
  are x itself or equal to it.
\<close>

fun py_remove_by :: "('a \<Rightarrow> bool) \<Rightarrow> 'a list \<Rightarrow> py_error + 'a list" where
  "py_remove_by same [] = Inl RemoveError"
| "py_remove_by same (x # xs) =
     (if same x then Inr xs
      else (case py_remove_by same xs of Inl e \<Rightarrow> Inl e | Inr ys \<Rightarrow> Inr (x # ys)))"
section \<open>Data model (decompose-parallel.py)\<close>

text \<open>
  The dataclasses \<^verbatim>\<open>LinearIssue\<close>, \<^verbatim>\<open>FileOperation\<close>, \<^verbatim>\<open>WorkDomain\<close> and
  \<^verbatim>\<open>Agent\<close>. A field \<^verbatim>\<open>id\<close> is named after its class (\<open>issue_id\<close>, \<open>wd_id\<close>,
  \<open>agent_id\<close>), and the fields of \<^verbatim>\<open>WorkDomain\<close> carry the prefix \<open>wd_\<close>. Dataclass
  equality compares all fields, as record equality does.
\<close>

record linear_issue =
  issue_id :: string
  title :: string
  description :: string
  issue_requirements :: "string list"

record file_operation =
  operation :: string
  domain :: string
  requirement :: string

record work_domain =
  wd_id :: string
  wd_role :: string
  wd_focus_area :: string
  wd_estimated_time :: int
  wd_complexity :: string
  wd_type :: string
  wd_dependencies :: "string list"

record agent =
  agent_id :: string
  role :: string
  focus_area :: string
  dependencies :: "string list"
  files_to_create :: "string list"
  files_to_modify :: "string list"
  test_contracts :: "string list"
  validation_criteria :: "string list"
  estimated_time :: int
  requirements :: "string list"
  can_start_immediately :: bool

text \<open>
  An entry of a list in \<^verbatim>\<open>all_file_operations\<close>: the dict with the keys
  \<^verbatim>\<open>operation\<close>, \<^verbatim>\<open>requirement\<close> and \<^verbatim>\<open>agent\<close> (always \<^verbatim>\<open>None\<close>).
\<close>

record op_entry =
  entry_operation :: file_operation
  entry_requirement :: string
  entry_agent :: "string option"

text \<open>
  A rule of the table \<^verbatim>\<open>patterns\<close>: the predicate on the lower-cased requirement,
  the domain tag, and the files with their actions in the order of the dict literal.
\<close>

record rule =
  condition :: "string \<Rightarrow> bool"
  rule_domain :: string
  rule_files :: "(string \<times> string) list"

text \<open>
  The mutable attributes of \<^verbatim>\<open>ExclusiveOwnershipDecomposer\<close>. The attribute
  \<^verbatim>\<open>linear_issue\<close> is assigned once, by \<^verbatim>\<open>load_linear_issue\<close>, before anything
  reads it; the functions that read it take the issue as an argument.
\<close>

record decomposer =
  all_file_operations :: "(string \<times> op_entry list) list"
  dependency_graph :: "(string \<times> string list) list"
  exclusive_domains :: "(string \<times> string list) list"
  agent_ownership :: "(string \<times> string list) list"

definition init_decomposer :: decomposer where
  "init_decomposer =
     \<lparr>all_file_operations = [], dependency_graph = [], exclusive_domains = [],
      agent_ownership = []\<rparr>"

section \<open>RequirementExtractor: extract_requirements, load_linear_issue\<close>

text \<open>
  \<^verbatim>\<open>re.match(r"^\s*\d+\.\s*(.+)", line)\<close>, returning group 1 of a match. After the
  digits and the dot, \<^verbatim>\<open>\s*\<close> takes all the white space; \<^verbatim>\<open>(.+)\<close> then takes the
  characters up to the next newline. When nothing but white space follows the dot, the
  matcher backtracks and the group is the last character that is not a newline.
\<close>

definition match_numbered :: "string \<Rightarrow> string option" where
  "match_numbered line =
     (let l1 = dropWhile py_isspace line;
          digits = takeWhile py_isdigit l1;
          l2 = dropWhile py_isdigit l1
      in if digits = [] then None
         else (case l2 of
                 [] \<Rightarrow> None
               | c # r \<Rightarrow>
                   if c \<noteq> CHR ''.'' then None
                   else (let r' = dropWhile py_isspace r in
                         if r' \<noteq> [] then Some (takeWhile (\<lambda>x. x \<noteq> CHR 0x0A) r')
                         else (case rev (filter (\<lambda>x. x \<noteq> CHR 0x0A) r) of
                                 [] \<Rightarrow> None
                               | x # _ \<Rightarrow> Some [x]))))"

definition extract_requirements :: "string \<Rightarrow> string list" where
  "extract_requirements descr =
     (let requirements =
            List.map_filter (\<lambda>line. map_option py_strip (match_numbered line))
              (py_split CHR 0x0A descr)
      in if requirements = [] then [py_strip descr] else requirements)"

text \<open>
  The cache file \<^verbatim>\<open>.linear-cache/<issue_id>.json\<close>: absent, not parsable, or parsed.
  The description must be a string, since \<^verbatim>\<open>extract_requirements\<close> splits it. The
  identifier and the title are read as strings, which is what \<^verbatim>\<open>cache-linear-issue.py\<close>
  writes; for a cache holding another value there the model raises here, where the script
  stores the value and raises later or not at all (when the plan file is named or the
  summary table is printed).
\<close>

datatype cache_file = NoCacheFile | CacheUnreadable | CacheJson yaml

definition load_linear_issue :: "cache_file \<Rightarrow> string \<Rightarrow> py_error + linear_issue" where
  "load_linear_issue cache iid =
     (case cache of
        NoCacheFile \<Rightarrow>
          Inr \<lparr>issue_id = iid, title = ''Issue '' @ iid,
               description = ''Fallback issue description'',
               issue_requirements = [''Implement '' @ iid @ '' functionality'']\<rparr>
      | CacheUnreadable \<Rightarrow> Inl JSONDecodeError
      | CacheJson issue_data \<Rightarrow>
          and_then (get_str issue_data ''identifier'' iid) (\<lambda>ident.
          and_then (get_str issue_data ''title'' ''Linear Issue'') (\<lambda>ttl.
          and_then (get_str issue_data ''description'' []) (\<lambda>descr.
            Inr \<lparr>issue_id = ident, title = ttl, description = descr,
                 issue_requirements = extract_requirements descr\<rparr>))))"

section \<open>FileOperationAnalyzer\<close>

text \<open>\<^verbatim>\<open>any(word in req for word in words)\<close>, the shape of every condition of the table.\<close>

definition any_word :: "string list \<Rightarrow> string \<Rightarrow> bool" where
  "any_word words req = list_ex (\<lambda>word. py_in word req) words"

definition create_files :: "string list \<Rightarrow> (string \<times> string) list" where
  "create_files fs = map (\<lambda>f. (f, ''CREATE'')) fs"

text \<open>The table \<^verbatim>\<open>patterns\<close> of \<^verbatim>\<open>extract_file_operations_from_requirement\<close>.\<close>

definition patterns :: "rule list" where
  "patterns =
     [\<lparr>condition = any_word [''auth'', ''login'', ''token''], rule_domain = ''auth'',
       rule_files = create_files [''lib/auth/authentication.ts'', ''lib/auth/token-manager.ts'',
                                  ''middleware/auth.ts'', ''types/auth.ts'']\<rparr>,
      \<lparr>condition = any_word [''form'', ''validation'', ''input''], rule_domain = ''forms'',
       rule_files = create_files [''components/forms/DynamicForm.tsx'', ''lib/form-validation.ts'',
                                  ''hooks/useFormState.ts'', ''types/form.ts'']\<rparr>,
      \<lparr>condition = any_word [''api'', ''endpoint'', ''server''], rule_domain = ''backend'',
       rule_files = create_files [''pages/api/[...slug].ts'', ''lib/api/client.ts'',
                                  ''lib/api/handlers.ts'', ''types/api.ts'']\<rparr>,
      \<lparr>condition = any_word [''data'', ''storage'', ''database''], rule_domain = ''data'',
       rule_files = create_files [''lib/database/queries.ts'', ''lib/database/models.ts'',
                                  ''lib/storage/manager.ts'', ''types/data.ts'']\<rparr>,
      \<lparr>condition = any_word [''docker'', ''deploy'', ''infrastructure''],
       rule_domain = ''infrastructure'',
       rule_files = create_files [''Dockerfile'', ''docker-compose.yml'', ''scripts/deploy.sh'',
                                  ''scripts/build.sh'']\<rparr>,
      \<lparr>condition = any_word [''write'', ''file operations'', ''create files''],
       rule_domain = ''file_operations'',
       rule_files = create_files [''lib/operations/write-operations.ts'',
                                  ''lib/operations/file-writer.ts'',
                                  ''lib/validation/write-validation.ts'', ''types/operations.ts'']\<rparr>,
      \<lparr>condition = any_word [''component'', ''ui'', ''interface''], rule_domain = ''ui'',
       rule_files = create_files [''components/ui/Button.tsx'', ''components/ui/Input.tsx'',
                                  ''components/common/Layout.tsx'', ''styles/components.css'']\<rparr>]"

text \<open>
  \<^verbatim>\<open>extract_file_operations_from_requirement\<close> with the rule table as a parameter:
  the rules whose condition holds of the lower-cased requirement are applied in table
  order, each assigning \<^verbatim>\<open>operations[file]\<close> for its files.
\<close>

definition apply_rule :: "string \<Rightarrow> rule \<Rightarrow> (string \<times> file_operation) list \<Rightarrow>
    (string \<times> file_operation) list" where
  "apply_rule req p operations =
     fold (\<lambda>(file, opn) ops.
             AList.update file \<lparr>operation = opn, domain = rule_domain p, requirement = req\<rparr> ops)
       (rule_files p) operations"

definition extract_file_operations_with :: "rule list \<Rightarrow> string \<Rightarrow>
    (string \<times> file_operation) list" where
  "extract_file_operations_with table req =
     (let req_lower = py_lower req;
          matching_patterns = filter (\<lambda>p. condition p req_lower) table
      in fold (apply_rule req) matching_patterns [])"

definition extract_file_operations_from_requirement :: "string \<Rightarrow>
    (string \<times> file_operation) list" where
  "extract_file_operations_from_requirement req = extract_file_operations_with patterns req"

text \<open>
  The body of the inner loop of \<^verbatim>\<open>analyze_file_operations\<close>: create the list for a new
  file, then append the entry.
\<close>

definition add_operation :: "string \<Rightarrow> string \<times> file_operation \<Rightarrow>
    (string \<times> op_entry list) list \<Rightarrow> (string \<times> op_entry list) list" where
  "add_operation req fo afo =
     (let entry = \<lparr>entry_operation = snd fo, entry_requirement = req, entry_agent = None\<rparr>
      in case map_of afo (fst fo) of
           None \<Rightarrow> AList.update (fst fo) [entry] afo
         | Some entries \<Rightarrow> AList.update (fst fo) (entries @ [entry]) afo)"

definition analyze_file_operations_with :: "rule list \<Rightarrow> linear_issue \<Rightarrow> decomposer \<Rightarrow>
    decomposer" where
  "analyze_file_operations_with table issue d =
     d\<lparr>all_file_operations :=
         fold (\<lambda>req afo. fold (add_operation req) (extract_file_operations_with table req) afo)
           (issue_requirements issue) (all_file_operations d)\<rparr>"

section \<open>DependencyGraphBuilder\<close>

text \<open>
  A rule of \<^verbatim>\<open>dependency_rules\<close>. Each regular expression of the source is anchored
  at the start and is an alternative of literal prefixes, listed in \<open>dr_prefixes\<close>.
\<close>

record dependency_rule =
  dr_prefixes :: "string list"
  dependents :: "string list"

definition dependency_rules :: "dependency_rule list" where
  "dependency_rules =
     [\<lparr>dr_prefixes = [''types/''], dependents = [''lib/'', ''components/'', ''pages/'']\<rparr>,
      \<lparr>dr_prefixes = [''lib/auth/''], dependents = [''middleware/'', ''pages/api/'']\<rparr>,
      \<lparr>dr_prefixes = [''lib/database/''], dependents = [''pages/api/'', ''lib/api/'']\<rparr>,
      \<lparr>dr_prefixes = [''components/common/''], dependents = [''components/'', ''pages/'']\<rparr>,
      \<lparr>dr_prefixes = [''Dockerfile'', ''docker-compose.yml'', ''scripts/''],
       dependents = [''**'']\<rparr>]"

definition file_dependencies :: "string list \<Rightarrow> string \<Rightarrow> string list" where
  "file_dependencies all_files file =
     concat (map (\<lambda>r.
       if list_ex (\<lambda>p. prefix p file) (dr_prefixes r)
       then concat (map (\<lambda>other_file.
              if other_file \<noteq> file
              then concat (map (\<lambda>dep.
                     if dep = ''**'' \<or> prefix (py_replace ''/'' [] dep) other_file
                     then [other_file] else []) (dependents r))
              else []) all_files)
       else []) dependency_rules)"

definition build_dependency_graph :: "decomposer \<Rightarrow> decomposer" where
  "build_dependency_graph d =
     (let all_files = map fst (all_file_operations d)
      in d\<lparr>dependency_graph :=
             fold (\<lambda>file g. AList.update file (file_dependencies all_files file) g)
               all_files (dependency_graph d)\<rparr>)"

section \<open>DomainPartitioner: create_exclusive_domains\<close>

text \<open>
  The grouping loop: \<^verbatim>\<open>operations[0]\<close> raises on an empty list;
  \<^verbatim>\<open>domain_groups\<close> is a \<^verbatim>\<open>defaultdict(list)\<close>.
\<close>

fun group_by_domain :: "(string \<times> op_entry list) list \<Rightarrow> (string \<times> string list) list \<Rightarrow>
    py_error + (string \<times> string list) list" where
  "group_by_domain [] groups = Inr groups"
| "group_by_domain ((file, operations) # rest) groups =
     (case operations of
        [] \<Rightarrow> Inl IndexError
      | first # _ \<Rightarrow>
          (let dmn = domain (entry_operation first)
           in group_by_domain rest
                (case map_of groups dmn of
                   None \<Rightarrow> AList.update dmn [file] groups
                 | Some files \<Rightarrow> AList.update dmn (files @ [file]) groups)))"

text \<open>The check that no file appears in two domains, with the set \<^verbatim>\<open>all_domain_files\<close>.\<close>

fun check_files :: "string set \<Rightarrow> string list \<Rightarrow> py_error + string set" where
  "check_files seen [] = Inr seen"
| "check_files seen (file # files) =
     (if file \<in> seen then Inl (DomainConflict file) else check_files (insert file seen) files)"

fun check_domains :: "string set \<Rightarrow> (string \<times> string list) list \<Rightarrow> py_error + string set" where
  "check_domains seen [] = Inr seen"
| "check_domains seen ((dmn, files) # rest) =
     (case check_files seen files of
        Inl e \<Rightarrow> Inl e
      | Inr seen' \<Rightarrow> check_domains seen' rest)"

definition create_exclusive_domains :: "decomposer \<Rightarrow> py_error + decomposer" where
  "create_exclusive_domains d =
     (case group_by_domain (all_file_operations d) [] of
        Inl e \<Rightarrow> Inl e
      | Inr domain_groups \<Rightarrow>
          (let domains = fold (\<lambda>(dmn, files) ed. AList.update dmn files ed) domain_groups
                           (exclusive_domains d)
           in case check_domains {} domains of
                Inl e \<Rightarrow> Inl e
              | Inr _ \<Rightarrow> Inr (d\<lparr>exclusive_domains := domains\<rparr>)))"

section \<open>AgentSynthesizer: create_agent_for_domain, generate_exclusive_agents\<close>

definition domain_configs :: "(string \<times> work_domain) list" where
  "domain_configs =
     [(''auth'', \<lparr>wd_id = ''auth_agent'', wd_role = ''Authentication & Authorization'',
         wd_focus_area = ''Authentication'', wd_estimated_time = 35, wd_complexity = ''high'',
         wd_type = ''security'', wd_dependencies = []\<rparr>),
      (''forms'', \<lparr>wd_id = ''forms_agent'', wd_role = ''Form Components & Validation'',
         wd_focus_area = ''Forms'', wd_estimated_time = 25, wd_complexity = ''medium'',
         wd_type = ''frontend'', wd_dependencies = [''auth_agent'']\<rparr>),
      (''backend'', \<lparr>wd_id = ''backend_agent'', wd_role = ''API Endpoints & Server Logic'',
         wd_focus_area = ''Backend'', wd_estimated_time = 40, wd_complexity = ''high'',
         wd_type = ''backend'', wd_dependencies = [''data_agent'']\<rparr>),
      (''data'', \<lparr>wd_id = ''data_agent'', wd_role = ''Database & Data Management'',
         wd_focus_area = ''Data'', wd_estimated_time = 30, wd_complexity = ''high'',
         wd_type = ''data'', wd_dependencies = []\<rparr>),
      (''infrastructure'', \<lparr>wd_id = ''infrastructure_agent'',
         wd_role = ''Infrastructure & Deployment'', wd_focus_area = ''Infrastructure'',
         wd_estimated_time = 20, wd_complexity = ''medium'', wd_type = ''infrastructure'',
         wd_dependencies = []\<rparr>),
      (''file_operations'', \<lparr>wd_id = ''file_operations_agent'',
         wd_role = ''File Operations & Write Capabilities'', wd_focus_area = ''File Operations'',
         wd_estimated_time = 30, wd_complexity = ''medium'', wd_type = ''feature'',
         wd_dependencies = [''data_agent'']\<rparr>),
      (''ui'', \<lparr>wd_id = ''ui_agent'', wd_role = ''UI Components & Interface'',
         wd_focus_area = ''UI'', wd_estimated_time = 25, wd_complexity = ''medium'',
         wd_type = ''frontend'', wd_dependencies = [''auth_agent'']\<rparr>)]"

text \<open>\<^verbatim>\<open>domain_configs.get(domain, WorkDomain(...))\<close>.\<close>

definition domain_config :: "string \<Rightarrow> work_domain" where
  "domain_config dmn =
     (case map_of domain_configs dmn of
        Some config \<Rightarrow> config
      | None \<Rightarrow>
          \<lparr>wd_id = dmn @ ''_agent'', wd_role = py_capitalize dmn @ '' Implementation'',
           wd_focus_area = dmn, wd_estimated_time = 25, wd_complexity = ''medium'',
           wd_type = ''feature'', wd_dependencies = []\<rparr>)"

text \<open>
  The loop separating the files into CREATE and MODIFY;
  \<^verbatim>\<open>self.all_file_operations[file]\<close> raises on a missing key.
\<close>

fun separate_files :: "(string \<times> op_entry list) list \<Rightarrow> string list \<Rightarrow>
    string list \<times> string list \<Rightarrow> py_error + (string list \<times> string list)" where
  "separate_files afo [] (to_create, to_modify) = Inr (to_create, to_modify)"
| "separate_files afo (file # files) (to_create, to_modify) =
     (case map_of afo file of
        None \<Rightarrow> Inl (KeyError file)
      | Some operations \<Rightarrow>
          if (case operations of
                [] \<Rightarrow> False
              | first # _ \<Rightarrow> operation (entry_operation first) = ''CREATE'')
          then separate_files afo files (to_create @ [file], to_modify)
          else separate_files afo files (to_create, to_modify @ [file]))"

definition generate_test_contracts :: "string \<Rightarrow> string list \<Rightarrow> string list" where
  "generate_test_contracts dmn files =
     map (\<lambda>file. py_stem file @ (if py_suffix file = ''.tsx'' then ''.test.tsx'' else ''.test.ts''))
       (take 3 files)"

definition generate_validation_criteria :: "string \<Rightarrow> string list \<Rightarrow> string list" where
  "generate_validation_criteria dmn files =
     [''All '' @ dmn @ '' files are created successfully'',
      dmn @ '' functionality works as expected'',
      ''No errors in '' @ dmn @ '' implementation'',
      dmn @ '' tests pass successfully'']"

fun collect_requirements :: "string \<Rightarrow> (string \<times> op_entry list) list \<Rightarrow> string list \<Rightarrow>
    py_error + string list" where
  "collect_requirements dmn [] reqs = Inr reqs"
| "collect_requirements dmn ((file, operations) # rest) reqs =
     (case operations of
        [] \<Rightarrow> Inl IndexError
      | first # _ \<Rightarrow>
          if domain (entry_operation first) = dmn
          then collect_requirements dmn rest (reqs @ map entry_requirement operations)
          else collect_requirements dmn rest reqs)"

definition get_requirements_for_domain :: "(string \<Rightarrow> nat) \<Rightarrow> decomposer \<Rightarrow> string \<Rightarrow>
    py_error + string list" where
  "get_requirements_for_domain h d dmn =
     (case collect_requirements dmn (all_file_operations d) [] of
        Inl e \<Rightarrow> Inl e
      | Inr reqs \<Rightarrow> Inr (py_list_of_set h reqs))"

definition create_agent_for_domain :: "(string \<Rightarrow> nat) \<Rightarrow> decomposer \<Rightarrow> string \<Rightarrow>
    string list \<Rightarrow> py_error + agent" where
  "create_agent_for_domain h d dmn files =
     (let config = domain_config dmn
      in and_then (separate_files (all_file_operations d) files ([], [])) (\<lambda>(to_create, to_modify).
         and_then (get_requirements_for_domain h d dmn) (\<lambda>reqs.
           Inr \<lparr>agent_id = wd_id config, role = wd_role config,
                focus_area = wd_focus_area config,
                dependencies = wd_dependencies config,
                files_to_create = to_create, files_to_modify = to_modify,
                test_contracts = generate_test_contracts dmn files,
                validation_criteria = generate_validation_criteria dmn files,
                estimated_time = wd_estimated_time config,
                requirements = reqs,
                can_start_immediately = (wd_dependencies config = [])\<rparr>)))"

text \<open>
  The loop of \<^verbatim>\<open>generate_exclusive_agents\<close> over \<^verbatim>\<open>self.exclusive_domains.items()\<close>,
  with the list \<^verbatim>\<open>agents\<close> and the dict \<^verbatim>\<open>self.agent_ownership\<close> as accumulators.
\<close>

fun agents_loop :: "(string \<Rightarrow> nat) \<Rightarrow> decomposer \<Rightarrow> (string \<times> string list) list \<Rightarrow>
    agent list \<Rightarrow> py_error + (agent list \<times> decomposer)" where
  "agents_loop h d [] agents = Inr (agents, d)"
| "agents_loop h d ((dmn, files) # rest) agents =
     (case create_agent_for_domain h d dmn files of
        Inl e \<Rightarrow> Inl e
      | Inr a \<Rightarrow>
          agents_loop h
            (d\<lparr>agent_ownership := AList.update (agent_id a) files (agent_ownership d)\<rparr>)
            rest (agents @ [a]))"

definition generate_exclusive_agents :: "(string \<Rightarrow> nat) \<Rightarrow> decomposer \<Rightarrow>
    py_error + (agent list \<times> decomposer)" where
  "generate_exclusive_agents h d = agents_loop h d (exclusive_domains d) []"

section \<open>ConflictValidator: validate_no_conflicts\<close>

fun validate_files :: "agent \<Rightarrow> (string \<times> string) list \<Rightarrow> string list \<Rightarrow>
    py_error + (string \<times> string) list" where
  "validate_files a file_ownership [] = Inr file_ownership"
| "validate_files a file_ownership (file # files) =
     (case map_of file_ownership file of
        Some owner \<Rightarrow> Inl (AgentConflict file (agent_id a) owner)
      | None \<Rightarrow> validate_files a (AList.update file (agent_id a) file_ownership) files)"

fun validate_agents :: "(string \<times> string) list \<Rightarrow> agent list \<Rightarrow>
    py_error + (string \<times> string) list" where
  "validate_agents file_ownership [] = Inr file_ownership"
| "validate_agents file_ownership (a # agents) =
     (case validate_files a file_ownership (files_to_create a @ files_to_modify a) of
        Inl e \<Rightarrow> Inl e
      | Inr file_ownership' \<Rightarrow> validate_agents file_ownership' agents)"

definition validate_no_conflicts :: "agent list \<Rightarrow> py_error + (string \<times> string) list" where
  "validate_no_conflicts agents = validate_agents [] agents"

section \<open>MergeOrderScheduler: calculate_merge_order\<close>

text \<open>
  The comprehension condition of \<^verbatim>\<open>ready\<close>:
  \<^verbatim>\<open>not agent.dependencies or all(dep in ordered for dep in agent.dependencies)\<close>.
\<close>

definition is_ready :: "string list \<Rightarrow> agent \<Rightarrow> bool" where
  "is_ready ordered a =
     (dependencies a = [] \<or> list_all (\<lambda>dep. dep \<in> set ordered) (dependencies a))"

text \<open>
  The \<^verbatim>\<open>while remaining:\<close> loop, with the two local lists as arguments. The
  \<^verbatim>\<open>break\<close> of the fallback branch is the non-recursive case.
\<close>

function merge_loop :: "string list \<Rightarrow> agent list \<Rightarrow> py_error + string list" where
  "merge_loop ordered remaining =
     (if remaining = [] then Inr ordered
      else (case filter (is_ready ordered) remaining of
              [] \<Rightarrow> Inr (ordered @ map agent_id remaining)
            | next_agent # _ \<Rightarrow>
                (case py_remove next_agent remaining of
                   Inl e \<Rightarrow> Inl e
                 | Inr remaining' \<Rightarrow> merge_loop (ordered @ [agent_id next_agent]) remaining')))"
  by pat_completeness auto
termination
proof (relation "measure (\<lambda>(ordered, remaining). length remaining)")
  show "wf (measure (\<lambda>(ordered, remaining). length remaining))" by simp
next
  fix ordered :: "string list" and remaining remaining' :: "agent list" and next_agent x
  assume "remaining \<noteq> []" and "py_remove next_agent remaining = Inr remaining'"
  then have "next_agent \<in> set remaining" and "remaining' = remove1 next_agent remaining"
    by (auto simp: py_remove_def split: if_splits)
  then have "length remaining' < length remaining"
    using \<open>remaining \<noteq> []\<close> by (simp add: length_remove1)
  then show "((ordered @ [agent_id next_agent], remaining'), (ordered, remaining))
               \<in> measure (\<lambda>(ordered, remaining). length remaining)"
    by simp
qed

declare merge_loop.simps [simp del]

definition calculate_merge_order :: "agent list \<Rightarrow> py_error + string list" where
  "calculate_merge_order agents = merge_loop [] agents"

section \<open>DeploymentPlanStore: agent_to_dict, generate_deployment_plan, save_deployment_plan\<close>

definition str_list :: "string list \<Rightarrow> yaml" where
  "str_list xs = YList (map YStr xs)"

definition agent_to_dict :: "agent \<Rightarrow> yaml" where
  "agent_to_dict a =
     YMap [(''agentId'', YStr (agent_id a)),
           (''agentRole'', YStr (role a)),
           (''focusArea'', YStr (focus_area a)),
           (''dependencies'', str_list (dependencies a)),
           (''filesToCreate'', str_list (files_to_create a)),
           (''filesToModify'', str_list (files_to_modify a)),
           (''testContracts'', str_list (test_contracts a)),
           (''validationCriteria'', str_list (validation_criteria a)),
           (''estimatedTime'', YInt (estimated_time a)),
           (''canStartImmediately'', YBool (can_start_immediately a))]"

definition generate_deployment_plan :: "linear_issue \<Rightarrow> decomposer \<Rightarrow> agent list \<Rightarrow>
    py_error + yaml" where
  "generate_deployment_plan issue d agents =
     (case calculate_merge_order agents of
        Inl e \<Rightarrow> Inl e
      | Inr merge_order \<Rightarrow>
          Inr (YMap
            [(''taskId'', YStr (issue_id issue)),
             (''taskTitle'', YStr (title issue)),
             (''decompositionStrategy'', YStr ''exclusive_ownership''),
             (''conflictResolution'', YStr ''eliminated_by_design''),
             (''parallelAgents'', YList (map agent_to_dict agents)),
             (''integrationPlan'', YMap
                [(''mergeOrder'', str_list merge_order),
                 (''validationSteps'', str_list
                    [''Validate exclusive file ownership'', ''Run individual agent tests'',
                     ''Integration testing'', ''Full system validation''])]),
             (''exclusiveOwnership'', YMap
                [(''validated'', YBool True),
                 (''totalFiles'', YInt (int (length (all_file_operations d)))),
                 (''agentOwnership'',
                    YMap (map (\<lambda>(a, files). (a, str_list files)) (agent_ownership d)))])]))"

text \<open>
  \<^verbatim>\<open>save_deployment_plan\<close> writes the plan to
  \<^verbatim>\<open>shared/deployment-plans/<issue id, lower case>-deployment-plan.yaml\<close>. The result is
  the file written: its name and its content. A document written with \<^verbatim>\<open>yaml.dump\<close> and
  read back with \<^verbatim>\<open>yaml.safe_load\<close> is taken to be the same document.
\<close>

definition plan_filename :: "string \<Rightarrow> string" where
  "plan_filename iid = py_lower iid @ ''-deployment-plan.yaml''"

definition save_deployment_plan :: "bool \<Rightarrow> yaml \<Rightarrow> string \<Rightarrow> py_error + (string \<times> yaml)" where
  "save_deployment_plan writable plan iid =
     (if writable then Inr (plan_filename iid, plan) else Inl OSError)"

section \<open>HybridAnalyzer: try_hybrid_analysis, convert_llm_result_to_deployment_plan\<close>

text \<open>
  The analyzer \<^verbatim>\<open>utils.llm_decomposer.LLMDecomposer\<close> is not part of the sources at
  hand; what it does is a parameter: the import fails, the call raises, or it returns a
  document.
\<close>

datatype analyzer_outcome = ImportFailed | AnalyzerRaised | Returned yaml

text \<open>
  The dataclass \<^verbatim>\<open>Agent\<close> does not check what its fields hold. The pattern-based
  synthesis fills them with strings, lists of strings and an integer (the record
  \<open>agent\<close>); the conversion of an analyzer result stores the values of the document as
  they are. \<open>llm_agent\<close> is the dataclass with such values: the same fields, with the
  prefix \<open>llm_\<close>.
\<close>

record llm_agent =
  llm_id :: yaml
  llm_role :: yaml
  llm_focus_area :: yaml
  llm_dependencies :: yaml
  llm_files_to_create :: yaml
  llm_files_to_modify :: yaml
  llm_test_contracts :: "string list"
  llm_validation_criteria :: "string list"
  llm_estimated_time :: yaml
  llm_requirements :: "string list"
  llm_can_start_immediately :: bool

text \<open>
  \<^verbatim>\<open>[f.replace(".ts", ".test.ts").replace(".js", ".test.js") for f in ...]\<close> over the
  elements visited: an element that is not a string has no \<^verbatim>\<open>replace\<close>.
\<close>

fun test_contract_names :: "yaml list \<Rightarrow> py_error + string list" where
  "test_contract_names [] = Inr []"
| "test_contract_names (f # rest) =
     (case f of
        YStr s \<Rightarrow>
          (case test_contract_names rest of
             Inl e \<Rightarrow> Inl e
           | Inr names \<Rightarrow>
               Inr (py_replace ''.js'' ''.test.js'' (py_replace ''.ts'' ''.test.ts'' s) # names))
      | _ \<Rightarrow> Inl TypeError)"

text \<open>
  The body of the loop of \<^verbatim>\<open>convert_llm_result_to_deployment_plan\<close>: the agent made
  from one entry of \<^verbatim>\<open>agents\<close>. The three subscripts raise when the entry is not a dict
  or lacks the key; the values of \<^verbatim>\<open>get\<close> are stored unchecked; the comprehension of
  \<^verbatim>\<open>test_contracts\<close> iterates over the value of \<^verbatim>\<open>filesToCreate\<close>;
  \<^verbatim>\<open>can_start_immediately\<close> is \<^verbatim>\<open>not\<close> applied to the value of \<^verbatim>\<open>dependencies\<close>.
\<close>

definition convert_llm_agent :: "(yaml \<Rightarrow> string) \<Rightarrow> yaml \<Rightarrow> py_error + llm_agent" where
  "convert_llm_agent fmt agent_data =
     and_then (py_item agent_data ''agentId'') (\<lambda>aid.
     and_then (py_item agent_data ''agentRole'') (\<lambda>arole.
     and_then (py_item agent_data ''focusArea'') (\<lambda>focus.
     and_then (py_get_default agent_data ''dependencies'' (YList [])) (\<lambda>deps.
     and_then (py_get_default agent_data ''filesToCreate'' (YList [])) (\<lambda>to_create.
     and_then (py_get_default agent_data ''filesToModify'' (YList [])) (\<lambda>to_modify.
     and_then (and_then (py_iter to_create) test_contract_names) (\<lambda>contracts.
     and_then (py_get_default agent_data ''estimatedTime'' (YInt 30)) (\<lambda>minutes.
       Inr \<lparr>llm_id = aid, llm_role = arole, llm_focus_area = focus, llm_dependencies = deps,
            llm_files_to_create = to_create, llm_files_to_modify = to_modify,
            llm_test_contracts = contracts,
            llm_validation_criteria =
              [''All '' @ format_value fmt focus @ '' files are created successfully'',
               format_value fmt focus @ '' functionality works as expected'',
               ''No errors in '' @ format_value fmt focus @ '' implementation'',
               format_value fmt focus @ '' tests pass successfully''],
            llm_estimated_time = minutes, llm_requirements = [],
            llm_can_start_immediately = (\<not> py_truthy deps)\<rparr>))))))))"

fun convert_llm_agents :: "(yaml \<Rightarrow> string) \<Rightarrow> yaml list \<Rightarrow> py_error + llm_agent list" where
  "convert_llm_agents fmt [] = Inr []"
| "convert_llm_agents fmt (agent_data # rest) =
     (case convert_llm_agent fmt agent_data of
        Inl e \<Rightarrow> Inl e
      | Inr a \<Rightarrow>
          (case convert_llm_agents fmt rest of Inl e \<Rightarrow> Inl e | Inr as \<Rightarrow> Inr (a # as)))"

text \<open>\<^verbatim>\<open>llm_result.get(key)\<close>, with \<^verbatim>\<open>None\<close> for a missing key.\<close>

definition get_or_null :: "yaml \<Rightarrow> string \<Rightarrow> py_error + yaml" where
  "get_or_null d key =
     (case py_get d key of Inl e \<Rightarrow> Inl e | Inr None \<Rightarrow> Inr YNull | Inr (Some v) \<Rightarrow> Inr v)"

text \<open>\<^verbatim>\<open>for agent_data in llm_result["agents"]\<close>.\<close>

definition llm_agents :: "(yaml \<Rightarrow> string) \<Rightarrow> yaml \<Rightarrow> py_error + llm_agent list" where
  "llm_agents fmt llm_result =
     and_then (py_item llm_result ''agents'') (\<lambda>agents_doc.
     and_then (py_iter agents_doc) (convert_llm_agents fmt))"

text \<open>
  \<^verbatim>\<open>sum(len(agent.files_to_create) + len(agent.files_to_modify) for agent in agents)\<close>.
\<close>

fun llm_total_files :: "llm_agent list \<Rightarrow> py_error + int" where
  "llm_total_files [] = Inr 0"
| "llm_total_files (a # rest) =
     and_then (py_len (llm_files_to_create a)) (\<lambda>n.
     and_then (py_len (llm_files_to_modify a)) (\<lambda>m.
     and_then (llm_total_files rest) (\<lambda>total. Inr (int n + int m + total))))"

text \<open>\<^verbatim>\<open>agent_to_dict\<close> on an agent of the conversion.\<close>

definition llm_agent_to_dict :: "llm_agent \<Rightarrow> yaml" where
  "llm_agent_to_dict a =
     YMap [(''agentId'', llm_id a),
           (''agentRole'', llm_role a),
           (''focusArea'', llm_focus_area a),
           (''dependencies'', llm_dependencies a),
           (''filesToCreate'', llm_files_to_create a),
           (''filesToModify'', llm_files_to_modify a),
           (''testContracts'', str_list (llm_test_contracts a)),
           (''validationCriteria'', str_list (llm_validation_criteria a)),
           (''estimatedTime'', llm_estimated_time a),
           (''canStartImmediately'', YBool (llm_can_start_immediately a))]"

text \<open>
  \<^verbatim>\<open>calculate_merge_order\<close> on agents of the conversion. The condition of \<^verbatim>\<open>ready\<close>
  tests the truth value of \<^verbatim>\<open>dependencies\<close> and, when it is true, iterates over it
  (which raises for a number); \<^verbatim>\<open>dep in ordered\<close> compares with \<^verbatim>\<open>==\<close>. The
  comprehension evaluates the condition for every remaining agent. \<^verbatim>\<open>remove\<close> takes
  out the first agent that is \<^verbatim>\<open>next_agent\<close> itself or equal to it, and dataclass
  equality compares the fields in turn.
\<close>

definition llm_is_ready :: "yaml list \<Rightarrow> llm_agent \<Rightarrow> py_error + bool" where
  "llm_is_ready ordered a =
     (if \<not> py_truthy (llm_dependencies a) then Inr True
      else and_then (py_iter (llm_dependencies a)) (\<lambda>deps.
             Inr (list_all (\<lambda>dep. list_ex (\<lambda>x. py_eq x dep) ordered) deps)))"

fun llm_ready :: "yaml list \<Rightarrow> llm_agent list \<Rightarrow> py_error + llm_agent list" where
  "llm_ready ordered [] = Inr []"
| "llm_ready ordered (a # rest) =
     and_then (llm_is_ready ordered a) (\<lambda>r.
     and_then (llm_ready ordered rest) (\<lambda>ready. Inr (if r then a # ready else ready)))"

definition llm_agent_eq :: "llm_agent \<Rightarrow> llm_agent \<Rightarrow> bool" where
  "llm_agent_eq a b \<longleftrightarrow>
     py_eq (llm_id a) (llm_id b) \<and> py_eq (llm_role a) (llm_role b) \<and>
     py_eq (llm_focus_area a) (llm_focus_area b) \<and>
     py_eq (llm_dependencies a) (llm_dependencies b) \<and>
     py_eq (llm_files_to_create a) (llm_files_to_create b) \<and>
     py_eq (llm_files_to_modify a) (llm_files_to_modify b) \<and>
     llm_test_contracts a = llm_test_contracts b \<and>
     llm_validation_criteria a = llm_validation_criteria b \<and>
     py_eq (llm_estimated_time a) (llm_estimated_time b) \<and>
     llm_requirements a = llm_requirements b \<and>
     llm_can_start_immediately a = llm_can_start_immediately b"

function llm_merge_loop :: "yaml list \<Rightarrow> llm_agent list \<Rightarrow> py_error + yaml list" where
  "llm_merge_loop ordered remaining =
     (if remaining = [] then Inr ordered
      else (case llm_ready ordered remaining of
              Inl e \<Rightarrow> Inl e
            | Inr [] \<Rightarrow> Inr (ordered @ map llm_id remaining)
            | Inr (next_agent # _) \<Rightarrow>
                (case py_remove_by (\<lambda>x. x = next_agent \<or> llm_agent_eq x next_agent) remaining of
                   Inl e \<Rightarrow> Inl e
                 | Inr remaining' \<Rightarrow> llm_merge_loop (ordered @ [llm_id next_agent]) remaining')))"
  by pat_completeness auto
termination
proof (relation "measure (\<lambda>(ordered, remaining). length remaining)")
  show "wf (measure (\<lambda>(ordered, remaining). length remaining))" by simp
next
  fix ordered :: "yaml list" and remaining remaining' :: "llm_agent list" and next_agent
  assume r: "py_remove_by (\<lambda>x. x = next_agent \<or> llm_agent_eq x next_agent) remaining
               = Inr remaining'"
  have "length ys < length xs" if "py_remove_by same xs = Inr ys"
    for same :: "llm_agent \<Rightarrow> bool" and xs ys
    using that by (induction xs arbitrary: ys) (auto split: if_splits sum.splits)
  from this [OF r]
  show "((ordered @ [llm_id next_agent], remaining'), (ordered, remaining))
          \<in> measure (\<lambda>(ordered, remaining). length remaining)"
    by simp
qed

declare llm_merge_loop.simps [simp del]

definition llm_calculate_merge_order :: "llm_agent list \<Rightarrow> py_error + yaml list" where
  "llm_calculate_merge_order agents = llm_merge_loop [] agents"

text \<open>
  \<^verbatim>\<open>convert_llm_result_to_deployment_plan\<close>: the agents, the total of the file counts,
  then the dict literal, whose entries are evaluated in the order written. The parameter
  \<open>fmt\<close> gives the text of the values that are not strings.
\<close>

definition convert_llm_result_to_deployment_plan :: "(yaml \<Rightarrow> string) \<Rightarrow> linear_issue \<Rightarrow> yaml \<Rightarrow>
    py_error + yaml" where
  "convert_llm_result_to_deployment_plan fmt issue llm_result =
     and_then (llm_agents fmt llm_result) (\<lambda>agents.
     and_then (llm_total_files agents) (\<lambda>total_files.
     and_then (llm_calculate_merge_order agents) (\<lambda>merge_order.
     and_then (get_or_null llm_result ''projectType'') (\<lambda>project_type.
     and_then (get_or_null llm_result ''confidence'') (\<lambda>confidence.
     and_then (get_or_null llm_result ''reasoning'') (\<lambda>reasoning.
     and_then (get_or_null llm_result ''parallelizationStrategy'') (\<lambda>strategy.
       Inr (YMap
         [(''taskId'', YStr (issue_id issue)),
          (''taskTitle'', YStr (title issue)),
          (''decompositionStrategy'', YStr ''llm_hybrid''),
          (''conflictResolution'', YStr ''llm_analyzed''),
          (''parallelAgents'', YList (map llm_agent_to_dict agents)),
          (''totalFiles'', YInt total_files),
          (''integrationPlan'', YMap
             [(''mergeOrder'', YList merge_order),
              (''validationSteps'', str_list
                 [''Run LLM-generated agent tests'', ''Integration testing'',
                  ''Full system validation'']),
              (''estimatedIntegrationTime'', YStr ''10 minutes'')]),
          (''llmAnalysis'', YMap
             [(''projectType'', project_type),
              (''confidence'', confidence),
              (''reasoning'', reasoning),
              (''parallelizationStrategy'', strategy)])]))))))))"

text \<open>
  \<^verbatim>\<open>llm_result["confidence"] >= 0.8\<close>. A number is compared as a real number (no
  floating-point number lies between the real 0.8 and the float the literal denotes, so
  the comparison of floats agrees with it); a Boolean is the integer 0 or 1; any other
  value raises.
\<close>

definition confidence_threshold :: real where
  "confidence_threshold = 0.8"

definition confidence_reached :: "yaml \<Rightarrow> py_error + bool" where
  "confidence_reached v =
     (case v of
        YReal r \<Rightarrow> Inr (r \<ge> confidence_threshold)
      | YInt i \<Rightarrow> Inr (real_of_int i \<ge> confidence_threshold)
      | YBool b \<Rightarrow> Inr b
      | _ \<Rightarrow> Inl TypeError)"

text \<open>
  \<^verbatim>\<open>try_hybrid_analysis\<close>: every exception raised inside is caught and the result is
  \<^verbatim>\<open>None\<close>.
\<close>

definition try_hybrid_analysis :: "(yaml \<Rightarrow> string) \<Rightarrow> linear_issue \<Rightarrow> analyzer_outcome \<Rightarrow>
    yaml option" where
  "try_hybrid_analysis fmt issue outcome =
     (case outcome of
        ImportFailed \<Rightarrow> None
      | AnalyzerRaised \<Rightarrow> None
      | Returned llm_result \<Rightarrow>
          (case py_item llm_result ''confidence'' of
             Inl e \<Rightarrow> None
           | Inr confidence \<Rightarrow>
               (case confidence_reached confidence of
                  Inl e \<Rightarrow> None
                | Inr False \<Rightarrow> None
                | Inr True \<Rightarrow>
                    (case convert_llm_result_to_deployment_plan fmt issue llm_result of
                       Inl e \<Rightarrow> None
                     | Inr deployment_plan \<Rightarrow> Some deployment_plan))))"

section \<open>decompose\<close>

text \<open>
  What a run of \<^verbatim>\<open>decompose\<close> reads from outside: the environment variable
  \<^verbatim>\<open>USE_HYBRID_ANALYSIS\<close>, the issue cache, the analyzer (applied to the text
  \<^verbatim>\<open>title\n\ndescription\<close>), the string hashes of the process, and whether the plan
  file can be written. The field \<open>value_text\<close> is the text the interpreter gives a
  value that is not a string when an f-string inserts it.
\<close>

record run_env =
  use_hybrid_analysis :: bool
  linear_cache :: "string \<Rightarrow> cache_file"
  llm_decomposer :: "string \<Rightarrow> analyzer_outcome"
  string_hash :: "string \<Rightarrow> nat"
  plans_writable :: bool
  value_text :: "yaml \<Rightarrow> string"

text \<open>
  The result of a run: the plan returned, and the plan file written (none on the hybrid
  path, which returns before \<^verbatim>\<open>save_deployment_plan\<close>).
\<close>

record decomposition =
  plan :: yaml
  saved_plan :: "(string \<times> yaml) option"

text \<open>
  The pattern-based pipeline of \<^verbatim>\<open>decompose\<close> on a fresh decomposer, up to the
  generation of the plan.
\<close>

definition pattern_pipeline :: "rule list \<Rightarrow> (string \<Rightarrow> nat) \<Rightarrow> linear_issue \<Rightarrow>
    py_error + (yaml \<times> agent list \<times> decomposer)" where
  "pattern_pipeline table h issue =
     (let d1 = analyze_file_operations_with table issue init_decomposer;
          d2 = build_dependency_graph d1
      in and_then (create_exclusive_domains d2) (\<lambda>d3.
         and_then (generate_exclusive_agents h d3) (\<lambda>(agents, d4).
         and_then (validate_no_conflicts agents) (\<lambda>file_ownership.
         and_then (generate_deployment_plan issue d4 agents) (\<lambda>deployment_plan.
           Inr (deployment_plan, agents, d4))))))"

definition hybrid_description :: "linear_issue \<Rightarrow> string" where
  "hybrid_description issue = title issue @ [CHR 0x0A, CHR 0x0A] @ description issue"

text \<open>Step 3 of \<^verbatim>\<open>decompose\<close>: the pattern-based pipeline, then the plan is saved.\<close>

definition pattern_decompose :: "rule list \<Rightarrow> run_env \<Rightarrow> linear_issue \<Rightarrow>
    py_error + decomposition" where
  "pattern_decompose table env issue =
     and_then (pattern_pipeline table (string_hash env) issue) (\<lambda>(deployment_plan, agents, d).
     and_then (save_deployment_plan (plans_writable env) deployment_plan (issue_id issue))
       (\<lambda>file. Inr \<lparr>plan = deployment_plan, saved_plan = Some file\<rparr>))"

definition decompose_with :: "rule list \<Rightarrow> run_env \<Rightarrow> string \<Rightarrow> py_error + decomposition" where
  "decompose_with table env iid =
     and_then (load_linear_issue (linear_cache env iid) iid) (\<lambda>issue.
       case (if use_hybrid_analysis env
             then try_hybrid_analysis (value_text env) issue
                    (llm_decomposer env (hybrid_description issue))
             else None) of
         Some hybrid_result \<Rightarrow> Inr \<lparr>plan = hybrid_result, saved_plan = None\<rparr>
       | None \<Rightarrow> pattern_decompose table env issue)"

definition decompose :: "run_env \<Rightarrow> string \<Rightarrow> py_error + decomposition" where
  "decompose env iid = decompose_with patterns env iid"

text \<open>
  Reading a plan the way the later stages do: the entries of \<^verbatim>\<open>parallelAgents\<close>, and
  for each of them the id and the paths of \<^verbatim>\<open>filesToCreate\<close> and \<^verbatim>\<open>filesToModify\<close>.
\<close>

definition parallel_agents :: "yaml \<Rightarrow> py_error + yaml list" where
  "parallel_agents p =
     (case py_get p ''parallelAgents'' of
        Inl e \<Rightarrow> Inl e
      | Inr None \<Rightarrow> Inr []
      | Inr (Some (YList entries)) \<Rightarrow> Inr entries
      | Inr (Some _) \<Rightarrow> Inl TypeError)"

definition entry_files :: "yaml \<Rightarrow> py_error + string list" where
  "entry_files a =
     and_then (get_str_list a ''filesToCreate'' []) (\<lambda>to_create.
     and_then (get_str_list a ''filesToModify'' []) (\<lambda>to_modify.
       Inr (to_create @ to_modify)))"

fun entries_files :: "yaml list \<Rightarrow> py_error + string list list" where
  "entries_files [] = Inr []"
| "entries_files (a # rest) =
     (case entry_files a of
        Inl e \<Rightarrow> Inl e
      | Inr files \<Rightarrow> (case entries_files rest of Inl e \<Rightarrow> Inl e | Inr fss \<Rightarrow> Inr (files # fss)))"

definition plan_files :: "yaml \<Rightarrow> py_error + string list list" where
  "plan_files p = and_then (parallel_agents p) entries_files"

text \<open>No path is in the file lists of two different agents.\<close>

fun exclusive_ownership :: "string list list \<Rightarrow> bool" where
  "exclusive_ownership [] = True"
| "exclusive_ownership (files # rest) =
     (list_all (\<lambda>other. list_all (\<lambda>f. f \<notin> set other) files) rest \<and> exclusive_ownership rest)"

section \<open>Spawn stage: create_agent_context (spawn-agents.py)\<close>

text \<open>The entries of \<^verbatim>\<open>parallelAgents\<close> whose \<^verbatim>\<open>agentId\<close> is the given id.\<close>

fun agent_instances :: "string \<Rightarrow> yaml list \<Rightarrow> py_error + yaml list" where
  "agent_instances aid [] = Inr []"
| "agent_instances aid (a # rest) =
     (case py_get a ''agentId'' of
        Inl e \<Rightarrow> Inl e
      | Inr v \<Rightarrow>
          (case agent_instances aid rest of
             Inl e \<Rightarrow> Inl e
           | Inr instances \<Rightarrow> Inr (if v = Some (YStr aid) then a # instances else instances)))"

text \<open>
  \<^verbatim>\<open>sum((a.get(key, []) for a in agent_data), [])\<close>: the values are added to a list
  one after the other, which raises for a value that is not a list.
\<close>

fun gather :: "string \<Rightarrow> yaml list \<Rightarrow> py_error + yaml list" where
  "gather key [] = Inr []"
| "gather key (a # rest) =
     (case py_get_default a key (YList []) of
        Inl e \<Rightarrow> Inl e
      | Inr (YList xs) \<Rightarrow>
          (case gather key rest of Inl e \<Rightarrow> Inl e | Inr ys \<Rightarrow> Inr (xs @ ys))
      | Inr _ \<Rightarrow> Inl TypeError)"

text \<open>\<^verbatim>\<open>list(set(sum((a.get(key, []) for a in agent_data), [])))\<close>.\<close>

definition unique_values :: "(yaml \<Rightarrow> nat) \<Rightarrow> string \<Rightarrow> yaml list \<Rightarrow> py_error + yaml list" where
  "unique_values h key agent_data = and_then (gather key agent_data) (py_list_of_value_set h)"

text \<open>\<^verbatim>\<open>all(len(a.get("dependencies", [])) == 0 for a in agent_data)\<close>.\<close>

fun no_dependencies :: "yaml list \<Rightarrow> py_error + bool" where
  "no_dependencies [] = Inr True"
| "no_dependencies (a # rest) =
     and_then (py_get_default a ''dependencies'' (YList [])) (\<lambda>deps.
     and_then (py_len deps) (\<lambda>n. if n = 0 then no_dependencies rest else Inr False))"

text \<open>\<^verbatim>\<open>sum(int(a.get("estimatedTime", 0)) for a in agent_data)\<close>.\<close>

fun total_estimated_time :: "yaml list \<Rightarrow> py_error + int" where
  "total_estimated_time [] = Inr 0"
| "total_estimated_time (a # rest) =
     and_then (py_get_default a ''estimatedTime'' (YInt 0)) (\<lambda>v.
     and_then (py_int v) (\<lambda>t.
     and_then (total_estimated_time rest) (\<lambda>ts. Inr (t + ts))))"

text \<open>
  \<^verbatim>\<open>create_agent_context\<close>; \<open>h\<close> is the hash of the process and \<open>now\<close> the text of
  \<^verbatim>\<open>datetime.now().isoformat()\<close>. The first line iterates over the value of
  \<^verbatim>\<open>parallelAgents\<close> and calls \<^verbatim>\<open>get\<close> on each element; the five lists are computed
  in the order of the source, then the entries of the dict literal.
\<close>

definition create_agent_context :: "(yaml \<Rightarrow> nat) \<Rightarrow> string \<Rightarrow> yaml \<Rightarrow> string \<Rightarrow> string \<Rightarrow>
    string \<Rightarrow> py_error + yaml" where
  "create_agent_context h now p aid branch_name worktree_path =
     and_then (py_get_default p ''parallelAgents'' (YList [])) (\<lambda>agents_doc.
     and_then (py_iter agents_doc) (\<lambda>entries.
     and_then (agent_instances aid entries) (\<lambda>agent_data.
     and_then (unique_values h ''filesToCreate'' agent_data) (\<lambda>to_create.
     and_then (unique_values h ''filesToModify'' agent_data) (\<lambda>to_modify.
     and_then (unique_values h ''testContracts'' agent_data) (\<lambda>contracts.
     and_then (unique_values h ''validationCriteria'' agent_data) (\<lambda>criteria.
     and_then (unique_values h ''dependencies'' agent_data) (\<lambda>deps.
     and_then (get_or_null p ''taskId'') (\<lambda>task_id.
     and_then (get_or_null p ''taskTitle'') (\<lambda>task_title.
     and_then (no_dependencies agent_data) (\<lambda>can_start.
     and_then (total_estimated_time agent_data) (\<lambda>minutes.
       Inr (YMap
         [(''agentId'', YStr aid),
          (''taskId'', task_id),
          (''taskTitle'', task_title),
          (''branchName'', YStr branch_name),
          (''workTreePath'', YStr worktree_path),
          (''agentInstances'', YList agent_data),
          (''dependencies'', YList deps),
          (''allFilesToCreate'', YList to_create),
          (''allFilesToModify'', YList to_modify),
          (''allTestContracts'', YList contracts),
          (''allValidationCriteria'', YList criteria),
          (''canStartImmediately'', YBool can_start),
          (''estimatedTime'', YInt minutes),
          (''createdAt'', YStr now)])))))))))))))"

section \<open>IntegrationPipeline (integrate-parallel-work.py)\<close>

text \<open>
  What a run of the integration reads from outside.
  \<^item> \<open>validation_status_file\<close>: the file \<^verbatim>\<open>validation-status.json\<close>.
  \<^item> \<open>deployment_dir\<close>: the files of the plan directory in the order \<^verbatim>\<open>glob\<close> lists
    them, each with its parsed content (\<open>None\<close> when the loader fails and returns
    \<^verbatim>\<open>None\<close>). The directory exists: the command-line option is declared with
    \<^verbatim>\<open>exists=True\<close>.
  \<^item> \<open>has_pnpm\<close>, \<open>has_npm\<close>: the results of \<^verbatim>\<open>check_command_exists\<close>.
  \<^item> \<open>workspace_exists\<close>: whether \<^verbatim>\<open>workspaces/<agent>\<close> exists.
  \<^item> \<open>test_returncode\<close>: the return code of the incremental test command, as a function
    of the agents whose files have been copied into the code base so far.
  \<^item> \<open>git_checkout_ok\<close>: whether \<^verbatim>\<open>git checkout -b\<close> returns zero.
  \<^item> \<open>git_add_ok\<close>, \<open>git_commit_ok\<close>: whether \<^verbatim>\<open>git add -A\<close> and \<^verbatim>\<open>git commit\<close>
    return zero, as functions of the agents whose files have been copied into the code
    base so far, the last of them being the agent that is committed (the same agent can
    occur twice in the order, and its second commit can fail where the first did not).
  \<^item> the return codes of the final test suite, lint and type check.
\<close>

datatype file_content = Missing | Unparsable | Parsed yaml

record integration_env =
  validation_status_file :: file_content
  deployment_dir :: "(string \<times> yaml option) list"
  skip_tests :: bool
  has_pnpm :: bool
  has_npm :: bool
  workspace_exists :: "string \<Rightarrow> bool"
  test_returncode :: "string list \<Rightarrow> int"
  git_checkout_ok :: bool
  git_add_ok :: "string list \<Rightarrow> bool"
  git_commit_ok :: "string list \<Rightarrow> bool"
  full_tests_returncode :: int
  lint_returncode :: int
  typecheck_returncode :: int

text \<open>
  The effects of a run: the agents \<^verbatim>\<open>integrate_agent\<close> was called for, the agents
  whose files were copied into the code base, the agents whose integration was
  committed, whether the integration branch was created, and whether the report and
  the integration status were written.
\<close>

record integration_state =
  attempted :: "string list"
  copied :: "string list"
  committed :: "string list"
  branch_created :: bool
  reported :: bool

definition initial_state :: integration_state where
  "initial_state =
     \<lparr>attempted = [], copied = [], committed = [], branch_created = False, reported = False\<rparr>"

text \<open>
  How a run ends: \<^verbatim>\<open>sys.exit(1)\<close> at one of the checks, an exception nobody catches,
  or the end of the function.
\<close>

datatype halt_reason =
    NoValidationStatus
  | ValidationNotPassed
  | NoDeploymentPlan
  | InvalidPlanFormat
  | AgentFailed string
  | Uncaught py_error
  | FinalTestsFailed
  | TypecheckFailed

datatype outcome = Halted halt_reason | Completed

definition exit_code :: "outcome \<Rightarrow> int" where
  "exit_code out = (case out of Halted r \<Rightarrow> 1 | Completed \<Rightarrow> 0)"

text \<open>\<^verbatim>\<open>find_deployment_plan\<close>: the first file matching the first pattern that matches any.\<close>

definition glob :: "string \<Rightarrow> (string \<times> yaml option) list \<Rightarrow> (string \<times> yaml option) list" where
  "glob ext dir = filter (\<lambda>file. suffix ext (fst file)) dir"

definition find_deployment_plan :: "(string \<times> yaml option) list \<Rightarrow> (string \<times> yaml option) option" where
  "find_deployment_plan dir =
     (case glob ''.json'' dir of
        plan_file # _ \<Rightarrow> Some plan_file
      | [] \<Rightarrow>
          (case glob ''.yaml'' dir of
             plan_file # _ \<Rightarrow> Some plan_file
           | [] \<Rightarrow>
               (case glob ''.yml'' dir of
                  plan_file # _ \<Rightarrow> Some plan_file
                | [] \<Rightarrow> None)))"

text \<open>
  \<^verbatim>\<open>integrate_agent\<close>: the result is the Boolean returned, or the exception of a git
  command that failed, with the state after the call.
\<close>

definition integrate_agent :: "integration_env \<Rightarrow> string \<Rightarrow> integration_state \<Rightarrow>
    (py_error + bool) \<times> integration_state" where
  "integrate_agent env a s =
     (let s1 = s\<lparr>attempted := attempted s @ [a]\<rparr>
      in if \<not> workspace_exists env a then (Inr True, s1)
         else
           (let s2 = s1\<lparr>copied := copied s1 @ [a]\<rparr>
            in if \<not> (has_pnpm env \<or> has_npm env) then (Inr True, s2)
               else if test_returncode env (copied s2) \<noteq> 0 then (Inr False, s2)
               else if \<not> git_add_ok env (copied s2) then (Inl CalledProcessError, s2)
               else if \<not> git_commit_ok env (copied s2) then (Inl CalledProcessError, s2)
               else (Inr True, s2\<lparr>committed := committed s2 @ [a]\<rparr>)))"

text \<open>
  The loop \<^verbatim>\<open>for agent in integration_order\<close>; \<^verbatim>\<open>Path("workspaces") / agent\<close> raises
  when the element is not a string.
\<close>

fun integrate_agents :: "integration_env \<Rightarrow> yaml list \<Rightarrow> integration_state \<Rightarrow>
    halt_reason option \<times> integration_state" where
  "integrate_agents env [] s = (None, s)"
| "integrate_agents env (v # rest) s =
     (case as_str v of
        Inl e \<Rightarrow> (Some (Uncaught e), s)
      | Inr a \<Rightarrow>
          (case integrate_agent env a s of
             (Inl e, s') \<Rightarrow> (Some (Uncaught e), s')
           | (Inr False, s') \<Rightarrow> (Some (AgentFailed a), s')
           | (Inr True, s') \<Rightarrow> integrate_agents env rest s'))"

text \<open>The entries \<^verbatim>\<open>tests\<close> and \<^verbatim>\<open>typecheck\<close> of the quality results.\<close>

definition quality_results :: "integration_env \<Rightarrow> bool \<times> bool" where
  "quality_results env =
     (if skip_tests env then (True, True)
      else ((if has_pnpm env then full_tests_returncode env = 0 else True),
            (if has_pnpm env then typecheck_returncode env = 0 else True)))"

text \<open>
  The checks of \<^verbatim>\<open>integrate_parallel_work\<close> before the integration branch is created:
  the validation status, the plan found in the directory, and the merge order read from
  the key \<^verbatim>\<open>integration_order\<close> of the plan.
\<close>

definition check_validation :: "file_content \<Rightarrow> halt_reason option" where
  "check_validation status_file =
     (case status_file of
        Missing \<Rightarrow> Some NoValidationStatus
      | Unparsable \<Rightarrow> Some ValidationNotPassed
      | Parsed validation_status \<Rightarrow>
          if \<not> py_truthy validation_status then Some ValidationNotPassed
          else (case get_or_null validation_status ''validation_passed'' of
                  Inl e \<Rightarrow> Some (Uncaught e)
                | Inr passed \<Rightarrow> if \<not> py_truthy passed then Some ValidationNotPassed else None))"

definition read_integration_order :: "yaml \<Rightarrow> halt_reason + yaml list" where
  "read_integration_order deployment_plan =
     (if \<not> py_truthy deployment_plan then Inl InvalidPlanFormat
      else (case py_contains deployment_plan ''integration_order'' of
              Inl e \<Rightarrow> Inl (Uncaught e)
            | Inr False \<Rightarrow> Inl InvalidPlanFormat
            | Inr True \<Rightarrow>
                (case and_then (py_item deployment_plan ''integration_order'') py_iter of
                   Inl e \<Rightarrow> Inl (Uncaught e)
                 | Inr integration_order \<Rightarrow> Inr integration_order)))"

definition load_integration_order :: "integration_env \<Rightarrow> halt_reason + yaml list" where
  "load_integration_order env =
     (case check_validation (validation_status_file env) of
        Some r \<Rightarrow> Inl r
      | None \<Rightarrow>
          (case find_deployment_plan (deployment_dir env) of
             None \<Rightarrow> Inl NoDeploymentPlan
           | Some plan_file \<Rightarrow>
               (case snd plan_file of
                  None \<Rightarrow> Inl InvalidPlanFormat
                | Some deployment_plan \<Rightarrow> read_integration_order deployment_plan)))"

definition integrate_parallel_work :: "integration_env \<Rightarrow> outcome \<times> integration_state" where
  "integrate_parallel_work env =
     (case load_integration_order env of
        Inl r \<Rightarrow> (Halted r, initial_state)
      | Inr integration_order \<Rightarrow>
          if \<not> git_checkout_ok env then (Halted (Uncaught CalledProcessError), initial_state)
          else
            (case integrate_agents env integration_order
                    (initial_state\<lparr>branch_created := True\<rparr>) of
               (Some r, s) \<Rightarrow> (Halted r, s)
             | (None, s) \<Rightarrow>
                 if \<not> fst (quality_results env) then (Halted FinalTestsFailed, s)
                 else if \<not> snd (quality_results env) then (Halted TypecheckFailed, s)
                 else (Completed, s\<lparr>reported := True\<rparr>)))"

section \<open>Specification predicates and example inputs\<close>

text \<open>
  The dependency graph among the agents of a list: an edge from each declared dependency
  to the id of the agent declaring it. \<open>deps_resolvable\<close>: every declared dependency
  is the id of an agent of the list.
\<close>

definition dep_edges :: "agent list \<Rightarrow> (string \<times> string) set" where
  "dep_edges agents =
     {(d, agent_id a) | a d. a \<in> set agents \<and> d \<in> set (dependencies a)}"

definition deps_resolvable :: "agent list \<Rightarrow> bool" where
  "deps_resolvable agents =
     list_all (\<lambda>a. list_all (\<lambda>d. d \<in> set (map agent_id agents)) (dependencies a)) agents"

text \<open>
  \<open>scheduled_ready agents ids\<close>: every id of \<open>ids\<close> is the id of an agent of the
  list that was ready with respect to the ids before it.
\<close>

definition scheduled_ready :: "agent list \<Rightarrow> string list \<Rightarrow> bool" where
  "scheduled_ready agents ids =
     list_all (\<lambda>i. list_ex (\<lambda>a. agent_id a = ids ! i \<and> is_ready (take i ids) a) agents)
       [0..<length ids]"

text \<open>An agent with the given id and dependencies and nothing else, for examples.\<close>

definition bare_agent :: "string \<Rightarrow> string list \<Rightarrow> agent" where
  "bare_agent aid deps =
     \<lparr>agent_id = aid, role = [], focus_area = [], dependencies = deps, files_to_create = [],
      files_to_modify = [], test_contracts = [], validation_criteria = [], estimated_time = 0,
      requirements = [], can_start_immediately = (deps = [])\<rparr>"


text \<open>The paths an agent owns: its \<^verbatim>\<open>files_to_create\<close> followed by its \<^verbatim>\<open>files_to_modify\<close>.\<close>

definition agent_files :: "agent \<Rightarrow> string list" where
  "agent_files a = files_to_create a @ files_to_modify a"

text \<open>
  The invariant of \<^verbatim>\<open>all_file_operations\<close>: the keys are distinct (it is a dict) and
  no list of operations is empty.
\<close>

definition well_formed :: "(string \<times> op_entry list) list \<Rightarrow> bool" where
  "well_formed afo \<longleftrightarrow> distinct (map fst afo) \<and> (\<forall>kv\<in>set afo. snd kv \<noteq> [])"

text \<open>The domain recorded on the first operation of a path.\<close>

definition first_domain :: "(string \<times> op_entry list) list \<Rightarrow> string \<Rightarrow> string option" where
  "first_domain afo f =
     (case map_of afo f of
        Some (first # rest) \<Rightarrow> Some (domain (entry_operation first))
      | _ \<Rightarrow> None)"

text \<open>An agent without its \<^verbatim>\<open>requirements\<close>, the one field that is not written to the plan.\<close>

definition without_requirements :: "agent \<Rightarrow> agent" where
  "without_requirements a = a\<lparr>requirements := []\<rparr>"

text \<open>The issue \<^verbatim>\<open>load_linear_issue\<close> makes up when there is no cache file.\<close>

definition fallback_issue :: "string \<Rightarrow> linear_issue" where
  "fallback_issue iid =
     \<lparr>issue_id = iid, title = ''Issue '' @ iid, description = ''Fallback issue description'',
      issue_requirements = [''Implement '' @ iid @ '' functionality'']\<rparr>"

text \<open>The scenario of the specification: an issue whose description is the two-line text.\<close>

definition scenario_text :: string where
  "scenario_text =
     ''1. Implement JWT auth login'' @ [CHR 0x0A] @ ''2. Add API endpoint for validation''"

definition scenario_issue :: linear_issue where
  "scenario_issue =
     \<lparr>issue_id = ''ABC-1'', title = ''Scenario'', description = scenario_text,
      issue_requirements = extract_requirements scenario_text\<rparr>"

definition scenario_domains :: "(string \<times> string list) list" where
  "scenario_domains =
     [(''auth'', [''lib/auth/authentication.ts'', ''lib/auth/token-manager.ts'',
                  ''middleware/auth.ts'', ''types/auth.ts'']),
      (''forms'', [''components/forms/DynamicForm.tsx'', ''lib/form-validation.ts'',
                   ''hooks/useFormState.ts'', ''types/form.ts'']),
      (''backend'', [''pages/api/[...slug].ts'', ''lib/api/client.ts'',
                     ''lib/api/handlers.ts'', ''types/api.ts''])]"

text \<open>
  A run environment without issue cache in which the analyzer returns a result with the
  given confidence and agent entries.
\<close>

definition example_llm_env :: "yaml \<Rightarrow> yaml \<Rightarrow> run_env" where
  "example_llm_env confidence agents_doc =
     \<lparr>use_hybrid_analysis = True, linear_cache = (\<lambda>iid. NoCacheFile),
      llm_decomposer =
        (\<lambda>text. Returned (YMap [(''confidence'', confidence), (''agents'', agents_doc)])),
      string_hash = (\<lambda>s. 0), plans_writable = True,
      value_text = (\<lambda>v. ''?'')\<rparr>"

text \<open>
  Agent entries of an analyzer result: one without \<^verbatim>\<open>agentId\<close>, one complete, two
  that claim the same path, and one whose \<^verbatim>\<open>dependencies\<close> is \<^verbatim>\<open>null\<close> and whose
  \<^verbatim>\<open>estimatedTime\<close> is a string.
\<close>

definition entry_without_id :: yaml where
  "entry_without_id = YMap [(''agentRole'', YStr ''API''), (''focusArea'', YStr ''Backend'')]"

definition api_entry :: yaml where
  "api_entry =
     YMap [(''agentId'', YStr ''api_agent''), (''agentRole'', YStr ''API''),
           (''focusArea'', YStr ''Backend''), (''dependencies'', YList [YStr ''db_agent'']),
           (''filesToCreate'', YList [YStr ''src/app.ts''])]"

definition ui_entry :: yaml where
  "ui_entry =
     YMap [(''agentId'', YStr ''ui_agent''), (''agentRole'', YStr ''UI''),
           (''focusArea'', YStr ''Frontend''),
           (''filesToModify'', YList [YStr ''src/app.ts''])]"

definition docs_entry :: yaml where
  "docs_entry =
     YMap [(''agentId'', YStr ''docs_agent''), (''agentRole'', YStr ''Docs''),
           (''focusArea'', YStr ''Documentation''), (''dependencies'', YNull),
           (''estimatedTime'', YStr ''45'')]"

text \<open>
  An integration environment in which validation has passed, every workspace exists,
  every git command succeeds, and the incremental tests fail as soon as the files of
  \<^verbatim>\<open>y_agent\<close> are in the code base.
\<close>

definition example_integration_env :: "(string \<times> yaml option) list \<Rightarrow> integration_env" where
  "example_integration_env dir =
     \<lparr>validation_status_file = Parsed (YMap [(''validation_passed'', YBool True)]),
      deployment_dir = dir, skip_tests = False, has_pnpm = True, has_npm = False,
      workspace_exists = (\<lambda>a. True),
      test_returncode = (\<lambda>cp. if ''y_agent'' \<in> set cp then 1 else 0),
      git_checkout_ok = True, git_add_ok = (\<lambda>cp. True), git_commit_ok = (\<lambda>cp. True),
      full_tests_returncode = 0, lint_returncode = 0, typecheck_returncode = 0\<rparr>"

definition order_plan :: yaml where
  "order_plan = YMap [(''integration_order'', str_list [''x_agent'', ''y_agent'', ''z_agent''])]"

text \<open>
  Example agent records: the agent synthesized for the domain \<^verbatim>\<open>forms\<close> with no files
  on a fresh decomposer, the agents converted from \<open>api_entry\<close> and from
  \<open>docs_entry\<close>, and the context made at spawn time for \<^verbatim>\<open>api_agent\<close> from a plan
  that has two entries for it, the second with its \<^verbatim>\<open>estimatedTime\<close> as a string.
\<close>

definition example_forms_agent :: agent where
  "example_forms_agent =
     \<lparr>agent_id = ''forms_agent'', role = ''Form Components & Validation'',
      focus_area = ''Forms'', dependencies = [''auth_agent''], files_to_create = [],
      files_to_modify = [], test_contracts = [],
      validation_criteria =
        [''All forms files are created successfully'', ''forms functionality works as expected'',
         ''No errors in forms implementation'', ''forms tests pass successfully''],
      estimated_time = 25, requirements = [], can_start_immediately = False\<rparr>"

definition example_api_agent :: llm_agent where
  "example_api_agent =
     \<lparr>llm_id = YStr ''api_agent'', llm_role = YStr ''API'', llm_focus_area = YStr ''Backend'',
      llm_dependencies = YList [YStr ''db_agent''],
      llm_files_to_create = YList [YStr ''src/app.ts''], llm_files_to_modify = YList [],
      llm_test_contracts = [''src/app.test.ts''],
      llm_validation_criteria =
        [''All Backend files are created successfully'',
         ''Backend functionality works as expected'', ''No errors in Backend implementation'',
         ''Backend tests pass successfully''],
      llm_estimated_time = YInt 30, llm_requirements = [],
      llm_can_start_immediately = False\<rparr>"

definition example_docs_agent :: llm_agent where
  "example_docs_agent =
     \<lparr>llm_id = YStr ''docs_agent'', llm_role = YStr ''Docs'',
      llm_focus_area = YStr ''Documentation'', llm_dependencies = YNull,
      llm_files_to_create = YList [], llm_files_to_modify = YList [],
      llm_test_contracts = [],
      llm_validation_criteria =
        [''All Documentation files are created successfully'',
         ''Documentation functionality works as expected'',
         ''No errors in Documentation implementation'',
         ''Documentation tests pass successfully''],
      llm_estimated_time = YStr ''45'', llm_requirements = [],
      llm_can_start_immediately = True\<rparr>"

definition api_entry_again :: yaml where
  "api_entry_again =
     YMap [(''agentId'', YStr ''api_agent''), (''dependencies'', YList [YStr ''db_agent'']),
           (''estimatedTime'', YStr ''45'')]"

definition spawn_plan :: yaml where
  "spawn_plan =
     YMap [(''taskId'', YStr ''ABC-1''),
           (''parallelAgents'', YList [api_entry, ui_entry, api_entry_again])]"

definition example_context :: yaml where
  "example_context =
     YMap [(''agentId'', YStr ''api_agent''), (''taskId'', YStr ''ABC-1''),
           (''taskTitle'', YNull), (''branchName'', YStr ''ABC-1-api_agent''),
           (''workTreePath'', YStr ''/tmp/w''),
           (''agentInstances'', YList [api_entry, api_entry_again]),
           (''dependencies'', YList [YStr ''db_agent'']),
           (''allFilesToCreate'', YList [YStr ''src/app.ts'']),
           (''allFilesToModify'', YList []), (''allTestContracts'', YList []),
           (''allValidationCriteria'', YList []),
           (''canStartImmediately'', YBool False), (''estimatedTime'', YInt 45),
           (''createdAt'', YStr ''2025-01-01T00:00:00'')]"

text \<open>The plan of a pattern-based run on the fallback issue \<^verbatim>\<open>ABC-1\<close>: no rule matches.\<close>

definition empty_plan :: yaml where
  "empty_plan =
     YMap [(''taskId'', YStr ''ABC-1''), (''taskTitle'', YStr ''Issue ABC-1''),
           (''decompositionStrategy'', YStr ''exclusive_ownership''),
           (''conflictResolution'', YStr ''eliminated_by_design''),
           (''parallelAgents'', YList []),
           (''integrationPlan'', YMap
              [(''mergeOrder'', YList []),
               (''validationSteps'', YList
                  [YStr ''Validate exclusive file ownership'', YStr ''Run individual agent tests'',
                   YStr ''Integration testing'', YStr ''Full system validation''])]),
           (''exclusiveOwnership'', YMap
              [(''validated'', YBool True), (''totalFiles'', YInt 0),
               (''agentOwnership'', YMap [])])]"

text \<open>A run environment with hybrid analysis switched off.\<close>

definition pattern_env :: run_env where
  "pattern_env =
     \<lparr>use_hybrid_analysis = False, linear_cache = (\<lambda>iid. NoCacheFile),
      llm_decomposer = (\<lambda>text. ImportFailed), string_hash = (\<lambda>s. 0), plans_writable = True,
      value_text = (\<lambda>v. ''?'')\<rparr>"

text \<open>
  A run environment with hybrid analysis switched off whose issue cache holds the
  scenario, and the plan directory after a run of the decomposer: the file it saved,
  if any.
\<close>

definition scenario_env :: run_env where
  "scenario_env =
     \<lparr>use_hybrid_analysis = False,
      linear_cache = (\<lambda>iid. CacheJson (YMap [(''identifier'', YStr ''ABC-1''),
                                             (''title'', YStr ''Scenario''),
                                             (''description'', YStr scenario_text)])),
      llm_decomposer = (\<lambda>text. ImportFailed), string_hash = (\<lambda>s. 0), plans_writable = True,
      value_text = (\<lambda>v. ''?'')\<rparr>"

definition saved_plan_dir :: "py_error + decomposition \<Rightarrow> (string \<times> yaml option) list" where
  "saved_plan_dir res =
     (case res of
        Inl e \<Rightarrow> []
      | Inr r \<Rightarrow> (case saved_plan r of None \<Rightarrow> [] | Some file \<Rightarrow> [(fst file, Some (snd file))]))"

definition passing_plan :: yaml where
  "passing_plan = YMap [(''integration_order'', str_list [''x_agent'', ''z_agent''])]"


text \<open>
  The course of the integration loop, for stating where it stops. \<open>merge_state env pre\<close>
  is the state after \<^verbatim>\<open>integrate_agent\<close> has been called, on the new integration branch,
  for the agents of \<open>pre\<close> in turn; \<open>merge_result env pre a\<close> is what the call for
  \<open>a\<close> returns (or raises) in that state; \<open>all_merged env pre\<close>: each of these calls
  returned \<^verbatim>\<open>True\<close>.
\<close>

definition merge_state :: "integration_env \<Rightarrow> string list \<Rightarrow> integration_state" where
  "merge_state env pre =
     fold (\<lambda>a s. snd (integrate_agent env a s)) pre (initial_state\<lparr>branch_created := True\<rparr>)"

definition merge_result :: "integration_env \<Rightarrow> string list \<Rightarrow> string \<Rightarrow> py_error + bool" where
  "merge_result env pre a = fst (integrate_agent env a (merge_state env pre))"

definition all_merged :: "integration_env \<Rightarrow> string list \<Rightarrow> bool" where
  "all_merged env pre =
     list_all (\<lambda>i. merge_result env (take i pre) (pre ! i) = Inr True) [0..<length pre]"

text \<open>
  An agent of the pattern-based synthesis as the dataclass with unchecked values: the
  same agent, its fields seen as parsed values.
\<close>

definition llm_of_agent :: "agent \<Rightarrow> llm_agent" where
  "llm_of_agent a =
     \<lparr>llm_id = YStr (agent_id a), llm_role = YStr (role a), llm_focus_area = YStr (focus_area a),
      llm_dependencies = str_list (dependencies a),
      llm_files_to_create = str_list (files_to_create a),
      llm_files_to_modify = str_list (files_to_modify a),
      llm_test_contracts = test_contracts a,
      llm_validation_criteria = validation_criteria a,
      llm_estimated_time = YInt (estimated_time a), llm_requirements = requirements a,
      llm_can_start_immediately = can_start_immediately a\<rparr>"
section \<open>The scheduler\<close>

lemma subseq_remove1: "subseq (remove1 x xs) xs"
  by (induction xs) auto

lemma subseq_set_subset: "subseq xs ys \<Longrightarrow> set xs \<subseteq> set ys"
  by (induction rule: list_emb.induct) auto

lemma filter_hd_in: "filter P xs = y # ys \<Longrightarrow> y \<in> set xs \<and> P y"
  by (induction xs) (auto split: if_splits)

lemma mset_map_remove1:
  "x \<in> set xs \<Longrightarrow> mset (map f xs) = add_mset (f x) (mset (map f (remove1 x xs)))"
  by (induction xs) auto

lemma set_subset_insert_remove1: "set xs \<subseteq> insert y (set (remove1 y xs))"
  by (induction xs) auto

lemma is_ready_iff: "is_ready ordered a \<longleftrightarrow> set (dependencies a) \<subseteq> set ordered"
  by (auto simp: is_ready_def list_all_iff)

lemma scheduled_ready_iff:
  "scheduled_ready agents ids \<longleftrightarrow>
     (\<forall>i<length ids. \<exists>a\<in>set agents. agent_id a = ids ! i \<and> is_ready (take i ids) a)"
  by (auto simp: scheduled_ready_def list_all_iff list_ex_iff)

lemma scheduled_ready_Nil: "scheduled_ready agents []"
  by (simp add: scheduled_ready_iff)

lemma scheduled_ready_snoc:
  assumes "scheduled_ready agents ordered" "a \<in> set agents" "is_ready ordered a"
  shows "scheduled_ready agents (ordered @ [agent_id a])"
  unfolding scheduled_ready_iff
proof (intro allI impI)
  fix i assume i: "i < length (ordered @ [agent_id a])"
  show "\<exists>b\<in>set agents. agent_id b = (ordered @ [agent_id a]) ! i \<and>
          is_ready (take i (ordered @ [agent_id a])) b"
  proof (cases "i < length ordered")
    case True
    with assms(1) show ?thesis
      by (auto simp: scheduled_ready_iff nth_append)
  next
    case False
    with i have "i = length ordered" by simp
    with assms(2,3) show ?thesis by auto
  qed
qed

text \<open>
  The shape of every result of the loop: the ids scheduled while some agent was ready,
  followed by the ids of the agents left when none was, in the order of the list.
\<close>

lemma merge_loop_shape:
  assumes "subseq remaining agents" "scheduled_ready agents ordered"
  shows "\<exists>scheduled rest.
           merge_loop ordered remaining = Inr (scheduled @ map agent_id rest) \<and>
           subseq rest agents \<and>
           (\<forall>a\<in>set rest. \<not> is_ready scheduled a) \<and>
           scheduled_ready agents scheduled \<and>
           mset (scheduled @ map agent_id rest) = mset ordered + mset (map agent_id remaining)"
  using assms
proof (induction ordered remaining rule: merge_loop.induct)
  case (1 ordered remaining)
  show ?case
  proof (cases "remaining = []")
    case True
    with "1.prems" show ?thesis
      by (intro exI [of _ ordered] exI [of _ "[]"]) (subst merge_loop.simps, simp)
  next
    case nonempty: False
    show ?thesis
    proof (cases "filter (is_ready ordered) remaining")
      case Nil
      then have "\<forall>a\<in>set remaining. \<not> is_ready ordered a"
        by (simp add: filter_empty_conv)
      with Nil nonempty "1.prems" show ?thesis
        by (intro exI [of _ ordered] exI [of _ remaining]) (subst merge_loop.simps, simp)
    next
      case (Cons next_agent rdy)
      then have mem: "next_agent \<in> set remaining" and rd: "is_ready ordered next_agent"
        using filter_hd_in by metis+
      then have rem: "py_remove next_agent remaining = Inr (remove1 next_agent remaining)"
        by (simp add: py_remove_def)
      have sub: "subseq (remove1 next_agent remaining) agents"
        by (rule subseq_order.trans [OF subseq_remove1 "1.prems"(1)])
      have "next_agent \<in> set agents"
        using mem subseq_set_subset [OF "1.prems"(1)] by auto
      then have sr: "scheduled_ready agents (ordered @ [agent_id next_agent])"
        using scheduled_ready_snoc [OF "1.prems"(2) _ rd] by simp
      from "1.IH" [OF nonempty Cons rem sub sr]
      obtain scheduled rest where
        r: "merge_loop (ordered @ [agent_id next_agent]) (remove1 next_agent remaining)
              = Inr (scheduled @ map agent_id rest)"
        "subseq rest agents" "\<forall>a\<in>set rest. \<not> is_ready scheduled a"
        "scheduled_ready agents scheduled"
        "mset (scheduled @ map agent_id rest) =
           mset (ordered @ [agent_id next_agent]) +
           mset (map agent_id (remove1 next_agent remaining))"
        by blast
      have "merge_loop ordered remaining = Inr (scheduled @ map agent_id rest)"
        using nonempty Cons rem r(1) by (subst merge_loop.simps) simp
      moreover have "mset (scheduled @ map agent_id rest) =
                       mset ordered + mset (map agent_id remaining)"
        using r(5) mset_map_remove1 [OF mem, of agent_id] by simp
      ultimately show ?thesis using r(2,3,4) by blast
    qed
  qed
qed

lemma calculate_merge_order_total: "\<exists>order. calculate_merge_order agents = Inr order"
  unfolding calculate_merge_order_def
  using merge_loop_shape [of agents agents "[]"] by (auto simp: scheduled_ready_Nil)

text \<open>
  C5. For every list of agents (also with a dependency on an id that no agent of the
  list has, or with a cyclic dependency graph) the scheduler returns a merge order and
  raises no error. The order is made of the ids scheduled one at a time, each of an agent
  that was ready when it was scheduled, followed by the ids of all the agents that
  remained when no agent was ready, in the order they have in the list; it contains
  the id of every agent exactly as often as the list does.
\<close>

theorem merge_order_terminates_with_fallback:
  "\<exists>scheduled rest.
     calculate_merge_order agents = Inr (scheduled @ map agent_id rest) \<and>
     scheduled_ready agents scheduled \<and>
     subseq rest agents \<and>
     (\<forall>a\<in>set rest. \<not> is_ready scheduled a) \<and>
     mset (scheduled @ map agent_id rest) = mset (map agent_id agents)"
  unfolding calculate_merge_order_def
  using merge_loop_shape [of agents agents "[]"] by (auto simp: scheduled_ready_Nil)

theorem merge_order_terminates_with_fallback_witness:
  "calculate_merge_order
     [bare_agent ''auth_agent'' [], bare_agent ''backend_agent'' [''data_agent'']]
     = Inr [''auth_agent'', ''backend_agent''] \<and>
   (\<exists>scheduled rest.
      calculate_merge_order
        [bare_agent ''auth_agent'' [], bare_agent ''backend_agent'' [''data_agent'']]
        = Inr (scheduled @ map agent_id rest) \<and>
      scheduled_ready
        [bare_agent ''auth_agent'' [], bare_agent ''backend_agent'' [''data_agent'']] scheduled \<and>
      subseq rest [bare_agent ''auth_agent'' [], bare_agent ''backend_agent'' [''data_agent'']] \<and>
      (\<forall>a\<in>set rest. \<not> is_ready scheduled a) \<and>
      mset (scheduled @ map agent_id rest) =
        mset (map agent_id
          [bare_agent ''auth_agent'' [], bare_agent ''backend_agent'' [''data_agent'']]))"
proof -
  have "calculate_merge_order
          [bare_agent ''auth_agent'' [], bare_agent ''backend_agent'' [''data_agent'']]
        = Inr [''auth_agent'', ''backend_agent'']"
    by code_simp
  then show ?thesis
    using merge_order_terminates_with_fallback
      [of "[bare_agent ''auth_agent'' [], bare_agent ''backend_agent'' [''data_agent'']]"]
    by blast
qed

lemma deps_resolvable_iff:
  "deps_resolvable agents \<longleftrightarrow>
     (\<forall>a\<in>set agents. \<forall>d\<in>set (dependencies a). d \<in> agent_id ` set agents)"
  by (auto simp: deps_resolvable_def list_all_iff)

lemma finite_dep_edges: "finite (dep_edges agents)"
proof -
  have "dep_edges agents \<subseteq> (\<Union>a\<in>set agents. set (dependencies a)) \<times> agent_id ` set agents"
    by (auto simp: dep_edges_def)
  then show ?thesis by (rule finite_subset) auto
qed

lemma dep_edges_list:
  "dep_edges agents =
     set (concat (map (\<lambda>a. map (\<lambda>d. (d, agent_id a)) (dependencies a)) agents))"
  by (auto simp: dep_edges_def)

text \<open>In an acyclic, resolvable graph some remaining agent is ready.\<close>

lemma some_agent_ready:
  assumes wf: "wf (dep_edges agents)"
    and res: "deps_resolvable agents"
    and sub: "set remaining \<subseteq> set agents"
    and cover: "agent_id ` set agents \<subseteq> set ordered \<union> agent_id ` set remaining"
    and ne: "remaining \<noteq> []"
  shows "\<exists>a\<in>set remaining. is_ready ordered a"
proof -
  from ne obtain b where "b \<in> set remaining" by (cases remaining) auto
  then have "agent_id b \<in> agent_id ` set remaining" by simp
  from wfE_min [OF wf this]
  obtain z where z: "z \<in> agent_id ` set remaining"
    and zmin: "\<And>y. (y, z) \<in> dep_edges agents \<Longrightarrow> y \<notin> agent_id ` set remaining"
    by blast
  from z obtain a where a: "a \<in> set remaining" "z = agent_id a" by auto
  have "set (dependencies a) \<subseteq> set ordered"
  proof
    fix d assume d: "d \<in> set (dependencies a)"
    from a(1) sub have "a \<in> set agents" by auto
    with d a(2) have "(d, z) \<in> dep_edges agents" by (auto simp: dep_edges_def)
    then have "d \<notin> agent_id ` set remaining" by (rule zmin)
    moreover from res \<open>a \<in> set agents\<close> d have "d \<in> agent_id ` set agents"
      by (auto simp: deps_resolvable_iff)
    ultimately show "d \<in> set ordered" using cover by auto
  qed
  with a(1) show ?thesis by (auto simp: is_ready_iff)
qed

lemma merge_loop_sound:
  assumes wf: "wf (dep_edges agents)"
    and res: "deps_resolvable agents"
    and sub: "set remaining \<subseteq> set agents"
    and cover: "agent_id ` set agents \<subseteq> set ordered \<union> agent_id ` set remaining"
  shows "\<exists>new. merge_loop ordered remaining = Inr (ordered @ new) \<and>
           mset new = mset (map agent_id remaining) \<and>
           (\<forall>a\<in>set remaining. \<forall>d\<in>set (dependencies a).
              \<exists>pre post. ordered @ new = pre @ agent_id a # post \<and> d \<in> set pre)"
  using sub cover
proof (induction ordered remaining rule: merge_loop.induct)
  case (1 ordered remaining)
  show ?case
  proof (cases "remaining = []")
    case True
    then show ?thesis by (subst merge_loop.simps) simp
  next
    case nonempty: False
    from some_agent_ready [OF wf res "1.prems" nonempty]
    have "filter (is_ready ordered) remaining \<noteq> []"
      by (simp add: filter_empty_conv)
    then obtain next_agent rdy where
      Cons: "filter (is_ready ordered) remaining = next_agent # rdy"
      by (cases "filter (is_ready ordered) remaining") auto
    then have mem: "next_agent \<in> set remaining" and rd: "is_ready ordered next_agent"
      using filter_hd_in by metis+
    then have rem: "py_remove next_agent remaining = Inr (remove1 next_agent remaining)"
      by (simp add: py_remove_def)
    let ?rem' = "remove1 next_agent remaining"
    let ?ord' = "ordered @ [agent_id next_agent]"
    have sub': "set ?rem' \<subseteq> set agents"
      using "1.prems"(1) set_remove1_subset by fastforce
    have split: "set remaining \<subseteq> insert next_agent (set ?rem')"
      by (rule set_subset_insert_remove1)
    have cover': "agent_id ` set agents \<subseteq> set ?ord' \<union> agent_id ` set ?rem'"
      using "1.prems"(2) split by auto
    from "1.IH" [OF nonempty Cons rem sub' cover']
    obtain new' where
      r: "merge_loop ?ord' ?rem' = Inr (?ord' @ new')"
         "mset new' = mset (map agent_id ?rem')"
         "\<forall>a\<in>set ?rem'. \<forall>d\<in>set (dependencies a).
            \<exists>pre post. ?ord' @ new' = pre @ agent_id a # post \<and> d \<in> set pre"
      by blast
    let ?new = "agent_id next_agent # new'"
    have run: "merge_loop ordered remaining = Inr (ordered @ ?new)"
      using nonempty Cons rem r(1) by (subst merge_loop.simps) simp
    have ms: "mset ?new = mset (map agent_id remaining)"
      using r(2) mset_map_remove1 [OF mem, of agent_id] by simp
    have "\<exists>pre post. ordered @ ?new = pre @ agent_id a # post \<and> d \<in> set pre"
      if a: "a \<in> set remaining" and d: "d \<in> set (dependencies a)" for a d
    proof (cases "a \<in> set ?rem'")
      case True
      with r(3) d show ?thesis by simp
    next
      case False
      with a split have "a = next_agent" by auto
      with rd d have "d \<in> set ordered" by (auto simp: is_ready_iff)
      with \<open>a = next_agent\<close> show ?thesis by blast
    qed
    with run ms show ?thesis by blast
  qed
qed

text \<open>
  C4. When the dependency graph of a list of agents is acyclic and every declared
  dependency is the id of an agent of the list, the scheduler returns a merge order that
  is a rearrangement of the agents' ids, and for every agent and every one of its
  dependencies the order has the agent's id at a position with the dependency strictly
  before it.
\<close>

theorem merge_order_respects_dependencies:
  assumes "acyclic (dep_edges agents)" and "deps_resolvable agents"
  shows "\<exists>order. calculate_merge_order agents = Inr order \<and>
           mset order = mset (map agent_id agents) \<and>
           (\<forall>a\<in>set agents. \<forall>d\<in>set (dependencies a).
              \<exists>pre post. order = pre @ agent_id a # post \<and> d \<in> set pre)"
proof -
  have "wf (dep_edges agents)"
    using finite_dep_edges assms(1) by (rule finite_acyclic_wf)
  from merge_loop_sound [OF this assms(2), of agents "[]"]
  show ?thesis by (simp add: calculate_merge_order_def)
qed

theorem merge_order_respects_dependencies_witness:
  "acyclic (dep_edges [bare_agent ''backend_agent'' [''data_agent''], bare_agent ''data_agent'' []]) \<and>
   deps_resolvable [bare_agent ''backend_agent'' [''data_agent''], bare_agent ''data_agent'' []] \<and>
   calculate_merge_order [bare_agent ''backend_agent'' [''data_agent''], bare_agent ''data_agent'' []]
     = Inr [''data_agent'', ''backend_agent''] \<and>
   (\<exists>order. calculate_merge_order
               [bare_agent ''backend_agent'' [''data_agent''], bare_agent ''data_agent'' []]
             = Inr order \<and>
      mset order = mset (map agent_id
        [bare_agent ''backend_agent'' [''data_agent''], bare_agent ''data_agent'' []]) \<and>
      (\<forall>a\<in>set [bare_agent ''backend_agent'' [''data_agent''], bare_agent ''data_agent'' []].
         \<forall>d\<in>set (dependencies a).
           \<exists>pre post. order = pre @ agent_id a # post \<and> d \<in> set pre))"
proof -
  let ?ags = "[bare_agent ''backend_agent'' [''data_agent''], bare_agent ''data_agent'' []]"
  have "dep_edges ?ags = {(''data_agent'', ''backend_agent'')}"
    by (simp add: dep_edges_list bare_agent_def)
  moreover have "acyclic ({} :: (string \<times> string) set)"
    by (simp add: acyclic_def)
  ultimately have ac: "acyclic (dep_edges ?ags)"
    by simp
  have res: "deps_resolvable ?ags"
    by (simp add: deps_resolvable_def bare_agent_def)
  have run: "calculate_merge_order ?ags = Inr [''data_agent'', ''backend_agent'']"
    by code_simp
  show ?thesis
    using ac res run merge_order_respects_dependencies [OF ac res] by blast
qed

section \<open>Sequencing and sets\<close>

lemma and_then_Inr: "and_then m f = Inr y \<longleftrightarrow> (\<exists>x. m = Inr x \<and> f x = Inr y)"
  by (cases m) (auto simp: and_then_def)

lemma and_then_Inl: "and_then m f = Inl e \<longleftrightarrow> (m = Inl e \<or> (\<exists>x. m = Inr x \<and> f x = Inl e))"
  by (cases m) (auto simp: and_then_def)

lemma py_list_of_set_Nil: "py_list_of_set h xs = [] \<longleftrightarrow> xs = []"
proof -
  have "set (py_list_of_set h xs) = set xs" by (simp add: py_list_of_set_def)
  then show ?thesis by (metis set_empty)
qed

lemma gather_no_dependencies:
  "gather ''dependencies'' agent_data = Inr deps \<Longrightarrow> no_dependencies agent_data = Inr (deps = [])"
proof (induction agent_data arbitrary: deps)
  case Nil
  then show ?case by simp
next
  case (Cons a rest)
  then show ?case by (auto simp: and_then_def py_len_def split: sum.splits yaml.splits)
qed

lemma py_distinct_Nil: "py_distinct vs = [] \<longleftrightarrow> vs = []"
proof -
  let ?f = "\<lambda>v seen. if list_ex (\<lambda>x. py_eq x v) seen then seen else seen @ [v]"
  have keep: "fold ?f ws seen \<noteq> []" if "seen \<noteq> []" for ws seen
    using that by (induction ws arbitrary: seen) auto
  show ?thesis
  proof (cases vs)
    case Nil
    then show ?thesis by (simp add: py_distinct_def)
  next
    case (Cons v ws)
    have "fold ?f ws [v] \<noteq> []" by (rule keep) simp
    with Cons show ?thesis by (simp add: py_distinct_def)
  qed
qed

lemma py_list_of_value_set_Nil:
  assumes "py_list_of_value_set h vs = Inr ws"
  shows "ws = [] \<longleftrightarrow> vs = []"
proof -
  from assms have "ws = sort_key h (py_distinct vs)"
    by (auto simp: py_list_of_value_set_def split: if_splits)
  then have "ws = [] \<longleftrightarrow> py_distinct vs = []"
    by (metis length_0_conv length_sort)
  then show ?thesis by (simp add: py_distinct_Nil)
qed


section \<open>The pattern-based pipeline\<close>

subsection \<open>Association lists\<close>

lemma update_absent: "map_of al k = None \<Longrightarrow> AList.update k v al = al @ [(k, v)]"
  by (induction al) (auto split: if_splits)

lemma set_update_subset: "set (AList.update k v al) \<subseteq> insert (k, v) (set al)"
  by (induction al) auto

lemma mset_concat_update_present:
  "map_of al k = Some old \<Longrightarrow>
     mset (concat (map snd (AList.update k (old @ extra) al))) =
     mset (concat (map snd al)) + mset extra"
  by (induction al) (auto split: if_splits)

lemma map_of_None_iff_keys: "map_of al k = None \<longleftrightarrow> k \<notin> fst ` set al"
  by (simp add: map_of_eq_None_iff)

lemma fold_update_fresh:
  "distinct (map fst (acc @ xs)) \<Longrightarrow>
     fold (\<lambda>(k, v) al. AList.update k v al) xs acc = acc @ xs"
proof (induction xs arbitrary: acc)
  case Nil
  then show ?case by simp
next
  case (Cons kv xs)
  obtain k v where kv: "kv = (k, v)" by (cases kv)
  with Cons.prems have "k \<notin> fst ` set acc" by auto
  then have u: "AList.update k v acc = acc @ [(k, v)]"
    by (simp add: update_absent map_of_None_iff_keys)
  have "distinct (map fst ((acc @ [(k, v)]) @ xs))" using Cons.prems kv by simp
  from Cons.IH [OF this] show ?case using kv u by simp
qed

subsection \<open>The merged file-operation map\<close>

lemma well_formed_add_operation:
  assumes "well_formed afo"
  shows "well_formed (add_operation req fo afo)"
proof -
  have "distinct (map fst (add_operation req fo afo))"
    using assms by (auto simp: add_operation_def well_formed_def Let_def distinct_update
        split: option.splits)
  moreover have "\<forall>kv\<in>set (add_operation req fo afo). snd kv \<noteq> []"
  proof
    fix kv assume "kv \<in> set (add_operation req fo afo)"
    then obtain v where "kv \<in> insert (fst fo, v) (set afo)" "v \<noteq> []"
      using set_update_subset
      by (fastforce simp: add_operation_def Let_def split: option.splits)
    with assms show "snd kv \<noteq> []" by (auto simp: well_formed_def)
  qed
  ultimately show ?thesis by (simp add: well_formed_def)
qed

lemma well_formed_fold_add:
  "well_formed afo \<Longrightarrow> well_formed (fold (add_operation req) fos afo)"
  by (induction fos arbitrary: afo) (auto simp: well_formed_add_operation)

lemma well_formed_fold_requirements:
  "well_formed afo \<Longrightarrow>
     well_formed (fold (\<lambda>req afo. fold (add_operation req) (ops_of req) afo) reqs afo)"
  by (induction reqs arbitrary: afo) (auto simp: well_formed_fold_add)

lemma well_formed_analyze:
  "well_formed (all_file_operations
     (build_dependency_graph (analyze_file_operations_with table issue init_decomposer)))"
proof -
  have "well_formed []" by (simp add: well_formed_def)
  then show ?thesis
    by (simp add: build_dependency_graph_def analyze_file_operations_with_def
          init_decomposer_def Let_def well_formed_fold_requirements)
qed

subsection \<open>Domains\<close>

lemma group_by_domain_ok:
  assumes "\<forall>kv\<in>set afo. snd kv \<noteq> []" and "distinct (map fst groups)"
  shows "\<exists>groups'. group_by_domain afo groups = Inr groups' \<and>
           distinct (map fst groups') \<and>
           mset (concat (map snd groups')) = mset (concat (map snd groups)) + mset (map fst afo)"
  using assms
proof (induction afo arbitrary: groups)
  case Nil
  then show ?case by simp
next
  case (Cons kv afo)
  obtain fl operations where kv: "kv = (fl, operations)" by (cases kv)
  with Cons.prems(1) obtain first others where ops: "operations = first # others"
    by (cases operations) auto
  let ?dmn = "domain (entry_operation first)"
  let ?groups = "case map_of groups ?dmn of
                   None \<Rightarrow> AList.update ?dmn [fl] groups
                 | Some files \<Rightarrow> AList.update ?dmn (files @ [fl]) groups"
  have d: "distinct (map fst ?groups)"
    using Cons.prems(2) by (simp add: distinct_update split: option.splits)
  have m: "mset (concat (map snd ?groups)) = mset (concat (map snd groups)) + {#fl#}"
    by (auto simp: update_absent mset_concat_update_present split: option.splits)
  from Cons.IH [OF _ d] Cons.prems(1)
  obtain groups' where
    "group_by_domain afo ?groups = Inr groups'" "distinct (map fst groups')"
    "mset (concat (map snd groups')) = mset (concat (map snd ?groups)) + mset (map fst afo)"
    by auto
  with m kv ops show ?case by (simp add: Let_def)
qed

lemma check_files_ok:
  "distinct fs \<Longrightarrow> set fs \<inter> seen = {} \<Longrightarrow> check_files seen fs = Inr (seen \<union> set fs)"
  by (induction fs arbitrary: seen) auto

lemma check_domains_ok:
  "distinct (concat (map snd ds)) \<Longrightarrow> set (concat (map snd ds)) \<inter> seen = {} \<Longrightarrow>
     check_domains seen ds = Inr (seen \<union> set (concat (map snd ds)))"
proof (induction ds arbitrary: seen)
  case Nil
  then show ?case by simp
next
  case (Cons kv ds)
  obtain dmn fls where kv: "kv = (dmn, fls)" by (cases kv)
  from Cons.prems kv have 1: "check_files seen fls = Inr (seen \<union> set fls)"
    by (intro check_files_ok) auto
  from Cons.prems kv have "check_domains (seen \<union> set fls) ds =
      Inr ((seen \<union> set fls) \<union> set (concat (map snd ds)))"
    by (intro Cons.IH) auto
  with 1 kv show ?case by (simp add: Un_assoc)
qed

lemma create_exclusive_domains_ok:
  assumes "well_formed (all_file_operations d)" and "exclusive_domains d = []"
  shows "\<exists>domains. create_exclusive_domains d = Inr (d\<lparr>exclusive_domains := domains\<rparr>) \<and>
           group_by_domain (all_file_operations d) [] = Inr domains \<and>
           distinct (map fst domains) \<and>
           mset (concat (map snd domains)) = mset (map fst (all_file_operations d)) \<and>
           distinct (concat (map snd domains))"
proof -
  from assms(1) have ne: "\<forall>kv\<in>set (all_file_operations d). snd kv \<noteq> []"
    and dk: "distinct (map fst (all_file_operations d))"
    by (auto simp: well_formed_def)
  from group_by_domain_ok [OF ne, of "[]"] obtain domains where
    g: "group_by_domain (all_file_operations d) [] = Inr domains"
    and dd: "distinct (map fst domains)"
    and ms: "mset (concat (map snd domains)) = mset (map fst (all_file_operations d))"
    by auto
  have f: "fold (\<lambda>(dmn, files) ed. AList.update dmn files ed) domains (exclusive_domains d) = domains"
    using fold_update_fresh [of "[]" domains] dd assms(2) by simp
  have dc: "distinct (concat (map snd domains))"
    using ms dk by (metis distinct_map mset_eq_imp_distinct_iff distinct_map)
  then have "check_domains {} domains = Inr (set (concat (map snd domains)))"
    using check_domains_ok [of domains "{}"] by simp
  with g f dd ms dc show ?thesis
    by (simp add: create_exclusive_domains_def Let_def)
qed

subsection \<open>Agents\<close>

lemma separate_files_ok:
  "set fls \<subseteq> fst ` set afo \<Longrightarrow>
     \<exists>c m. separate_files afo fls (c0, m0) = Inr (c, m) \<and>
           mset (c @ m) = mset (c0 @ m0) + mset fls"
proof (induction fls arbitrary: c0 m0)
  case Nil
  then show ?case by simp
next
  case (Cons f fls)
  then obtain operations where l: "map_of afo f = Some operations"
    by (cases "map_of afo f") (auto simp: map_of_None_iff_keys)
  from Cons.prems have sub: "set fls \<subseteq> fst ` set afo" by simp
  show ?case
  proof (cases "case operations of [] \<Rightarrow> False
                | first # _ \<Rightarrow> operation (entry_operation first) = ''CREATE''")
    case True
    from Cons.IH [OF sub, of "c0 @ [f]" m0] True l show ?thesis by auto
  next
    case False
    from Cons.IH [OF sub, of c0 "m0 @ [f]"] False l show ?thesis by auto
  qed
qed

lemma collect_requirements_ok:
  "\<forall>kv\<in>set afo. snd kv \<noteq> [] \<Longrightarrow> \<exists>r. collect_requirements dmn afo reqs = Inr r"
proof (induction afo arbitrary: reqs)
  case Nil
  then show ?case by simp
next
  case (Cons kv afo)
  obtain f operations where kv: "kv = (f, operations)" by (cases kv)
  with Cons.prems obtain first others where "operations = first # others"
    by (cases operations) auto
  with kv Cons show ?case by auto
qed

lemma create_agent_for_domain_ok:
  assumes "well_formed (all_file_operations d)" and "set fls \<subseteq> fst ` set (all_file_operations d)"
  shows "\<exists>a. create_agent_for_domain h d dmn fls = Inr a \<and>
           mset (agent_files a) = mset fls \<and>
           agent_id a = wd_id (domain_config dmn)"
proof -
  from separate_files_ok [OF assms(2), of "[]" "[]"] obtain c m where
    s: "separate_files (all_file_operations d) fls ([], []) = Inr (c, m)"
    "mset (c @ m) = mset fls" by auto
  from assms(1) collect_requirements_ok obtain r where
    "collect_requirements dmn (all_file_operations d) [] = Inr r"
    unfolding well_formed_def by blast
  with s show ?thesis
    by (simp add: create_agent_for_domain_def get_requirements_for_domain_def Let_def
          and_then_def agent_files_def)
qed

lemma agents_loop_ok:
  assumes "well_formed (all_file_operations d)"
    and "\<forall>kv\<in>set doms. set (snd kv) \<subseteq> fst ` set (all_file_operations d)"
  shows "\<exists>new d'. agents_loop h d doms agents = Inr (agents @ new, d') \<and>
           all_file_operations d' = all_file_operations d \<and>
           exclusive_domains d' = exclusive_domains d \<and>
           map (\<lambda>a. mset (agent_files a)) new = map (\<lambda>kv. mset (snd kv)) doms \<and>
           map agent_id new = map (\<lambda>kv. wd_id (domain_config (fst kv))) doms"
  using assms
proof (induction doms arbitrary: d agents)
  case Nil
  then show ?case by simp
next
  case (Cons kv doms)
  obtain dmn fls where kv: "kv = (dmn, fls)" by (cases kv)
  with Cons.prems have sub: "set fls \<subseteq> fst ` set (all_file_operations d)" by simp
  from create_agent_for_domain_ok [OF Cons.prems(1) sub, of h dmn] obtain a where
    a: "create_agent_for_domain h d dmn fls = Inr a" "mset (agent_files a) = mset fls"
       "agent_id a = wd_id (domain_config dmn)"
    by blast
  let ?d = "d\<lparr>agent_ownership := AList.update (agent_id a) fls (agent_ownership d)\<rparr>"
  have "well_formed (all_file_operations ?d)" using Cons.prems(1) by simp
  moreover have "\<forall>kv\<in>set doms. set (snd kv) \<subseteq> fst ` set (all_file_operations ?d)"
    using Cons.prems(2) by simp
  ultimately obtain new d' where
    r: "agents_loop h ?d doms (agents @ [a]) = Inr ((agents @ [a]) @ new, d')"
       "all_file_operations d' = all_file_operations ?d"
       "exclusive_domains d' = exclusive_domains ?d"
       "map (\<lambda>a. mset (agent_files a)) new = map (\<lambda>kv. mset (snd kv)) doms"
       "map agent_id new = map (\<lambda>kv. wd_id (domain_config (fst kv))) doms"
    using Cons.IH [of ?d "agents @ [a]"] by blast
  show ?case
    using kv a r by (intro exI [of _ "a # new"] exI [of _ d']) simp
qed

lemma mset_concat_cong:
  "map (\<lambda>x. mset (f x)) xs = map (\<lambda>y. mset (g y)) ys \<Longrightarrow>
     mset (concat (map f xs)) = mset (concat (map g ys))"
proof (induction xs arbitrary: ys)
  case Nil
  then show ?case by simp
next
  case (Cons x xs)
  then obtain y ys' where "ys = y # ys'" by (cases ys) auto
  with Cons show ?case by auto
qed

subsection \<open>The conflict validator\<close>

lemma validate_files_ok:
  "distinct fls \<Longrightarrow> set fls \<inter> fst ` set own = {} \<Longrightarrow>
     \<exists>own'. validate_files a own fls = Inr own' \<and> fst ` set own' = fst ` set own \<union> set fls"
proof (induction fls arbitrary: own)
  case Nil
  then show ?case by simp
next
  case (Cons f fls)
  then have n: "map_of own f = None" by (simp add: map_of_None_iff_keys)
  let ?own = "AList.update f (agent_id a) own"
  have k: "fst ` set ?own = insert f (fst ` set own)" by (simp add: dom_update)
  with Cons.prems have "set fls \<inter> fst ` set ?own = {}" by auto
  from Cons.IH [OF _ this] Cons.prems(1) obtain own' where
    "validate_files a ?own fls = Inr own'" "fst ` set own' = fst ` set ?own \<union> set fls"
    by auto
  with n k show ?case by auto
qed

lemma validate_agents_ok:
  "distinct (concat (map agent_files agents)) \<Longrightarrow>
   set (concat (map agent_files agents)) \<inter> fst ` set own = {} \<Longrightarrow>
     \<exists>own'. validate_agents own agents = Inr own'"
proof (induction agents arbitrary: own)
  case Nil
  then show ?case by simp
next
  case (Cons a agents)
  from Cons.prems have "distinct (agent_files a)" "set (agent_files a) \<inter> fst ` set own = {}"
    by auto
  from validate_files_ok [OF this, of a] obtain own1 where
    1: "validate_files a own (agent_files a) = Inr own1"
       "fst ` set own1 = fst ` set own \<union> set (agent_files a)"
    by blast
  with Cons.prems have "set (concat (map agent_files agents)) \<inter> fst ` set own1 = {}"
    by auto
  from Cons.IH [OF _ this] Cons.prems(1) obtain own' where
    "validate_agents own1 agents = Inr own'" by auto
  with 1 show ?case by (simp add: agent_files_def)
qed

subsection \<open>Reading the files of a plan\<close>

lemma as_str_list_str_list: "as_str_list (str_list xs) = Inr xs"
  by (induction xs) (auto simp: as_str_list_def str_list_def)

lemma entry_files_agent_to_dict: "entry_files (agent_to_dict a) = Inr (agent_files a)"
  by (simp add: entry_files_def agent_to_dict_def get_str_list_def py_get_def and_then_def
        as_str_list_str_list agent_files_def)

lemma entries_files_agents:
  "entries_files (map agent_to_dict agents) = Inr (map agent_files agents)"
  by (induction agents) (auto simp: entry_files_agent_to_dict)

lemma plan_files_generated:
  "generate_deployment_plan issue d agents = Inr p \<Longrightarrow>
     plan_files p = Inr (map agent_files agents)"
  by (auto simp: generate_deployment_plan_def plan_files_def parallel_agents_def py_get_def
        and_then_def entries_files_agents split: sum.splits)

lemma distinct_concat_exclusive:
  "distinct (concat fss) \<Longrightarrow> exclusive_ownership fss"
  by (induction fss) (auto simp: list_all_iff)

subsection \<open>The pipeline never raises\<close>

lemma pattern_pipeline_steps:
  fixes table h issue
  defines "d2 \<equiv> build_dependency_graph (analyze_file_operations_with table issue init_decomposer)"
  shows "\<exists>domains agents d4 own p.
           create_exclusive_domains d2 = Inr (d2\<lparr>exclusive_domains := domains\<rparr>) \<and>
           group_by_domain (all_file_operations d2) [] = Inr domains \<and>
           generate_exclusive_agents h (d2\<lparr>exclusive_domains := domains\<rparr>) = Inr (agents, d4) \<and>
           validate_no_conflicts agents = Inr own \<and>
           generate_deployment_plan issue d4 agents = Inr p \<and>
           pattern_pipeline table h issue = Inr (p, agents, d4) \<and>
           exclusive_domains d4 = domains \<and>
           all_file_operations d4 = all_file_operations d2 \<and>
           distinct (map fst (all_file_operations d2)) \<and>
           distinct (map fst domains) \<and>
           mset (concat (map snd domains)) = mset (map fst (all_file_operations d2)) \<and>
           map (\<lambda>a. mset (agent_files a)) agents = map (\<lambda>kv. mset (snd kv)) domains \<and>
           map agent_id agents = map (\<lambda>kv. wd_id (domain_config (fst kv))) domains \<and>
           distinct (concat (map agent_files agents))"
proof -
  have wf: "well_formed (all_file_operations d2)"
    unfolding d2_def by (rule well_formed_analyze)
  have ed: "exclusive_domains d2 = []"
    by (simp add: d2_def build_dependency_graph_def analyze_file_operations_with_def
          init_decomposer_def Let_def)
  from create_exclusive_domains_ok [OF wf ed] obtain domains where
    c: "create_exclusive_domains d2 = Inr (d2\<lparr>exclusive_domains := domains\<rparr>)"
    and g: "group_by_domain (all_file_operations d2) [] = Inr domains"
    and dd: "distinct (map fst domains)"
    and ms: "mset (concat (map snd domains)) = mset (map fst (all_file_operations d2))"
    and dc: "distinct (concat (map snd domains))"
    by blast
  let ?d3 = "d2\<lparr>exclusive_domains := domains\<rparr>"
  have wf3: "well_formed (all_file_operations ?d3)" using wf by simp
  have "set (concat (map snd domains)) = set (map fst (all_file_operations d2))"
    using ms by (rule mset_eq_setD)
  then have sub: "\<forall>kv\<in>set domains. set (snd kv) \<subseteq> fst ` set (all_file_operations ?d3)"
    by auto
  from agents_loop_ok [OF wf3 sub, of h "[]"] obtain agents d4 where
    l: "agents_loop h ?d3 domains [] = Inr (agents, d4)"
    and a4: "all_file_operations d4 = all_file_operations ?d3"
    and e4: "exclusive_domains d4 = exclusive_domains ?d3"
    and mf: "map (\<lambda>a. mset (agent_files a)) agents = map (\<lambda>kv. mset (snd kv)) domains"
    and ids: "map agent_id agents = map (\<lambda>kv. wd_id (domain_config (fst kv))) domains"
    by auto
  have gen: "generate_exclusive_agents h ?d3 = Inr (agents, d4)"
    using l by (simp add: generate_exclusive_agents_def)
  have "mset (concat (map agent_files agents)) = mset (concat (map snd domains))"
    using mf by (rule mset_concat_cong)
  with dc have da: "distinct (concat (map agent_files agents))"
    by (metis mset_eq_imp_distinct_iff)
  from validate_agents_ok [OF da, of "[]"] obtain own where
    v: "validate_no_conflicts agents = Inr own"
    by (auto simp: validate_no_conflicts_def)
  from calculate_merge_order_total obtain order where
    "calculate_merge_order agents = Inr order" by blast
  then obtain p where p: "generate_deployment_plan issue d4 agents = Inr p"
    by (simp add: generate_deployment_plan_def)
  have "pattern_pipeline table h issue = Inr (p, agents, d4)"
    using c gen v p by (simp add: pattern_pipeline_def d2_def [symmetric] Let_def and_then_def)
  with c g gen v p a4 e4 wf dd ms mf ids da show ?thesis
    by (simp add: well_formed_def)
qed

subsection \<open>Each file is in the domain of its first operation\<close>

lemma group_by_domain_first:
  assumes "group_by_domain afo groups = Inr groups'"
    and "set afo \<subseteq> set whole" and "distinct (map fst whole)"
    and "\<forall>kv\<in>set groups. \<forall>f\<in>set (snd kv). first_domain whole f = Some (fst kv)"
  shows "\<forall>kv\<in>set groups'. \<forall>f\<in>set (snd kv). first_domain whole f = Some (fst kv)"
  using assms
proof (induction afo arbitrary: groups)
  case Nil
  then show ?case by simp
next
  case (Cons kv afo)
  obtain fl operations where kv: "kv = (fl, operations)" by (cases kv)
  with Cons.prems(1) obtain first others where ops: "operations = first # others"
    by (cases operations) auto
  let ?dmn = "domain (entry_operation first)"
  let ?groups = "case map_of groups ?dmn of
                   None \<Rightarrow> AList.update ?dmn [fl] groups
                 | Some files \<Rightarrow> AList.update ?dmn (files @ [fl]) groups"
  have run: "group_by_domain afo ?groups = Inr groups'"
    using Cons.prems(1) kv ops by (simp add: Let_def)
  have "map_of whole fl = Some (first # others)"
    using Cons.prems(2,3) kv ops by (intro map_of_is_SomeI) auto
  then have fd: "first_domain whole fl = Some ?dmn"
    by (simp add: first_domain_def)
  have inv: "\<forall>kv\<in>set ?groups. \<forall>f\<in>set (snd kv). first_domain whole f = Some (fst kv)"
  proof (cases "map_of groups ?dmn")
    case None
    then show ?thesis
      using Cons.prems(4) fd set_update_subset [of ?dmn "[fl]" groups] by fastforce
  next
    case (Some files)
    then have "(?dmn, files) \<in> set groups" by (rule map_of_SomeD)
    with Cons.prems(4) have "\<forall>f\<in>set files. first_domain whole f = Some ?dmn" by fastforce
    then show ?thesis
      using Some Cons.prems(4) fd set_update_subset [of ?dmn "files @ [fl]" groups]
      by fastforce
  qed
  from Cons.IH [OF run _ Cons.prems(3) inv] Cons.prems(2) show ?case by auto
qed

subsection \<open>Independence of the string hashes\<close>

lemma is_ready_without_requirements [simp]:
  "is_ready ordered (without_requirements a) = is_ready ordered a"
  by (simp add: is_ready_def without_requirements_def)

lemma agent_id_without_requirements [simp]:
  "agent_id (without_requirements a) = agent_id a"
  by (simp add: without_requirements_def)

lemma remove1_first_match:
  "filter P xs = x # r \<Longrightarrow>
     remove1 x xs = takeWhile (\<lambda>y. \<not> P y) xs @ tl (dropWhile (\<lambda>y. \<not> P y) xs)"
  by (induction xs) (auto split: if_splits dest: filter_hd_in)

lemma remove1_map_first_match:
  assumes "filter P xs = x # r" and "\<And>y. P (f y) = P y"
  shows "remove1 (f x) (map f xs) = map f (remove1 x xs)"
proof -
  have "filter P (map f xs) = f x # map f r"
    using assms by (simp add: filter_map comp_def)
  from remove1_first_match [OF this] remove1_first_match [OF assms(1)]
  show ?thesis
    using assms(2) by (simp add: takeWhile_map dropWhile_map comp_def map_tl)
qed

lemma merge_loop_without_requirements:
  "merge_loop ordered (map without_requirements remaining) = merge_loop ordered remaining"
proof (induction ordered remaining rule: merge_loop.induct)
  case (1 ordered remaining)
  show ?case
  proof (cases "remaining = []")
    case True
    then show ?thesis by simp
  next
    case nonempty: False
    have fm: "filter (is_ready ordered) (map without_requirements remaining) =
              map without_requirements (filter (is_ready ordered) remaining)"
      by (simp add: filter_map comp_def)
    show ?thesis
    proof (cases "filter (is_ready ordered) remaining")
      case Nil
      with nonempty fm show ?thesis
        by (subst (1 2) merge_loop.simps) (simp add: comp_def)
    next
      case (Cons next_agent rdy)
      then have mem: "next_agent \<in> set remaining"
        using filter_hd_in by metis
      then have rem: "py_remove next_agent remaining = Inr (remove1 next_agent remaining)"
        by (simp add: py_remove_def)
      have rem': "py_remove (without_requirements next_agent) (map without_requirements remaining)
                  = Inr (map without_requirements (remove1 next_agent remaining))"
        using mem remove1_map_first_match [OF Cons, of without_requirements]
        by (simp add: py_remove_def)
      from "1.IH" [OF nonempty Cons rem]
      have ih: "merge_loop (ordered @ [agent_id next_agent])
                  (map without_requirements (remove1 next_agent remaining)) =
                merge_loop (ordered @ [agent_id next_agent]) (remove1 next_agent remaining)" .
      have l: "merge_loop ordered (map without_requirements remaining) =
               merge_loop (ordered @ [agent_id next_agent])
                 (map without_requirements (remove1 next_agent remaining))"
        using nonempty fm Cons rem' by (subst merge_loop.simps) simp
      have r: "merge_loop ordered remaining =
               merge_loop (ordered @ [agent_id next_agent]) (remove1 next_agent remaining)"
        using nonempty Cons rem by (subst merge_loop.simps) simp
      from l r ih show ?thesis by simp
    qed
  qed
qed

lemma agent_to_dict_without_requirements [simp]:
  "agent_to_dict (without_requirements a) = agent_to_dict a"
  by (simp add: agent_to_dict_def without_requirements_def)

lemma generate_deployment_plan_without_requirements:
  assumes "map without_requirements agents1 = map without_requirements agents2"
  shows "generate_deployment_plan issue d agents1 = generate_deployment_plan issue d agents2"
proof -
  have "calculate_merge_order agents1 = calculate_merge_order agents2"
    using assms merge_loop_without_requirements [of "[]" agents1]
      merge_loop_without_requirements [of "[]" agents2]
    by (simp add: calculate_merge_order_def)
  moreover have "map agent_to_dict agents1 = map agent_to_dict agents2"
  proof -
    have "map agent_to_dict (map without_requirements agents1) =
          map agent_to_dict (map without_requirements agents2)"
      using assms by simp
    then show ?thesis by (simp add: comp_def)
  qed
  ultimately show ?thesis by (simp add: generate_deployment_plan_def cong: sum.case_cong)
qed

lemma create_agent_for_domain_hash:
  assumes "create_agent_for_domain h1 d dmn fls = Inr a1"
    and "create_agent_for_domain h2 d dmn fls = Inr a2"
  shows "without_requirements a1 = without_requirements a2"
  using assms
  by (auto simp: create_agent_for_domain_def Let_def and_then_Inr without_requirements_def)

lemma agents_loop_hash:
  assumes "agents_loop h1 d doms ags1 = Inr (r1, d1)"
    and "agents_loop h2 d doms ags2 = Inr (r2, d2)"
    and "map without_requirements ags1 = map without_requirements ags2"
  shows "map without_requirements r1 = map without_requirements r2 \<and> d1 = d2"
  using assms
proof (induction doms arbitrary: d ags1 ags2)
  case Nil
  then show ?case by simp
next
  case (Cons kv doms)
  obtain dmn fls where kv: "kv = (dmn, fls)" by (cases kv)
  from Cons.prems(1) kv obtain a1 where
    a1: "create_agent_for_domain h1 d dmn fls = Inr a1"
    and l1: "agents_loop h1 (d\<lparr>agent_ownership := AList.update (agent_id a1) fls (agent_ownership d)\<rparr>)
              doms (ags1 @ [a1]) = Inr (r1, d1)"
    by (auto split: sum.splits)
  from Cons.prems(2) kv obtain a2 where
    a2: "create_agent_for_domain h2 d dmn fls = Inr a2"
    and l2: "agents_loop h2 (d\<lparr>agent_ownership := AList.update (agent_id a2) fls (agent_ownership d)\<rparr>)
              doms (ags2 @ [a2]) = Inr (r2, d2)"
    by (auto split: sum.splits)
  have w: "without_requirements a1 = without_requirements a2"
    using a1 a2 by (rule create_agent_for_domain_hash)
  then have "agent_id a1 = agent_id a2"
    by (metis agent_id_without_requirements)
  with l2 have l2': "agents_loop h2
      (d\<lparr>agent_ownership := AList.update (agent_id a1) fls (agent_ownership d)\<rparr>)
      doms (ags2 @ [a2]) = Inr (r2, d2)" by simp
  have "map without_requirements (ags1 @ [a1]) = map without_requirements (ags2 @ [a2])"
    using Cons.prems(3) w by simp
  from Cons.IH [OF l1 l2' this] show ?case .
qed

lemma files_without_requirements:
  "map without_requirements xs = map without_requirements ys \<Longrightarrow>
     map agent_id xs = map agent_id ys \<and>
     map files_to_create xs = map files_to_create ys \<and>
     map files_to_modify xs = map files_to_modify ys"
proof (induction xs arbitrary: ys)
  case Nil
  then show ?case by simp
next
  case (Cons x xs)
  then obtain y ys' where ys: "ys = y # ys'" by (cases ys) auto
  with Cons.prems have "without_requirements x = without_requirements y" by simp
  then have "agent_id x = agent_id y" "files_to_create x = files_to_create y"
    "files_to_modify x = files_to_modify y"
    unfolding without_requirements_def
    by (metis agent.select_convs agent.surjective agent.update_convs)+
  with Cons ys show ?case by simp
qed

section \<open>The scheduler on unchecked values\<close>

text \<open>
  \<^verbatim>\<open>calculate_merge_order\<close> and \<^verbatim>\<open>agent_to_dict\<close> are modelled twice, for agents
  whose fields are strings and lists of strings and for agents holding unchecked values.
  On the former the two models agree, so what is proved of the scheduler holds on the
  hybrid path whenever the analyzer result gives string ids and lists of strings as
  dependencies.
\<close>

lemma py_eq_str_list: "py_eq (str_list xs) (str_list ys) \<longleftrightarrow> xs = ys"
proof -
  have "py_eq_list (map YStr xs) (map YStr ys) \<longleftrightarrow> xs = ys"
    by (induction xs arbitrary: ys) (auto split: list.splits)
  then show ?thesis by (simp add: str_list_def)
qed

lemma llm_agent_eq_typed: "llm_agent_eq (llm_of_agent a) (llm_of_agent b) \<longleftrightarrow> a = b"
  by (cases a, cases b)
     (auto simp: llm_agent_eq_def llm_of_agent_def py_eq_str_list py_number_def)

lemma llm_of_agent_inj: "llm_of_agent a = llm_of_agent b \<longleftrightarrow> a = b"
proof -
  have "inj YStr" by (simp add: inj_def)
  then have "str_list xs = str_list ys \<longleftrightarrow> xs = ys" for xs ys
    by (simp add: str_list_def inj_map_eq_map)
  then show ?thesis
    by (cases a, cases b) (auto simp: llm_of_agent_def)
qed

lemma llm_agent_to_dict_typed: "llm_agent_to_dict (llm_of_agent a) = agent_to_dict a"
  by (simp add: llm_agent_to_dict_def agent_to_dict_def llm_of_agent_def)

lemma llm_is_ready_typed:
  "llm_is_ready (map YStr ordered) (llm_of_agent a) = Inr (is_ready ordered a)"
proof -
  have "list_ex (\<lambda>x. py_eq x (YStr d)) (map YStr ordered) \<longleftrightarrow> d \<in> set ordered" for d
    by (induction ordered) auto
  then have "list_all (\<lambda>dep. list_ex (\<lambda>x. py_eq x dep) (map YStr ordered)) (map YStr deps)
               \<longleftrightarrow> list_all (\<lambda>d. d \<in> set ordered) deps" for deps
    by (induction deps) auto
  then show ?thesis
    by (auto simp: llm_is_ready_def is_ready_def llm_of_agent_def str_list_def py_truthy_def
          py_iter_def and_then_def)
qed

lemma llm_ready_typed:
  "llm_ready (map YStr ordered) (map llm_of_agent remaining)
     = Inr (map llm_of_agent (filter (is_ready ordered) remaining))"
  by (induction remaining) (auto simp: llm_is_ready_typed and_then_def)

lemma py_remove_by_typed:
  "py_remove_by (\<lambda>x. x = llm_of_agent n \<or> llm_agent_eq x (llm_of_agent n))
     (map llm_of_agent remaining)
   = map_sum id (map llm_of_agent) (py_remove n remaining)"
  by (induction remaining)
     (auto simp: py_remove_def llm_agent_eq_typed llm_of_agent_inj split: sum.splits)

lemma llm_merge_loop_typed:
  "llm_merge_loop (map YStr ordered) (map llm_of_agent remaining)
     = map_sum id (map YStr) (merge_loop ordered remaining)"
proof (induction ordered remaining rule: merge_loop.induct)
  case (1 ordered remaining)
  show ?case
  proof (cases "remaining = []")
    case True
    then show ?thesis
      by (subst llm_merge_loop.simps, subst merge_loop.simps) simp
  next
    case False
    note ne = this
    show ?thesis
    proof (cases "filter (is_ready ordered) remaining")
      case Nil
      with ne show ?thesis
        by (subst llm_merge_loop.simps, subst merge_loop.simps)
           (simp add: llm_ready_typed llm_of_agent_def comp_def)
    next
      case (Cons next_agent others)
      show ?thesis
      proof (cases "py_remove next_agent remaining")
        case (Inl e)
        with ne Cons show ?thesis
          by (subst llm_merge_loop.simps, subst merge_loop.simps)
             (simp add: llm_ready_typed py_remove_by_typed)
      next
        case (Inr remaining')
        from "1.IH" [OF ne Cons Inr]
        have "llm_merge_loop (map YStr (ordered @ [agent_id next_agent]))
                (map llm_of_agent remaining')
              = map_sum id (map YStr) (merge_loop (ordered @ [agent_id next_agent]) remaining')" .
        moreover have "llm_id (llm_of_agent next_agent) = YStr (agent_id next_agent)"
          by (simp add: llm_of_agent_def)
        ultimately show ?thesis
          using ne Cons Inr
          by (subst llm_merge_loop.simps, subst merge_loop.simps)
             (simp add: llm_ready_typed py_remove_by_typed)
      qed
    qed
  qed
qed

lemma llm_calculate_merge_order_typed:
  "llm_calculate_merge_order (map llm_of_agent agents)
     = map_sum id (map YStr) (calculate_merge_order agents)"
  using llm_merge_loop_typed [of "[]" agents]
  by (simp add: llm_calculate_merge_order_def calculate_merge_order_def)

section \<open>Claims about the pattern-based decomposition\<close>

text \<open>
  C10. In every pattern-based decomposition run, whatever the rule table, the requirements
  and the string hashes: domain creation returns without raising (the duplicate-path
  check never fires), the agents are generated, the conflict validator returns without
  raising, and the pipeline returns its plan. The keys of the merged file-operation map
  are distinct, the paths of all domains together are exactly these keys, each once, and
  every path is in the domain recorded on its first operation.
\<close>

theorem ownership_conflicts_unreachable:
  "\<exists>d3 agents d4 own p.
     create_exclusive_domains
       (build_dependency_graph (analyze_file_operations_with table issue init_decomposer))
       = Inr d3 \<and>
     generate_exclusive_agents h d3 = Inr (agents, d4) \<and>
     validate_no_conflicts agents = Inr own \<and>
     pattern_pipeline table h issue = Inr (p, agents, d4) \<and>
     distinct (map fst (all_file_operations d3)) \<and>
     mset (concat (map snd (exclusive_domains d3))) = mset (map fst (all_file_operations d3)) \<and>
     (\<forall>kv\<in>set (exclusive_domains d3). \<forall>f\<in>set (snd kv).
        first_domain (all_file_operations d3) f = Some (fst kv))"
proof -
  let ?d2 = "build_dependency_graph (analyze_file_operations_with table issue init_decomposer)"
  from pattern_pipeline_steps [of table issue h] obtain domains agents d4 own p where
    s: "create_exclusive_domains ?d2 = Inr (?d2\<lparr>exclusive_domains := domains\<rparr>)"
       "group_by_domain (all_file_operations ?d2) [] = Inr domains"
       "generate_exclusive_agents h (?d2\<lparr>exclusive_domains := domains\<rparr>) = Inr (agents, d4)"
       "validate_no_conflicts agents = Inr own"
       "pattern_pipeline table h issue = Inr (p, agents, d4)"
       "distinct (map fst (all_file_operations ?d2))"
       "mset (concat (map snd domains)) = mset (map fst (all_file_operations ?d2))"
    by blast
  have "\<forall>kv\<in>set domains. \<forall>f\<in>set (snd kv).
          first_domain (all_file_operations ?d2) f = Some (fst kv)"
    using group_by_domain_first [OF s(2) subset_refl s(6)] by simp
  with s show ?thesis
    by (intro exI [of _ "?d2\<lparr>exclusive_domains := domains\<rparr>"] exI [of _ agents]
          exI [of _ d4] exI [of _ own] exI [of _ p]) simp
qed

lemma scenario_domains_run:
  "map_sum id exclusive_domains
     (create_exclusive_domains
        (build_dependency_graph
           (analyze_file_operations_with patterns scenario_issue init_decomposer)))
   = Inr scenario_domains"
  by code_simp

theorem ownership_conflicts_unreachable_witness:
  "\<exists>d3 agents d4 own p.
     create_exclusive_domains
       (build_dependency_graph
          (analyze_file_operations_with patterns scenario_issue init_decomposer))
       = Inr d3 \<and>
     exclusive_domains d3 = scenario_domains \<and>
     generate_exclusive_agents (\<lambda>s. 0) d3 = Inr (agents, d4) \<and>
     validate_no_conflicts agents = Inr own \<and>
     pattern_pipeline patterns (\<lambda>s. 0) scenario_issue = Inr (p, agents, d4) \<and>
     distinct (map fst (all_file_operations d3)) \<and>
     mset (concat (map snd (exclusive_domains d3))) = mset (map fst (all_file_operations d3)) \<and>
     (\<forall>kv\<in>set (exclusive_domains d3). \<forall>f\<in>set (snd kv).
        first_domain (all_file_operations d3) f = Some (fst kv))"
  using ownership_conflicts_unreachable [of patterns scenario_issue "\<lambda>s. 0"]
    scenario_domains_run
  by fastforce

text \<open>
  C9. Two pattern-based runs over the same issue text with the same rule table, under
  any two assignments of string hashes (the one thing that differs between two Python
  processes here), both return, and they return the same plan and the same state of the
  decomposer (so the same domain-to-path assignment); their agents have the same ids, the
  same files to create and the same files to modify.
\<close>

theorem pattern_decomposition_deterministic:
  "\<exists>p agents1 agents2 d.
     pattern_pipeline table h1 issue = Inr (p, agents1, d) \<and>
     pattern_pipeline table h2 issue = Inr (p, agents2, d) \<and>
     map agent_id agents1 = map agent_id agents2 \<and>
     map files_to_create agents1 = map files_to_create agents2 \<and>
     map files_to_modify agents1 = map files_to_modify agents2"
proof -
  let ?d2 = "build_dependency_graph (analyze_file_operations_with table issue init_decomposer)"
  from pattern_pipeline_steps [of table issue h1] obtain domains1 agents1 d1 p1 where
    s1: "group_by_domain (all_file_operations ?d2) [] = Inr domains1"
        "generate_exclusive_agents h1 (?d2\<lparr>exclusive_domains := domains1\<rparr>) = Inr (agents1, d1)"
        "generate_deployment_plan issue d1 agents1 = Inr p1"
        "pattern_pipeline table h1 issue = Inr (p1, agents1, d1)"
    by blast
  from pattern_pipeline_steps [of table issue h2] obtain domains2 agents2 d2 p2 where
    s2: "group_by_domain (all_file_operations ?d2) [] = Inr domains2"
        "generate_exclusive_agents h2 (?d2\<lparr>exclusive_domains := domains2\<rparr>) = Inr (agents2, d2)"
        "generate_deployment_plan issue d2 agents2 = Inr p2"
        "pattern_pipeline table h2 issue = Inr (p2, agents2, d2)"
    by blast
  from s1(1) s2(1) have "domains1 = domains2" by simp
  with s1(2) s2(2) have
    w: "map without_requirements agents1 = map without_requirements agents2" and d: "d1 = d2"
    using agents_loop_hash [of h1 _ domains1 "[]" agents1 d1 h2 "[]" agents2 d2]
    by (simp_all add: generate_exclusive_agents_def)
  from generate_deployment_plan_without_requirements [OF w, of issue d1] s1(3) s2(3) d
  have "p1 = p2" by simp
  with s1(4) s2(4) d files_without_requirements [OF w] show ?thesis by blast
qed

text \<open>
  Exclusivity on the pattern-based path: the pipeline returns a plan, and no path of the
  plan is in the file lists of two agents (nor twice in one).
\<close>

theorem pattern_plan_exclusive:
  "\<exists>p agents d fss.
     pattern_pipeline table h issue = Inr (p, agents, d) \<and>
     plan_files p = Inr fss \<and> exclusive_ownership fss \<and> distinct (concat fss)"
proof -
  from pattern_pipeline_steps [of table issue h] obtain agents d p where
    s: "generate_deployment_plan issue d agents = Inr p"
       "pattern_pipeline table h issue = Inr (p, agents, d)"
       "distinct (concat (map agent_files agents))"
    by blast
  from plan_files_generated [OF s(1)] have "plan_files p = Inr (map agent_files agents)" .
  with s distinct_concat_exclusive [OF s(3)] show ?thesis by blast
qed

lemma load_fallback: "load_linear_issue NoCacheFile iid = Inr (fallback_issue iid)"
  by (simp add: load_linear_issue_def fallback_issue_def)

lemma overlap_convert:
  "map_sum id plan_files
     (convert_llm_result_to_deployment_plan fmt (fallback_issue ''ABC-1'')
        (YMap [(''confidence'', c), (''agents'', YList [api_entry, ui_entry])]))
   = Inr (Inr [[''src/app.ts''], [''src/app.ts'']])"
  by code_simp

text \<open>
  C1, hybrid path. With hybrid analysis enabled and an analyzer result of confidence 0.9
  whose two agents \<^verbatim>\<open>api_agent\<close> and \<^verbatim>\<open>ui_agent\<close> both claim \<^verbatim>\<open>src/app.ts\<close>,
  \<^verbatim>\<open>decompose\<close> returns the converted plan: the path is in the file lists of both
  agents of the plan, and the plan is not saved.
\<close>

theorem hybrid_plan_shares_a_path:
  "and_then (decompose (example_llm_env (YReal 0.9) (YList [api_entry, ui_entry])) ''ABC-1'')
     (\<lambda>r. plan_files (plan r)) = Inr [[''src/app.ts''], [''src/app.ts'']] \<and>
   \<not> exclusive_ownership [[''src/app.ts''], [''src/app.ts'']] \<and>
   map_sum id saved_plan
     (decompose (example_llm_env (YReal 0.9) (YList [api_entry, ui_entry])) ''ABC-1'') = Inr None"
proof -
  let ?res = "YMap [(''confidence'', YReal 0.9), (''agents'', YList [api_entry, ui_entry])]"
  let ?fmt = "\<lambda>v :: yaml. ''?''"
  from overlap_convert [of ?fmt "YReal 0.9"] obtain p where
    p: "convert_llm_result_to_deployment_plan ?fmt (fallback_issue ''ABC-1'') ?res = Inr p"
       "plan_files p = Inr [[''src/app.ts''], [''src/app.ts'']]"
    by (cases "convert_llm_result_to_deployment_plan ?fmt (fallback_issue ''ABC-1'') ?res") auto
  have "try_hybrid_analysis ?fmt (fallback_issue ''ABC-1'') (Returned ?res) = Some p"
    using p(1)
    by (simp add: try_hybrid_analysis_def py_item_def confidence_reached_def
          confidence_threshold_def)
  then have "decompose (example_llm_env (YReal 0.9) (YList [api_entry, ui_entry])) ''ABC-1''
             = Inr \<lparr>plan = p, saved_plan = None\<rparr>"
    by (simp add: decompose_def decompose_with_def example_llm_env_def load_fallback and_then_def)
  with p(2) show ?thesis by (simp add: and_then_def)
qed

lemma scenario_run:
  "map_sum id
     (\<lambda>(p, agents, d).
        (exclusive_domains d, map agent_id agents, map dependencies agents,
         map agent_files agents, calculate_merge_order agents,
         and_then (py_item p ''integrationPlan'') (\<lambda>ip. py_item ip ''mergeOrder''),
         filter (is_ready [''auth_agent'', ''forms_agent'']) (drop 2 agents),
         length agents))
     (pattern_pipeline patterns h scenario_issue)
   = Inr (scenario_domains, [''auth_agent'', ''forms_agent'', ''backend_agent''],
          [[], [''auth_agent''], [''data_agent'']], map snd scenario_domains,
          Inr [''auth_agent'', ''forms_agent'', ''backend_agent''],
          Inr (str_list [''auth_agent'', ''forms_agent'', ''backend_agent'']),
          [], 3)"
  by code_simp

text \<open>
  C8 as stated fails: the text yields the two requirements, and domain creation yields
  three domains, \<^verbatim>\<open>auth\<close>, \<^verbatim>\<open>forms\<close> and \<^verbatim>\<open>backend\<close> (the second requirement
  contains the keyword \<^verbatim>\<open>validation\<close> of the forms rule), not two.
\<close>

theorem scenario_has_three_domains:
  "issue_requirements scenario_issue =
     [''Implement JWT auth login'', ''Add API endpoint for validation''] \<and>
   map_sum id (map fst \<circ> exclusive_domains)
     (create_exclusive_domains
        (build_dependency_graph
           (analyze_file_operations_with patterns scenario_issue init_decomposer)))
   = Inr [''auth'', ''forms'', ''backend'']"
  by code_simp

text \<open>
  C8, amended. For the requirement text of the scenario, pattern-based decomposition
  produces three domains, \<^verbatim>\<open>auth\<close>, \<^verbatim>\<open>forms\<close> and \<^verbatim>\<open>backend\<close>, with 4 files
  each; the agents are \<^verbatim>\<open>auth_agent\<close> (no dependency), \<^verbatim>\<open>forms_agent\<close> (depends on
  \<^verbatim>\<open>auth_agent\<close>) and \<^verbatim>\<open>backend_agent\<close> (depends on \<^verbatim>\<open>data_agent\<close>, absent from the
  run), each owning the files of its domain; the conflict validator passes; after
  \<^verbatim>\<open>auth_agent\<close> and \<^verbatim>\<open>forms_agent\<close> are scheduled no remaining agent is ready, and the
  merge order of the plan is \<^verbatim>\<open>auth_agent\<close>, \<^verbatim>\<open>forms_agent\<close>, \<^verbatim>\<open>backend_agent\<close>.
\<close>

theorem scenario_decomposition:
  "issue_requirements scenario_issue =
     [''Implement JWT auth login'', ''Add API endpoint for validation''] \<and>
   (\<exists>p agents d own.
      pattern_pipeline patterns h scenario_issue = Inr (p, agents, d) \<and>
      exclusive_domains d = scenario_domains \<and>
      map agent_id agents = [''auth_agent'', ''forms_agent'', ''backend_agent''] \<and>
      map dependencies agents = [[], [''auth_agent''], [''data_agent'']] \<and>
      map agent_files agents = map snd scenario_domains \<and>
      validate_no_conflicts agents = Inr own \<and>
      calculate_merge_order agents = Inr [''auth_agent'', ''forms_agent'', ''backend_agent''] \<and>
      and_then (py_item p ''integrationPlan'') (\<lambda>ip. py_item ip ''mergeOrder'')
        = Inr (str_list [''auth_agent'', ''forms_agent'', ''backend_agent'']) \<and>
      length agents = 3 \<and>
      filter (is_ready [''auth_agent'', ''forms_agent'']) (drop 2 agents) = [])"
proof -
  have r: "issue_requirements scenario_issue =
             [''Implement JWT auth login'', ''Add API endpoint for validation'']"
    by code_simp
  from pattern_pipeline_steps [of patterns scenario_issue h] obtain agents d own p where
    s: "validate_no_conflicts agents = Inr own"
       "pattern_pipeline patterns h scenario_issue = Inr (p, agents, d)"
    by blast
  from scenario_run [of h] s(2) r s(1) show ?thesis by simp
qed

section \<open>Claims about agent records\<close>

lemma create_agent_can_start:
  "create_agent_for_domain h d dmn fls = Inr a \<Longrightarrow>
     can_start_immediately a \<longleftrightarrow> dependencies a = []"
  by (auto simp: create_agent_for_domain_def Let_def and_then_Inr)

text \<open>
  The conversion of an entry of an analyzer result returns an agent exactly when the
  entry is a dict with the keys \<^verbatim>\<open>agentId\<close>, \<^verbatim>\<open>agentRole\<close> and \<^verbatim>\<open>focusArea\<close> whose
  \<^verbatim>\<open>filesToCreate\<close>, when present, can be iterated over and yields strings. Nothing is
  asked of \<^verbatim>\<open>dependencies\<close>, \<^verbatim>\<open>filesToModify\<close> and \<^verbatim>\<open>estimatedTime\<close>.
\<close>

lemma convert_llm_agent_returns:
  "(\<exists>b. convert_llm_agent fmt agent_data = Inr b) \<longleftrightarrow>
     (\<exists>kvs. agent_data = YMap kvs \<and> map_of kvs ''agentId'' \<noteq> None \<and>
        map_of kvs ''agentRole'' \<noteq> None \<and> map_of kvs ''focusArea'' \<noteq> None \<and>
        (\<exists>names. and_then (py_iter (case map_of kvs ''filesToCreate'' of
                                       None \<Rightarrow> YList [] | Some v \<Rightarrow> v))
                    test_contract_names = Inr names))"
  by (cases agent_data)
     (auto simp: convert_llm_agent_def and_then_Inr py_item_def py_get_default_def py_get_def
        split: option.splits)

lemma convert_llm_agent_fields:
  assumes "convert_llm_agent fmt agent_data = Inr b"
  shows "llm_can_start_immediately b \<longleftrightarrow> \<not> py_truthy (llm_dependencies b)"
    and "py_get_default agent_data ''dependencies'' (YList []) = Inr (llm_dependencies b)"
  using assms by (auto simp: convert_llm_agent_def and_then_Inr)

lemma agent_context_can_start:
  assumes "create_agent_context h now p aid branch_name worktree_path = Inr ctx"
  shows "\<exists>c deps. py_item ctx ''canStartImmediately'' = Inr (YBool c) \<and>
           py_item ctx ''dependencies'' = Inr (YList deps) \<and> (c \<longleftrightarrow> deps = [])"
proof -
  from assms obtain agent_data deps c where
    g: "unique_values h ''dependencies'' agent_data = Inr deps"
    and n: "no_dependencies agent_data = Inr c"
    and i1: "py_item ctx ''canStartImmediately'' = Inr (YBool c)"
    and i2: "py_item ctx ''dependencies'' = Inr (YList deps)"
    unfolding create_agent_context_def and_then_Inr
    by (auto simp: py_item_def)
  from g obtain gathered where
    g1: "gather ''dependencies'' agent_data = Inr gathered"
    and g2: "py_list_of_value_set h gathered = Inr deps"
    by (auto simp: unique_values_def and_then_Inr)
  from gather_no_dependencies [OF g1] n have "c \<longleftrightarrow> gathered = []" by simp
  with py_list_of_value_set_Nil [OF g2] have "c \<longleftrightarrow> deps = []" by simp
  with i1 i2 show ?thesis by blast
qed

text \<open>
  C7. In every agent record the system produces, \<^verbatim>\<open>canStartImmediately\<close> is true if and
  only if \<^verbatim>\<open>dependencies\<close> is empty.
  \<^item> The agent synthesized for a domain, as a record and as the entry \<^verbatim>\<open>agent_to_dict\<close>
    writes to the plan: its dependencies are a list of strings.
  \<^item> The agent converted from an entry of an analyzer result, whatever the entry holds:
    \<^verbatim>\<open>dependencies\<close> is the value of the entry, stored unchecked (the empty list when the
    key is absent), and \<^verbatim>\<open>canStartImmediately\<close> is true exactly when that value is empty
    in the sense of Python's truth test. For a list this is the empty list; a value that
    is not a list counts as empty when it is \<^verbatim>\<open>null\<close>, \<^verbatim>\<open>false\<close>, zero, or an empty
    string or dict, so an entry with \<^verbatim>\<open>dependencies: null\<close> gives a record with
    \<^verbatim>\<open>dependencies: null\<close> and \<^verbatim>\<open>canStartImmediately: true\<close>.
  \<^item> The agent context made at spawn time, whenever \<^verbatim>\<open>create_agent_context\<close> returns:
    its \<^verbatim>\<open>dependencies\<close> is a list, the distinct dependencies of the plan entries of
    the agent.
\<close>

theorem can_start_iff_no_dependencies:
  "(create_agent_for_domain h d dmn fls = Inr a \<longrightarrow>
      (can_start_immediately a \<longleftrightarrow> dependencies a = []) \<and>
      py_item (agent_to_dict a) ''canStartImmediately'' = Inr (YBool (dependencies a = [])) \<and>
      py_item (agent_to_dict a) ''dependencies'' = Inr (str_list (dependencies a))) \<and>
   (convert_llm_agent fmt agent_data = Inr b \<longrightarrow>
      (llm_can_start_immediately b \<longleftrightarrow> \<not> py_truthy (llm_dependencies b)) \<and>
      (\<forall>deps. llm_dependencies b = YList deps \<longrightarrow>
         (llm_can_start_immediately b \<longleftrightarrow> deps = [])) \<and>
      py_get_default agent_data ''dependencies'' (YList []) = Inr (llm_dependencies b) \<and>
      py_item (llm_agent_to_dict b) ''canStartImmediately''
        = Inr (YBool (\<not> py_truthy (llm_dependencies b))) \<and>
      py_item (llm_agent_to_dict b) ''dependencies'' = Inr (llm_dependencies b)) \<and>
   (create_agent_context h' now p aid branch_name worktree_path = Inr ctx \<longrightarrow>
      (\<exists>c deps. py_item ctx ''canStartImmediately'' = Inr (YBool c) \<and>
         py_item ctx ''dependencies'' = Inr (YList deps) \<and> (c \<longleftrightarrow> deps = [])))"
  using create_agent_can_start [of h d dmn fls a] convert_llm_agent_fields [of fmt agent_data b]
    agent_context_can_start [of h' now p aid branch_name worktree_path ctx]
  by (auto simp: agent_to_dict_def llm_agent_to_dict_def py_item_def py_truthy_def)

theorem can_start_iff_no_dependencies_witness:
  "create_agent_for_domain (\<lambda>s. 0) init_decomposer ''forms'' [] = Inr example_forms_agent \<and>
   (can_start_immediately example_forms_agent \<longleftrightarrow> dependencies example_forms_agent = []) \<and>
   convert_llm_agent (\<lambda>v. ''?'') api_entry = Inr example_api_agent \<and>
   llm_dependencies example_api_agent = YList [YStr ''db_agent''] \<and>
   (llm_can_start_immediately example_api_agent \<longleftrightarrow> [YStr ''db_agent''] = []) \<and>
   convert_llm_agent (\<lambda>v. ''?'') docs_entry = Inr example_docs_agent \<and>
   llm_dependencies example_docs_agent = YNull \<and>
   (llm_can_start_immediately example_docs_agent
      \<longleftrightarrow> \<not> py_truthy (llm_dependencies example_docs_agent)) \<and>
   py_item (llm_agent_to_dict example_docs_agent) ''canStartImmediately''
     = Inr (YBool (\<not> py_truthy (llm_dependencies example_docs_agent))) \<and>
   py_item (llm_agent_to_dict example_docs_agent) ''dependencies''
     = Inr (llm_dependencies example_docs_agent) \<and>
   create_agent_context (\<lambda>s. 0) ''2025-01-01T00:00:00'' spawn_plan ''api_agent''
     ''ABC-1-api_agent'' ''/tmp/w'' = Inr example_context \<and>
   (\<exists>c deps. py_item example_context ''canStartImmediately'' = Inr (YBool c) \<and>
      py_item example_context ''dependencies'' = Inr (YList deps) \<and> (c \<longleftrightarrow> deps = []))"
proof -
  have 1: "create_agent_for_domain (\<lambda>s. 0) init_decomposer ''forms'' [] = Inr example_forms_agent"
    by code_simp
  have 2: "convert_llm_agent (\<lambda>v. ''?'') api_entry = Inr example_api_agent"
    by code_simp
  have 3: "convert_llm_agent (\<lambda>v. ''?'') docs_entry = Inr example_docs_agent"
    by code_simp
  have 4: "create_agent_context (\<lambda>s. 0) ''2025-01-01T00:00:00'' spawn_plan ''api_agent''
             ''ABC-1-api_agent'' ''/tmp/w'' = Inr example_context"
    by code_simp
  have 5: "llm_dependencies example_api_agent = YList [YStr ''db_agent'']"
    by (simp add: example_api_agent_def)
  have 6: "llm_dependencies example_docs_agent = YNull"
    by (simp add: example_docs_agent_def)
  from 1 2 4 5
    can_start_iff_no_dependencies [of "\<lambda>s. 0" init_decomposer "''forms''" "[]"
      example_forms_agent "\<lambda>v. ''?''" api_entry example_api_agent "\<lambda>s. 0"
      "''2025-01-01T00:00:00''" spawn_plan "''api_agent''" "''ABC-1-api_agent''" "''/tmp/w''"
      example_context]
  have a: "(can_start_immediately example_forms_agent \<longleftrightarrow> dependencies example_forms_agent = [])"
    "(llm_can_start_immediately example_api_agent \<longleftrightarrow> [YStr ''db_agent''] = [])"
    "(\<exists>c deps. py_item example_context ''canStartImmediately'' = Inr (YBool c) \<and>
        py_item example_context ''dependencies'' = Inr (YList deps) \<and> (c \<longleftrightarrow> deps = []))"
    by blast+
  from 1 3 4
    can_start_iff_no_dependencies [of "\<lambda>s. 0" init_decomposer "''forms''" "[]"
      example_forms_agent "\<lambda>v. ''?''" docs_entry example_docs_agent "\<lambda>s. 0"
      "''2025-01-01T00:00:00''" spawn_plan "''api_agent''" "''ABC-1-api_agent''" "''/tmp/w''"
      example_context]
  have b: "(llm_can_start_immediately example_docs_agent
              \<longleftrightarrow> \<not> py_truthy (llm_dependencies example_docs_agent))"
    "py_item (llm_agent_to_dict example_docs_agent) ''canStartImmediately''
       = Inr (YBool (\<not> py_truthy (llm_dependencies example_docs_agent)))"
    "py_item (llm_agent_to_dict example_docs_agent) ''dependencies''
       = Inr (llm_dependencies example_docs_agent)"
    by blast+
  from 1 2 3 4 5 6 a b show ?thesis by blast
qed

section \<open>Claims about the integration stage\<close>

lemma integrate_agent_skip:
  "\<not> workspace_exists env a \<Longrightarrow>
     integrate_agent env a s = (Inr True, s\<lparr>attempted := attempted s @ [a]\<rparr>)"
  by (simp add: integrate_agent_def)

lemma integrate_agent_commit:
  "workspace_exists env a \<Longrightarrow> has_pnpm env \<or> has_npm env \<Longrightarrow>
   test_returncode env (copied s @ [a]) = 0 \<Longrightarrow> git_add_ok env (copied s @ [a]) \<Longrightarrow>
   git_commit_ok env (copied s @ [a]) \<Longrightarrow>
     integrate_agent env a s =
       (Inr True, s\<lparr>attempted := attempted s @ [a], copied := copied s @ [a],
                     committed := committed s @ [a]\<rparr>)"
  by (auto simp: integrate_agent_def Let_def)

lemma integrate_agent_fail:
  "workspace_exists env a \<Longrightarrow> has_pnpm env \<or> has_npm env \<Longrightarrow>
   test_returncode env (copied s @ [a]) \<noteq> 0 \<Longrightarrow>
     integrate_agent env a s =
       (Inr False, s\<lparr>attempted := attempted s @ [a], copied := copied s @ [a]\<rparr>)"
  by (auto simp: integrate_agent_def Let_def)

text \<open>
  C3. Let the merge order read from the plan be x, y, z, let the integration branch be
  created and a package manager be found, let the step of x succeed (x has no workspace
  and is skipped, or its tests pass and its commit is made), and let the incremental
  tests fail after the files of y are copied. Then the run halts on y with exit code 1;
  \<^verbatim>\<open>integrate_agent\<close> was called for x and y only, never for z; the commit of x, made
  when x has a workspace, is still there (nothing is rolled back); and no report is
  written.
\<close>

theorem integration_halts_on_failure:
  assumes order: "load_integration_order env = Inr [YStr x, YStr y, YStr z]"
    and git: "git_checkout_ok env"
    and pm: "has_pnpm env \<or> has_npm env"
    and x_ok: "workspace_exists env x \<longrightarrow>
                 test_returncode env [x] = 0 \<and> git_add_ok env [x] \<and> git_commit_ok env [x]"
    and y_ws: "workspace_exists env y"
    and y_fail: "test_returncode env ((if workspace_exists env x then [x] else []) @ [y]) \<noteq> 0"
  shows "\<exists>s. integrate_parallel_work env = (Halted (AgentFailed y), s) \<and>
           exit_code (Halted (AgentFailed y)) = 1 \<and>
           attempted s = [x, y] \<and>
           committed s = (if workspace_exists env x then [x] else []) \<and>
           \<not> reported s"
proof (cases "workspace_exists env x")
  case True
  let ?s0 = "initial_state\<lparr>branch_created := True\<rparr>"
  let ?s1 = "?s0\<lparr>attempted := [x], copied := [x], committed := [x]\<rparr>"
  let ?s2 = "?s1\<lparr>attempted := [x, y], copied := [x, y]\<rparr>"
  have 1: "integrate_agent env x ?s0 = (Inr True, ?s1)"
    using integrate_agent_commit [of env x ?s0] True pm x_ok by (simp add: initial_state_def)
  have 2: "integrate_agent env y ?s1 = (Inr False, ?s2)"
    using integrate_agent_fail [of env y ?s1] True pm y_ws y_fail by simp
  have "integrate_agents env [YStr x, YStr y, YStr z] ?s0 = (Some (AgentFailed y), ?s2)"
    using 1 2 by (simp add: as_str_def)
  then have "integrate_parallel_work env = (Halted (AgentFailed y), ?s2)"
    using order git by (simp add: integrate_parallel_work_def)
  then show ?thesis using True by (simp add: exit_code_def initial_state_def)
next
  case False
  let ?s0 = "initial_state\<lparr>branch_created := True\<rparr>"
  let ?s1 = "?s0\<lparr>attempted := [x]\<rparr>"
  let ?s2 = "?s1\<lparr>attempted := [x, y], copied := [y]\<rparr>"
  have 1: "integrate_agent env x ?s0 = (Inr True, ?s1)"
    using integrate_agent_skip [of env x ?s0] False by (simp add: initial_state_def)
  have 2: "integrate_agent env y ?s1 = (Inr False, ?s2)"
    using integrate_agent_fail [of env y ?s1] False pm y_ws y_fail by (simp add: initial_state_def)
  have "integrate_agents env [YStr x, YStr y, YStr z] ?s0 = (Some (AgentFailed y), ?s2)"
    using 1 2 by (simp add: as_str_def)
  then have "integrate_parallel_work env = (Halted (AgentFailed y), ?s2)"
    using order git by (simp add: integrate_parallel_work_def)
  then show ?thesis using False by (simp add: exit_code_def initial_state_def)
qed

theorem integration_halts_on_failure_witness:
  "load_integration_order (example_integration_env [(''plan.yaml'', Some order_plan)])
     = Inr [YStr ''x_agent'', YStr ''y_agent'', YStr ''z_agent''] \<and>
   integrate_parallel_work (example_integration_env [(''plan.yaml'', Some order_plan)])
     = (Halted (AgentFailed ''y_agent''),
        \<lparr>attempted = [''x_agent'', ''y_agent''], copied = [''x_agent'', ''y_agent''],
         committed = [''x_agent''], branch_created = True, reported = False\<rparr>) \<and>
   (\<exists>s. integrate_parallel_work (example_integration_env [(''plan.yaml'', Some order_plan)])
           = (Halted (AgentFailed ''y_agent''), s) \<and>
         exit_code (Halted (AgentFailed ''y_agent'')) = 1 \<and>
         attempted s = [''x_agent'', ''y_agent''] \<and>
         committed s = [''x_agent''] \<and> \<not> reported s)"
proof -
  let ?env = "example_integration_env [(''plan.yaml'', Some order_plan)]"
  have o: "load_integration_order ?env = Inr [YStr ''x_agent'', YStr ''y_agent'', YStr ''z_agent'']"
    by code_simp
  have e: "git_checkout_ok ?env" "has_pnpm ?env \<or> has_npm ?env"
    "workspace_exists ?env ''x_agent'' \<longrightarrow> test_returncode ?env [''x_agent''] = 0 \<and>
       git_add_ok ?env [''x_agent''] \<and> git_commit_ok ?env [''x_agent'']"
    "workspace_exists ?env ''y_agent''"
    "test_returncode ?env ((if workspace_exists ?env ''x_agent'' then [''x_agent''] else [])
       @ [''y_agent'']) \<noteq> 0"
    by (simp_all add: example_integration_env_def)
  have r: "integrate_parallel_work ?env
     = (Halted (AgentFailed ''y_agent''),
        \<lparr>attempted = [''x_agent'', ''y_agent''], copied = [''x_agent'', ''y_agent''],
         committed = [''x_agent''], branch_created = True, reported = False\<rparr>)"
    by code_simp
  have "workspace_exists ?env ''x_agent''" by (simp add: example_integration_env_def)
  with integration_halts_on_failure [OF o e] o r show ?thesis by simp
qed

lemma plan_filename_glob:
  "\<not> suffix ''.json'' (plan_filename iid)" "suffix ''.yaml'' (plan_filename iid)"
proof -
  have "\<not> suffix ''.json'' ''-deployment-plan.yaml''" by code_simp
  then show "\<not> suffix ''.json'' (plan_filename iid)"
    by (auto simp: plan_filename_def suffix_append)
  show "suffix ''.yaml'' (plan_filename iid)"
    by (simp add: plan_filename_def suffix_def)
qed

lemma find_saved_plan:
  "find_deployment_plan [(plan_filename iid, content)] = Some (plan_filename iid, content)"
  by (simp add: find_deployment_plan_def glob_def plan_filename_glob)

lemma generated_plan_no_integration_order:
  assumes "generate_deployment_plan issue d agents = Inr p"
  shows "read_integration_order p = Inl InvalidPlanFormat"
    and "\<exists>order. calculate_merge_order agents = Inr order \<and>
           and_then (py_item p ''integrationPlan'') (\<lambda>ip. py_item ip ''mergeOrder'')
             = Inr (str_list order)"
  using assms
  by (auto simp: generate_deployment_plan_def read_integration_order_def py_truthy_def
        py_contains_def py_item_def and_then_def split: sum.splits)

lemma decompose_saved_plan:
  assumes "decompose_with table env iid = Inr r" "saved_plan r = Some file"
  shows "\<exists>issue d agents. fst file = plan_filename (issue_id issue) \<and>
           generate_deployment_plan issue d agents = Inr (snd file) \<and> plan r = snd file"
proof -
  from assms(1) obtain issue where
    r: "(case (if use_hybrid_analysis env
             then try_hybrid_analysis (value_text env) issue
                    (llm_decomposer env (hybrid_description issue))
             else None) of
         Some hybrid_result \<Rightarrow> Inr \<lparr>plan = hybrid_result, saved_plan = None\<rparr>
       | None \<Rightarrow> pattern_decompose table env issue) = Inr r"
    by (auto simp: decompose_with_def and_then_Inr)
  with assms(2) have "pattern_decompose table env issue = Inr r"
    by (auto split: option.splits)
  with assms(2) show ?thesis
    by (fastforce simp: pattern_decompose_def pattern_pipeline_def Let_def and_then_Inr
          save_deployment_plan_def split: if_splits)
qed

lemma persisted_plan_rejected:
  assumes "decompose_with table renv iid = Inr r"
    and "saved_plan r = Some file"
    and "deployment_dir ienv = [(fst file, Some (snd file))]"
    and "check_validation (validation_status_file ienv) = None"
  shows "integrate_parallel_work ienv = (Halted InvalidPlanFormat, initial_state) \<and>
         exit_code (Halted InvalidPlanFormat) = 1 \<and>
         (\<exists>order. and_then (py_item (snd file) ''integrationPlan'') (\<lambda>ip. py_item ip ''mergeOrder'')
                     = Inr (str_list order))"
proof -
  from decompose_saved_plan [OF assms(1,2)] obtain issue d agents where
    f: "fst file = plan_filename (issue_id issue)"
    and g: "generate_deployment_plan issue d agents = Inr (snd file)"
    by blast
  have "load_integration_order ienv = Inl InvalidPlanFormat"
    using assms(3,4) f generated_plan_no_integration_order(1) [OF g]
    by (simp add: load_integration_order_def find_saved_plan)
  then have "integrate_parallel_work ienv = (Halted InvalidPlanFormat, initial_state)"
    by (simp add: integrate_parallel_work_def)
  then show ?thesis
    using generated_plan_no_integration_order(2) [OF g] by (auto simp: exit_code_def)
qed

lemma integrate_agent_attempted:
  "integrate_agent env a s = (r, s') \<Longrightarrow> attempted s' = attempted s @ [a]"
  by (auto simp: integrate_agent_def Let_def split: if_splits)

lemma integrate_agents_in_order:
  "integrate_agents env (map YStr order) s = (r, s') \<Longrightarrow>
     \<exists>merged. attempted s' = attempted s @ merged \<and> prefix merged order \<and>
       (r = None \<longrightarrow> merged = order)"
proof (induction order arbitrary: s)
  case Nil
  then show ?case by simp
next
  case (Cons a order)
  obtain ra sa where a: "integrate_agent env a s = (ra, sa)" by (cases "integrate_agent env a s")
  then have att: "attempted sa = attempted s @ [a]" by (rule integrate_agent_attempted)
  show ?case
  proof (cases "ra = Inr True")
    case True
    with Cons.prems a have "integrate_agents env (map YStr order) sa = (r, s')"
      by (simp add: as_str_def)
    from Cons.IH [OF this] obtain merged where
      "attempted s' = attempted sa @ merged" "prefix merged order" "r = None \<longrightarrow> merged = order"
      by blast
    with att show ?thesis by (intro exI [of _ "a # merged"]) simp
  next
    case False
    with Cons.prems a have "s' = sa" "r \<noteq> None"
      by (auto simp: as_str_def split: sum.splits bool.splits)
    with att show ?thesis by (intro exI [of _ "[a]"]) auto
  qed
qed

lemma py_iter_str_list: "py_iter (str_list order) = Inr (map YStr order)"
  by (simp add: py_iter_def str_list_def)

lemma read_integration_order_key:
  "map_of kvs ''integration_order'' = Some (str_list order) \<Longrightarrow>
     read_integration_order (YMap kvs) = Inr (map YStr order)"
  by (auto simp: read_integration_order_def py_truthy_def py_contains_def py_item_def
        and_then_def py_iter_str_list)

lemma integration_follows_integration_order:
  assumes "check_validation (validation_status_file ienv) = None"
    and "find_deployment_plan (deployment_dir ienv) = Some (path, Some (YMap kvs))"
    and "map_of kvs ''integration_order'' = Some (str_list order)"
    and "git_checkout_ok ienv"
  shows "prefix (attempted (snd (integrate_parallel_work ienv))) order \<and>
         (fst (integrate_parallel_work ienv) = Completed \<longrightarrow>
            attempted (snd (integrate_parallel_work ienv)) = order)"
proof -
  have l: "load_integration_order ienv = Inr (map YStr order)"
    using assms(1,2) read_integration_order_key [OF assms(3)]
    by (simp add: load_integration_order_def)
  let ?s0 = "initial_state\<lparr>branch_created := True\<rparr>"
  obtain r s where rs: "integrate_agents ienv (map YStr order) ?s0 = (r, s)"
    by (cases "integrate_agents ienv (map YStr order) ?s0")
  from integrate_agents_in_order [OF rs] obtain merged where
    m: "attempted s = merged" "prefix merged order" "r = None \<longrightarrow> merged = order"
    by (auto simp: initial_state_def)
  show ?thesis
  proof (cases r)
    case None
    with l rs assms(4) m show ?thesis
      by (auto simp: integrate_parallel_work_def)
  next
    case (Some reason)
    with l rs assms(4) m show ?thesis
      by (auto simp: integrate_parallel_work_def)
  qed
qed

text \<open>
  C2 as stated fails: the decomposer, run on the scenario, saves its plan as
  \<^verbatim>\<open>abc-1-deployment-plan.yaml\<close> with the merge order \<^verbatim>\<open>auth_agent\<close>, \<^verbatim>\<open>forms_agent\<close>,
  \<^verbatim>\<open>backend_agent\<close> under \<^verbatim>\<open>integrationPlan.mergeOrder\<close>; the integration, run with
  validation passed on the directory holding that file, rejects it as an invalid plan
  format without calling \<^verbatim>\<open>integrate_agent\<close> once.
\<close>

theorem saved_plan_not_accepted:
  "map_sum id (map_option fst \<circ> saved_plan) (decompose_with patterns scenario_env ''ABC-1'')
     = Inr (Some ''abc-1-deployment-plan.yaml'') \<and>
   and_then (decompose_with patterns scenario_env ''ABC-1'')
     (\<lambda>r. and_then (py_item (plan r) ''integrationPlan'') (\<lambda>ip. py_item ip ''mergeOrder''))
     = Inr (str_list [''auth_agent'', ''forms_agent'', ''backend_agent'']) \<and>
   integrate_parallel_work
     (example_integration_env (saved_plan_dir (decompose_with patterns scenario_env ''ABC-1'')))
     = (Halted InvalidPlanFormat, initial_state)"
proof -
  let ?run = "decompose_with patterns scenario_env ''ABC-1''"
  have l: "load_linear_issue (linear_cache scenario_env ''ABC-1'') ''ABC-1'' = Inr scenario_issue"
    by code_simp
  have n: "plan_filename ''ABC-1'' = ''abc-1-deployment-plan.yaml''"
    by code_simp
  have i: "issue_id scenario_issue = ''ABC-1''"
    by (simp add: scenario_issue_def)
  from pattern_pipeline_steps [of patterns scenario_issue "\<lambda>s. 0"] obtain p agents d where
    pp: "pattern_pipeline patterns (\<lambda>s. 0) scenario_issue = Inr (p, agents, d)"
    by blast
  with scenario_run [of "\<lambda>s. 0"] have
    m: "and_then (py_item p ''integrationPlan'') (\<lambda>ip. py_item ip ''mergeOrder'')
          = Inr (str_list [''auth_agent'', ''forms_agent'', ''backend_agent''])"
    by simp
  have r: "?run = Inr \<lparr>plan = p, saved_plan = Some (''abc-1-deployment-plan.yaml'', p)\<rparr>"
    using l pp n i
    by (simp add: decompose_with_def pattern_decompose_def save_deployment_plan_def
          and_then_def scenario_env_def)
  have v: "check_validation (validation_status_file
             (example_integration_env (saved_plan_dir ?run))) = None"
    by (simp add: example_integration_env_def check_validation_def py_truthy_def
          get_or_null_def py_get_def)
  have dir: "deployment_dir (example_integration_env (saved_plan_dir ?run))
               = [(fst (''abc-1-deployment-plan.yaml'', p),
                   Some (snd (''abc-1-deployment-plan.yaml'', p)))]"
    using r by (simp add: example_integration_env_def saved_plan_dir_def)
  from persisted_plan_rejected [OF r _ dir v] r m show ?thesis
    by (simp add: and_then_def)
qed

lemma merge_state_snoc:
  "merge_state env (pre @ [a]) = snd (integrate_agent env a (merge_state env pre))"
  by (simp add: merge_state_def)

lemma attempted_merge_state: "attempted (merge_state env pre) = pre"
proof (induction pre rule: rev_induct)
  case Nil
  then show ?case by (simp add: merge_state_def initial_state_def)
next
  case (snoc a pre)
  obtain r s' where rs: "integrate_agent env a (merge_state env pre) = (r, s')"
    by (cases "integrate_agent env a (merge_state env pre)")
  from integrate_agent_attempted [OF rs] snoc rs show ?case
    by (simp add: merge_state_snoc)
qed

lemma integrate_agents_merged:
  assumes "\<forall>i<length pre.
             fst (integrate_agent env (pre ! i)
                    (fold (\<lambda>a s. snd (integrate_agent env a s)) (take i pre) s)) = Inr True"
  shows "integrate_agents env (map YStr (pre @ rest)) s
           = integrate_agents env (map YStr rest)
               (fold (\<lambda>a s. snd (integrate_agent env a s)) pre s)"
  using assms
proof (induction pre arbitrary: s)
  case Nil
  then show ?case by simp
next
  case (Cons x pre)
  let ?step = "\<lambda>a s. snd (integrate_agent env a s)"
  from Cons.prems [rule_format, of 0] have x: "fst (integrate_agent env x s) = Inr True"
    by simp
  have "\<forall>i<length pre.
          fst (integrate_agent env (pre ! i) (fold ?step (take i pre) (?step x s))) = Inr True"
  proof (intro allI impI)
    fix i assume "i < length pre"
    with Cons.prems [rule_format, of "Suc i"] show
      "fst (integrate_agent env (pre ! i) (fold ?step (take i pre) (?step x s))) = Inr True"
      by simp
  qed
  from Cons.IH [OF this] x show ?case
    by (cases "integrate_agent env x s") (simp add: as_str_def)
qed

lemma integrate_agents_first_failure:
  assumes "fst (integrate_agent env a s) \<noteq> Inr True"
  shows "integrate_agents env (map YStr (a # post)) s
           = (Some (case fst (integrate_agent env a s) of
                      Inl e \<Rightarrow> Uncaught e | Inr ok \<Rightarrow> AgentFailed a),
              snd (integrate_agent env a s))"
  using assms
  by (cases "integrate_agent env a s")
     (auto simp: as_str_def split: sum.splits bool.splits)

lemma all_merged_iff:
  "all_merged env pre \<longleftrightarrow>
     (\<forall>i<length pre.
        fst (integrate_agent env (pre ! i)
               (fold (\<lambda>a s. snd (integrate_agent env a s)) (take i pre)
                  (initial_state\<lparr>branch_created := True\<rparr>))) = Inr True)"
  by (auto simp: all_merged_def merge_result_def merge_state_def list_all_iff)

lemma integration_stops_at_first_failure:
  assumes "load_integration_order env = Inr (map YStr (pre @ a # post))"
    and "git_checkout_ok env"
    and "all_merged env pre"
    and "merge_result env pre a \<noteq> Inr True"
  shows "integrate_parallel_work env
           = (Halted (case merge_result env pre a of
                        Inl e \<Rightarrow> Uncaught e | Inr ok \<Rightarrow> AgentFailed a),
              merge_state env (pre @ [a]))"
proof -
  let ?s0 = "initial_state\<lparr>branch_created := True\<rparr>"
  have "integrate_agents env (map YStr (pre @ a # post)) ?s0
          = integrate_agents env (map YStr (a # post)) (merge_state env pre)"
    using integrate_agents_merged [of pre env ?s0 "a # post"] assms(3)
    by (simp add: all_merged_iff merge_state_def)
  also have "\<dots> = (Some (case merge_result env pre a of
                             Inl e \<Rightarrow> Uncaught e | Inr ok \<Rightarrow> AgentFailed a),
                    merge_state env (pre @ [a]))"
    using integrate_agents_first_failure [of env a "merge_state env pre" post] assms(4)
    by (simp add: merge_result_def merge_state_snoc)
  finally show ?thesis
    using assms(1,2) by (simp add: integrate_parallel_work_def)
qed

lemma integration_merges_all:
  assumes "load_integration_order env = Inr (map YStr order)"
    and "git_checkout_ok env"
    and "all_merged env order"
  shows "fst (integrate_parallel_work env)
           = (if \<not> fst (quality_results env) then Halted FinalTestsFailed
              else if \<not> snd (quality_results env) then Halted TypecheckFailed
              else Completed)"
    and "attempted (snd (integrate_parallel_work env)) = order"
proof -
  let ?s0 = "initial_state\<lparr>branch_created := True\<rparr>"
  have "integrate_agents env (map YStr order) ?s0 = (None, merge_state env order)"
    using integrate_agents_merged [of order env ?s0 "[]"] assms(3)
    by (simp add: all_merged_iff merge_state_def)
  then have r: "integrate_parallel_work env
      = (if \<not> fst (quality_results env) then (Halted FinalTestsFailed, merge_state env order)
         else if \<not> snd (quality_results env) then (Halted TypecheckFailed, merge_state env order)
         else (Completed, (merge_state env order)\<lparr>reported := True\<rparr>))"
    using assms(1,2) by (simp add: integrate_parallel_work_def)
  then show "fst (integrate_parallel_work env)
           = (if \<not> fst (quality_results env) then Halted FinalTestsFailed
              else if \<not> snd (quality_results env) then Halted TypecheckFailed
              else Completed)"
    by simp
  from r show "attempted (snd (integrate_parallel_work env)) = order"
    by (simp add: attempted_merge_state)
qed

lemma load_integration_order_key:
  assumes "check_validation (validation_status_file env) = None"
    and "find_deployment_plan (deployment_dir env) = Some (path, Some (YMap kvs))"
    and "map_of kvs ''integration_order'' = Some (str_list order)"
  shows "load_integration_order env = Inr (map YStr order)"
  using assms(1,2) read_integration_order_key [OF assms(3)]
  by (simp add: load_integration_order_def)

text \<open>
  C2, amended. With validation passed, the integration reads the merge order from the
  top-level key \<^verbatim>\<open>integration_order\<close> of the plan document it finds and calls
  \<^verbatim>\<open>integrate_agent\<close> for the agents in that order, up to the first that fails:
  \<^item> the agents \<^verbatim>\<open>integrate_agent\<close> was called for are a prefix of the order, and the
    whole order when the run completes;
  \<^item> when the order is \<open>pre\<close>, \<open>a\<close>, \<open>post\<close>, the call returned \<^verbatim>\<open>True\<close> for every
    agent of \<open>pre\<close> and did not for \<open>a\<close>, the run halts at \<open>a\<close> (with
    \<open>AgentFailed a\<close> when the call returned \<^verbatim>\<open>False\<close>, with the exception when it
    raised), in the state reached by the calls for \<open>pre\<close> and \<open>a\<close>: the agents
    called are exactly \<open>pre\<close> and \<open>a\<close>, none of \<open>post\<close>;
  \<^item> when the call returned \<^verbatim>\<open>True\<close> for every agent of the order, all of them were
    called, and the run ends as the final tests and the type check decide.

  A deployment plan as the decomposition stage saves it carries its merge order under
  \<^verbatim>\<open>integrationPlan.mergeOrder\<close> and has no \<^verbatim>\<open>integration_order\<close> key: the integration
  rejects it as an invalid plan format, with exit code 1, before any agent is merged.
\<close>

theorem integration_reads_integration_order:
  "(check_validation (validation_status_file ienv) = None \<and>
    find_deployment_plan (deployment_dir ienv) = Some (path, Some (YMap kvs)) \<and>
    map_of kvs ''integration_order'' = Some (str_list order) \<and>
    git_checkout_ok ienv \<longrightarrow>
      prefix (attempted (snd (integrate_parallel_work ienv))) order \<and>
      (fst (integrate_parallel_work ienv) = Completed \<longrightarrow>
         attempted (snd (integrate_parallel_work ienv)) = order) \<and>
      (order = pre @ a # post \<and> all_merged ienv pre \<and> merge_result ienv pre a \<noteq> Inr True \<longrightarrow>
         integrate_parallel_work ienv
           = (Halted (case merge_result ienv pre a of
                        Inl e \<Rightarrow> Uncaught e | Inr ok \<Rightarrow> AgentFailed a),
              merge_state ienv (pre @ [a])) \<and>
         attempted (merge_state ienv (pre @ [a])) = pre @ [a]) \<and>
      (all_merged ienv order \<longrightarrow>
         attempted (snd (integrate_parallel_work ienv)) = order \<and>
         fst (integrate_parallel_work ienv)
           = (if \<not> fst (quality_results ienv) then Halted FinalTestsFailed
              else if \<not> snd (quality_results ienv) then Halted TypecheckFailed
              else Completed))) \<and>
   (decompose_with table renv iid = Inr r \<and> saved_plan r = Some saved \<and>
    deployment_dir ienv' = [(fst saved, Some (snd saved))] \<and>
    check_validation (validation_status_file ienv') = None \<longrightarrow>
      integrate_parallel_work ienv' = (Halted InvalidPlanFormat, initial_state) \<and>
      exit_code (Halted InvalidPlanFormat) = 1 \<and>
      (\<exists>merge_order.
         and_then (py_item (snd saved) ''integrationPlan'') (\<lambda>ip. py_item ip ''mergeOrder'')
           = Inr (str_list merge_order)))"
proof -
  have first: "prefix (attempted (snd (integrate_parallel_work ienv))) order \<and>
      (fst (integrate_parallel_work ienv) = Completed \<longrightarrow>
         attempted (snd (integrate_parallel_work ienv)) = order) \<and>
      (order = pre @ a # post \<and> all_merged ienv pre \<and> merge_result ienv pre a \<noteq> Inr True \<longrightarrow>
         integrate_parallel_work ienv
           = (Halted (case merge_result ienv pre a of
                        Inl e \<Rightarrow> Uncaught e | Inr ok \<Rightarrow> AgentFailed a),
              merge_state ienv (pre @ [a])) \<and>
         attempted (merge_state ienv (pre @ [a])) = pre @ [a]) \<and>
      (all_merged ienv order \<longrightarrow>
         attempted (snd (integrate_parallel_work ienv)) = order \<and>
         fst (integrate_parallel_work ienv)
           = (if \<not> fst (quality_results ienv) then Halted FinalTestsFailed
              else if \<not> snd (quality_results ienv) then Halted TypecheckFailed
              else Completed))"
    if h: "check_validation (validation_status_file ienv) = None"
      "find_deployment_plan (deployment_dir ienv) = Some (path, Some (YMap kvs))"
      "map_of kvs ''integration_order'' = Some (str_list order)"
      "git_checkout_ok ienv"
  proof -
    note l = load_integration_order_key [OF h(1,2,3)]
    from integration_follows_integration_order [OF h]
    have 1: "prefix (attempted (snd (integrate_parallel_work ienv))) order"
      and 2: "fst (integrate_parallel_work ienv) = Completed \<longrightarrow>
                attempted (snd (integrate_parallel_work ienv)) = order"
      by blast+
    have 3: "integrate_parallel_work ienv
           = (Halted (case merge_result ienv pre a of
                        Inl e \<Rightarrow> Uncaught e | Inr ok \<Rightarrow> AgentFailed a),
              merge_state ienv (pre @ [a])) \<and>
         attempted (merge_state ienv (pre @ [a])) = pre @ [a]"
      if "order = pre @ a # post" "all_merged ienv pre" "merge_result ienv pre a \<noteq> Inr True"
      using integration_stops_at_first_failure [of ienv pre a post] l that h(4)
      by (simp add: attempted_merge_state)
    have 4: "attempted (snd (integrate_parallel_work ienv)) = order \<and>
         fst (integrate_parallel_work ienv)
           = (if \<not> fst (quality_results ienv) then Halted FinalTestsFailed
              else if \<not> snd (quality_results ienv) then Halted TypecheckFailed
              else Completed)"
      if "all_merged ienv order"
      using integration_merges_all [OF l h(4) that] by blast
    from 1 2 3 4 show ?thesis by blast
  qed
  with persisted_plan_rejected [of table renv iid r saved ienv'] show ?thesis
    by blast
qed

theorem integration_reads_integration_order_witness:
  "check_validation (validation_status_file
      (example_integration_env [(''plan.yaml'', Some order_plan)])) = None \<and>
   find_deployment_plan (deployment_dir (example_integration_env [(''plan.yaml'', Some order_plan)]))
     = Some (''plan.yaml'',
             Some (YMap [(''integration_order'',
                          str_list [''x_agent'', ''y_agent'', ''z_agent''])])) \<and>
   git_checkout_ok (example_integration_env [(''plan.yaml'', Some order_plan)]) \<and>
   all_merged (example_integration_env [(''plan.yaml'', Some order_plan)]) [''x_agent''] \<and>
   merge_result (example_integration_env [(''plan.yaml'', Some order_plan)]) [''x_agent'']
     ''y_agent'' = Inr False \<and>
   integrate_parallel_work (example_integration_env [(''plan.yaml'', Some order_plan)])
     = (Halted (AgentFailed ''y_agent''),
        merge_state (example_integration_env [(''plan.yaml'', Some order_plan)])
          [''x_agent'', ''y_agent'']) \<and>
   attempted (merge_state (example_integration_env [(''plan.yaml'', Some order_plan)])
     [''x_agent'', ''y_agent'']) = [''x_agent'', ''y_agent''] \<and>
   all_merged (example_integration_env [(''plan.yaml'', Some passing_plan)])
     [''x_agent'', ''z_agent''] \<and>
   fst (integrate_parallel_work (example_integration_env [(''plan.yaml'', Some passing_plan)]))
     = Completed \<and>
   attempted (snd (integrate_parallel_work
      (example_integration_env [(''plan.yaml'', Some passing_plan)]))) = [''x_agent'', ''z_agent''] \<and>
   decompose_with patterns pattern_env ''ABC-1''
     = Inr \<lparr>plan = empty_plan, saved_plan = Some (''abc-1-deployment-plan.yaml'', empty_plan)\<rparr> \<and>
   check_validation (validation_status_file
      (example_integration_env [(''abc-1-deployment-plan.yaml'', Some empty_plan)])) = None \<and>
   integrate_parallel_work (example_integration_env [(''abc-1-deployment-plan.yaml'', Some empty_plan)])
     = (Halted InvalidPlanFormat, initial_state)"
proof -
  let ?fenv = "example_integration_env [(''plan.yaml'', Some order_plan)]"
  let ?fkvs = "[(''integration_order'', str_list [''x_agent'', ''y_agent'', ''z_agent''])]"
  let ?penv = "example_integration_env [(''plan.yaml'', Some passing_plan)]"
  let ?pkvs = "[(''integration_order'', str_list [''x_agent'', ''z_agent''])]"
  let ?ienv = "example_integration_env [(''abc-1-deployment-plan.yaml'', Some empty_plan)]"
  let ?r = "\<lparr>plan = empty_plan, saved_plan = Some (''abc-1-deployment-plan.yaml'', empty_plan)\<rparr>"
  have f1: "check_validation (validation_status_file ?fenv) = None"
    by code_simp
  have f2: "find_deployment_plan (deployment_dir ?fenv) = Some (''plan.yaml'', Some (YMap ?fkvs))"
    by code_simp
  have f3: "map_of ?fkvs ''integration_order''
              = Some (str_list ([''x_agent''] @ ''y_agent'' # [''z_agent'']))"
    by simp
  have f4: "git_checkout_ok ?fenv"
    by (simp add: example_integration_env_def)
  have f6: "all_merged ?fenv [''x_agent'']"
    by code_simp
  have f7: "merge_result ?fenv [''x_agent''] ''y_agent'' = Inr False"
    by code_simp
  then have f8: "merge_result ?fenv [''x_agent''] ''y_agent'' \<noteq> Inr True"
    by simp
  have a1: "check_validation (validation_status_file ?penv) = None"
    by code_simp
  have a2: "find_deployment_plan (deployment_dir ?penv) = Some (''plan.yaml'', Some (YMap ?pkvs))"
    by code_simp
  have a3: "map_of ?pkvs ''integration_order'' = Some (str_list [''x_agent'', ''z_agent''])"
    by simp
  have a4: "git_checkout_ok ?penv"
    by (simp add: example_integration_env_def)
  have a5: "all_merged ?penv [''x_agent'', ''z_agent'']"
    by code_simp
  have a6: "fst (quality_results ?penv)" "snd (quality_results ?penv)"
    by (simp_all add: quality_results_def example_integration_env_def)
  have b1: "decompose_with patterns pattern_env ''ABC-1'' = Inr ?r"
    by code_simp
  have b2: "saved_plan ?r = Some (''abc-1-deployment-plan.yaml'', empty_plan)"
    by simp
  have b3: "deployment_dir ?ienv =
              [(fst (''abc-1-deployment-plan.yaml'', empty_plan),
                Some (snd (''abc-1-deployment-plan.yaml'', empty_plan)))]"
    by (simp add: example_integration_env_def)
  have b4: "check_validation (validation_status_file ?ienv) = None"
    by code_simp
  note failing = integration_reads_integration_order
         [of ?fenv "''plan.yaml''" ?fkvs "[''x_agent''] @ ''y_agent'' # [''z_agent'']"
             "[''x_agent'']" "''y_agent''" "[''z_agent'']" patterns pattern_env
             "''ABC-1''" ?r "(''abc-1-deployment-plan.yaml'', empty_plan)" ?ienv]
  from failing f1 f2 f3 f4 f6 f8
  have "integrate_parallel_work ?fenv
          = (Halted (case merge_result ?fenv [''x_agent''] ''y_agent'' of
                       Inl e \<Rightarrow> Uncaught e | Inr ok \<Rightarrow> AgentFailed ''y_agent''),
             merge_state ?fenv ([''x_agent''] @ [''y_agent''])) \<and>
         attempted (merge_state ?fenv ([''x_agent''] @ [''y_agent'']))
          = [''x_agent''] @ [''y_agent'']"
    by blast
  then have f: "integrate_parallel_work ?fenv
             = (Halted (AgentFailed ''y_agent''), merge_state ?fenv [''x_agent'', ''y_agent''])"
    "attempted (merge_state ?fenv [''x_agent'', ''y_agent'']) = [''x_agent'', ''y_agent'']"
    by (simp_all add: f7)
  from failing b1 b2 b3 b4
  have i: "integrate_parallel_work ?ienv = (Halted InvalidPlanFormat, initial_state)"
    by blast
  note passing = integration_reads_integration_order
         [of ?penv "''plan.yaml''" ?pkvs "[''x_agent'', ''z_agent'']"
             "[]" "''x_agent''" "[''z_agent'']" patterns pattern_env
             "''ABC-1''" ?r "(''abc-1-deployment-plan.yaml'', empty_plan)" ?ienv]
  from passing a1 a2 a3 a4 a5
  have "attempted (snd (integrate_parallel_work ?penv)) = [''x_agent'', ''z_agent''] \<and>
        fst (integrate_parallel_work ?penv)
          = (if \<not> fst (quality_results ?penv) then Halted FinalTestsFailed
             else if \<not> snd (quality_results ?penv) then Halted TypecheckFailed
             else Completed)"
    by blast
  then have p: "fst (integrate_parallel_work ?penv) = Completed"
    "attempted (snd (integrate_parallel_work ?penv)) = [''x_agent'', ''z_agent'']"
    by (simp_all add: a6)
  show ?thesis
    using f1 f2 f4 f6 f7 f a5 p b1 b4 i by (intro conjI)
qed

section \<open>Claims about the hybrid analysis\<close>

lemma pattern_decompose_fallback:
  "pattern_decompose patterns (example_llm_env c agents_doc) (fallback_issue ''ABC-1'')
     = Inr \<lparr>plan = empty_plan, saved_plan = Some (''abc-1-deployment-plan.yaml'', empty_plan)\<rparr>"
  by code_simp

lemma convert_api_entry:
  "map_sum id (\<lambda>p. py_item p ''decompositionStrategy'')
     (convert_llm_result_to_deployment_plan fmt (fallback_issue ''ABC-1'')
        (YMap [(''confidence'', c), (''agents'', YList [api_entry])]))
   = Inr (Inr (YStr ''llm_hybrid''))"
  by code_simp

text \<open>
  C6 as stated fails: with hybrid analysis enabled and an analyzer result of confidence
  0.9 (at least 0.8) whose agent entry has no \<^verbatim>\<open>agentId\<close>, the conversion raises, the
  exception is caught, and \<^verbatim>\<open>decompose\<close> returns and saves the plan of the pattern-based
  pipeline.
\<close>

theorem confident_result_not_used:
  "confidence_reached (YReal 0.9) = Inr True \<and>
   decompose (example_llm_env (YReal 0.9) (YList [entry_without_id])) ''ABC-1''
     = Inr \<lparr>plan = empty_plan, saved_plan = Some (''abc-1-deployment-plan.yaml'', empty_plan)\<rparr>"
proof -
  have c: "confidence_reached (YReal 0.9) = Inr True"
    by (simp add: confidence_reached_def confidence_threshold_def)
  have "convert_llm_agent fmt entry_without_id = Inl (KeyError ''agentId'')" for fmt
    by (simp add: convert_llm_agent_def entry_without_id_def py_item_def and_then_def)
  then have "try_hybrid_analysis fmt (fallback_issue ''ABC-1'')
          (Returned (YMap [(''confidence'', YReal 0.9), (''agents'', YList [entry_without_id])]))
        = None" for fmt
    using c
    by (simp add: try_hybrid_analysis_def py_item_def convert_llm_result_to_deployment_plan_def
          llm_agents_def py_iter_def and_then_def)
  then have "decompose (example_llm_env (YReal 0.9) (YList [entry_without_id])) ''ABC-1''
        = pattern_decompose patterns (example_llm_env (YReal 0.9) (YList [entry_without_id]))
            (fallback_issue ''ABC-1'')"
    by (simp add: decompose_def decompose_with_def example_llm_env_def load_fallback and_then_def)
  with c pattern_decompose_fallback show ?thesis by simp
qed

lemma confidence_reached_number:
  "py_number conf = Some c \<Longrightarrow> confidence_reached conf = Inr (c \<ge> 0.8)"
  by (cases conf)
     (auto simp: py_number_def confidence_reached_def confidence_threshold_def split: if_splits)

lemma confidence_reached_no_number:
  "py_number conf = None \<Longrightarrow> confidence_reached conf = Inl TypeError"
  by (cases conf) (auto simp: py_number_def confidence_reached_def)

text \<open>
  The other ways into the pattern-based pipeline: hybrid analysis is switched off, the
  analyzer cannot be imported or raises, or its result has no numeric confidence.
\<close>

lemma hybrid_unavailable:
  assumes "load_linear_issue (linear_cache env iid) iid = Inr issue"
    and "\<not> use_hybrid_analysis env \<or>
         llm_decomposer env (hybrid_description issue) = ImportFailed \<or>
         llm_decomposer env (hybrid_description issue) = AnalyzerRaised \<or>
         (\<exists>llm_result. llm_decomposer env (hybrid_description issue) = Returned llm_result \<and>
            (\<forall>conf. py_item llm_result ''confidence'' = Inr conf \<longrightarrow> py_number conf = None))"
  shows "decompose_with table env iid = pattern_decompose table env issue"
proof -
  have "try_hybrid_analysis fmt issue (Returned llm_result) = None"
    if "\<forall>conf. py_item llm_result ''confidence'' = Inr conf \<longrightarrow> py_number conf = None"
    for fmt llm_result
    using that
    by (cases "py_item llm_result ''confidence''")
       (auto simp: try_hybrid_analysis_def confidence_reached_no_number)
  with assms show ?thesis
    by (auto simp: decompose_with_def and_then_def try_hybrid_analysis_def)
qed

text \<open>
  C6, amended. When hybrid analysis is enabled and the analyzer returns a result with a
  numeric confidence c (a float, an integer, or a Boolean counted as 0 or 1), the
  decomposition returns the analyzer's output, converted into a deployment plan, exactly
  when c is at least 0.8 and the conversion raises no error; the pattern-based pipeline
  is then skipped (and nothing is saved). When c is below 0.8, and also when the
  conversion raises, the result is that of the pattern-based pipeline.
\<close>

theorem hybrid_threshold:
  assumes "load_linear_issue (linear_cache env iid) iid = Inr issue"
    and "use_hybrid_analysis env"
    and "llm_decomposer env (hybrid_description issue) = Returned llm_result"
    and "py_item llm_result ''confidence'' = Inr conf"
    and "py_number conf = Some c"
  shows "decompose_with table env iid =
           (if c \<ge> 0.8
            then (case convert_llm_result_to_deployment_plan (value_text env) issue llm_result of
                    Inr p \<Rightarrow> Inr \<lparr>plan = p, saved_plan = None\<rparr>
                  | Inl e \<Rightarrow> pattern_decompose table env issue)
            else pattern_decompose table env issue)"
  using assms confidence_reached_number [of conf c]
  by (auto simp: decompose_with_def and_then_def try_hybrid_analysis_def split: sum.splits)

theorem hybrid_threshold_witness:
  "load_linear_issue (linear_cache (example_llm_env (YReal 0.9) (YList [api_entry])) ''ABC-1'')
     ''ABC-1'' = Inr (fallback_issue ''ABC-1'') \<and>
   use_hybrid_analysis (example_llm_env (YReal 0.9) (YList [api_entry])) \<and>
   llm_decomposer (example_llm_env (YReal 0.9) (YList [api_entry]))
     (hybrid_description (fallback_issue ''ABC-1''))
     = Returned (YMap [(''confidence'', YReal 0.9), (''agents'', YList [api_entry])]) \<and>
   py_item (YMap [(''confidence'', YReal 0.9), (''agents'', YList [api_entry])]) ''confidence''
     = Inr (YReal 0.9) \<and>
   py_number (YReal 0.9) = Some 0.9 \<and>
   map_sum id saved_plan
     (decompose_with patterns (example_llm_env (YReal 0.9) (YList [api_entry])) ''ABC-1'')
     = Inr None \<and>
   and_then (decompose_with patterns (example_llm_env (YReal 0.9) (YList [api_entry])) ''ABC-1'')
     (\<lambda>r. py_item (plan r) ''decompositionStrategy'') = Inr (YStr ''llm_hybrid'') \<and>
   py_number (YInt 0) = Some 0 \<and>
   decompose_with patterns (example_llm_env (YInt 0) (YList [api_entry])) ''ABC-1''
     = Inr \<lparr>plan = empty_plan, saved_plan = Some (''abc-1-deployment-plan.yaml'', empty_plan)\<rparr>"
proof -
  let ?env = "example_llm_env (YReal 0.9) (YList [api_entry])"
  let ?res = "YMap [(''confidence'', YReal 0.9), (''agents'', YList [api_entry])]"
  let ?lowenv = "example_llm_env (YInt 0) (YList [api_entry])"
  let ?lowres = "YMap [(''confidence'', YInt 0), (''agents'', YList [api_entry])]"
  have 1: "load_linear_issue (linear_cache ?env ''ABC-1'') ''ABC-1'' = Inr (fallback_issue ''ABC-1'')"
    by (simp add: example_llm_env_def load_fallback)
  have 2: "use_hybrid_analysis ?env"
    by (simp add: example_llm_env_def)
  have 3: "llm_decomposer ?env (hybrid_description (fallback_issue ''ABC-1'')) = Returned ?res"
    by (simp add: example_llm_env_def)
  have 4: "py_item ?res ''confidence'' = Inr (YReal 0.9)"
    by (simp add: py_item_def)
  have 5: "py_number (YReal 0.9) = Some 0.9"
    by (simp add: py_number_def)
  from convert_api_entry [of "value_text ?env" "YReal 0.9"] obtain p where
    p: "convert_llm_result_to_deployment_plan (value_text ?env) (fallback_issue ''ABC-1'') ?res
          = Inr p"
       "py_item p ''decompositionStrategy'' = Inr (YStr ''llm_hybrid'')"
    by (cases "convert_llm_result_to_deployment_plan (value_text ?env)
                 (fallback_issue ''ABC-1'') ?res") auto
  from hybrid_threshold [OF 1 2 3 4 5, of patterns] p(1)
  have r: "decompose_with patterns ?env ''ABC-1'' = Inr \<lparr>plan = p, saved_plan = None\<rparr>"
    by simp
  have 6: "load_linear_issue (linear_cache ?lowenv ''ABC-1'') ''ABC-1''
             = Inr (fallback_issue ''ABC-1'')"
    by (simp add: example_llm_env_def load_fallback)
  have 7: "use_hybrid_analysis ?lowenv"
    by (simp add: example_llm_env_def)
  have 8: "llm_decomposer ?lowenv (hybrid_description (fallback_issue ''ABC-1'')) = Returned ?lowres"
    by (simp add: example_llm_env_def)
  have 9: "py_item ?lowres ''confidence'' = Inr (YInt 0)"
    by (simp add: py_item_def)
  have 10: "py_number (YInt 0) = Some 0"
    by (simp add: py_number_def)
  from hybrid_threshold [OF 6 7 8 9 10, of patterns]
  have "decompose_with patterns ?lowenv ''ABC-1''
          = pattern_decompose patterns ?lowenv (fallback_issue ''ABC-1'')"
    by simp
  with pattern_decompose_fallback [of "YInt 0" "YList [api_entry]"]
  have r0: "decompose_with patterns ?lowenv ''ABC-1''
              = Inr \<lparr>plan = empty_plan,
                     saved_plan = Some (''abc-1-deployment-plan.yaml'', empty_plan)\<rparr>"
    by simp
  from r 1 2 3 4 5 p(2) 10 r0 show ?thesis by (simp add: and_then_def)
qed
end
